theory Spec2Isabelle
  imports Main "HOL-Library.AList" "HOL-Library.List_Lexorder" "HOL-Library.Char_ord"
begin

section \<open>Go strings as byte lists\<close>

text \<open>
  A Go \<^verbatim>\<open>string\<close> is a sequence of bytes; it is modelled as \<^typ>\<open>string\<close>, a list of
  8-bit characters. Text outside ASCII that occurs in the program's literals is written as
  its UTF-8 bytes. The functions of this section are the ones of the Go standard library
  that the program calls (\<^verbatim>\<open>strings.HasPrefix\<close>, \<^verbatim>\<open>strings.TrimSuffix\<close>,
  \<^verbatim>\<open>strings.ReplaceAll\<close>, \<^verbatim>\<open>strings.TrimSpace\<close>, \<^verbatim>\<open>strings.Split\<close>,
  \<^verbatim>\<open>strings.ToLower\<close>, \<^verbatim>\<open>strconv.Atoi\<close>, the verbs \<^verbatim>\<open>%d\<close> and \<^verbatim>\<open>%.100s\<close>
  of \<^verbatim>\<open>fmt\<close>).
\<close>

definition HasPrefix :: "string \<Rightarrow> string \<Rightarrow> bool" where
  "HasPrefix s p = (length p \<le> length s \<and> take (length p) s = p)"

definition HasSuffix :: "string \<Rightarrow> string \<Rightarrow> bool" where
  "HasSuffix s suf = (length suf \<le> length s \<and> drop (length s - length suf) s = suf)"

definition TrimSuffix :: "string \<Rightarrow> string \<Rightarrow> string" where
  "TrimSuffix s suf = (if HasSuffix s suf then take (length s - length suf) s else s)"

text \<open>\<^verbatim>\<open>strings.Contains(s, sub)\<close>: \<open>sub\<close> occurs in \<open>s\<close> at some byte offset.\<close>

fun Contains :: "string \<Rightarrow> string \<Rightarrow> bool" where
  "Contains [] sub = (sub = [])"
| "Contains (c # cs) sub = (HasPrefix (c # cs) sub \<or> Contains cs sub)"

subsection \<open>UTF-8 sequences\<close>

text \<open>
  \<^verbatim>\<open>utf8.DecodeRuneInString\<close> returns a rune and the number of bytes it occupies. Only
  the width matters here. A byte that does not start a well-formed sequence (a stray
  continuation byte, \<^verbatim>\<open>0xC0\<close>, \<^verbatim>\<open>0xC1\<close>, \<^verbatim>\<open>0xF5\<close> and above, a truncated or
  ill-continued sequence) is a sequence of width 1. The bounds on the second byte are the
  accept ranges of Go's decoder.
\<close>

definition contb :: "char \<Rightarrow> bool" where
  "contb c = (0x80 \<le> (of_char c :: nat) \<and> (of_char c :: nat) \<le> 0xBF)"

fun DecodeRuneWidth :: "string \<Rightarrow> nat" where
  "DecodeRuneWidth [] = 0"
| "DecodeRuneWidth (s0 # rest) =
     (let b = (of_char s0 :: nat) in
      if b < 0x80 then 1
      else if b < 0xC2 \<or> 0xF4 < b then 1
      else
        let sz = (if b < 0xE0 then 2 else if b < 0xF0 then 3 else 4 :: nat);
            lo = (if b = 0xE0 then 0xA0 else if b = 0xF0 then 0x90 else 0x80 :: nat);
            hi = (if b = 0xED then 0x9F else if b = 0xF4 then 0x8F else 0xBF :: nat)
        in if Suc (length rest) < sz then 1
           else if (of_char (rest ! 0) :: nat) < lo \<or> hi < (of_char (rest ! 0) :: nat) then 1
           else if sz \<le> 2 then 2
           else if \<not> contb (rest ! 1) then 1
           else if sz \<le> 3 then 3
           else if \<not> contb (rest ! 2) then 1
           else 4)"

lemma DecodeRuneWidth_pos: "s \<noteq> [] \<Longrightarrow> 0 < DecodeRuneWidth s"
  by (cases s) (auto simp: Let_def)

lemma DecodeRuneWidth_le: "DecodeRuneWidth s \<le> length s"
  by (cases s) (auto simp: Let_def Suc_le_eq split: if_splits)

lemma DecodeRuneWidth_ascii: "(of_char c :: nat) < 0x80 \<Longrightarrow> DecodeRuneWidth (c # cs) = 1"
  by simp

text \<open>The UTF-8 sequences of a string, in order: what \<^verbatim>\<open>for range s\<close> steps over.\<close>

function runes :: "string \<Rightarrow> string list" where
  "runes s =
     (if s = [] then []
      else take (DecodeRuneWidth s) s # runes (drop (DecodeRuneWidth s) s))"
  by pat_completeness auto
termination
  by (relation "measure length") (auto simp: DecodeRuneWidth_pos)

declare runes.simps [simp del]

text \<open>\<^verbatim>\<open>%.Ns\<close>: the precision of a string verb counts UTF-8 sequences, not bytes.\<close>

definition takeRunes :: "nat \<Rightarrow> string \<Rightarrow> string" where
  "takeRunes n s = concat (take n (runes s))"

subsection \<open>\<^verbatim>\<open>strings.ReplaceAll\<close>\<close>

text \<open>
  \<^verbatim>\<open>ReplaceAll(s, old, new)\<close> is \<^verbatim>\<open>Replace(s, old, new, -1)\<close>. It returns \<open>s\<close> when
  \<open>old = new\<close>. With a non-empty \<open>old\<close> it replaces the occurrences found by scanning
  left to right, each search starting after the previous match (\<open>replaceFrom\<close>); a string
  with no occurrence comes back unchanged. With the empty \<open>old\<close> the library counts one
  match at the start and one after every UTF-8 sequence: \<open>new\<close> is written first, and
  again after each sequence (\<open>replaceEmpty\<close> is the part after the first \<open>new\<close>).
\<close>

fun replaceFrom :: "string \<Rightarrow> string \<Rightarrow> string \<Rightarrow> string" where
  "replaceFrom old new [] = []"
| "replaceFrom old new (c # cs) =
     (if old \<noteq> [] \<and> HasPrefix (c # cs) old
      then new @ replaceFrom old new (drop (length old) (c # cs))
      else c # replaceFrom old new cs)"

function replaceEmpty :: "string \<Rightarrow> string \<Rightarrow> string" where
  "replaceEmpty new s =
     (if s = [] then []
      else take (DecodeRuneWidth s) s @ new @ replaceEmpty new (drop (DecodeRuneWidth s) s))"
  by pat_completeness auto
termination
  by (relation "measure (\<lambda>(new, s). length s)") (auto simp: DecodeRuneWidth_pos)

declare replaceEmpty.simps [simp del]

definition ReplaceAll :: "string \<Rightarrow> string \<Rightarrow> string \<Rightarrow> string" where
  "ReplaceAll s old new =
     (if old = new then s
      else if old = [] then new @ replaceEmpty new s
      else replaceFrom old new s)"

subsection \<open>\<^verbatim>\<open>strings.TrimSpace\<close>, \<^verbatim>\<open>strings.Split\<close>, \<^verbatim>\<open>strings.ToLower\<close>\<close>

text \<open>
  \<^verbatim>\<open>TrimSpace\<close> removes the leading and trailing white space as Unicode defines it:
  six ASCII characters, U+0085 and U+00A0, and the White_Space characters beyond Latin-1
  (U+1680, U+2000 to U+200A, U+2028, U+2029, U+202F, U+205F, U+3000). \<open>spaceSeqs\<close> lists
  their UTF-8 encodings.
\<close>

definition spaceSeqs :: "string list" where
  "spaceSeqs =
     [[CHR 0x09], [CHR 0x0A], [CHR 0x0B], [CHR 0x0C], [CHR 0x0D], [CHR 0x20],
      [CHR 0xC2, CHR 0x85], [CHR 0xC2, CHR 0xA0],
      [CHR 0xE1, CHR 0x9A, CHR 0x80],
      [CHR 0xE2, CHR 0x80, CHR 0x80], [CHR 0xE2, CHR 0x80, CHR 0x81],
      [CHR 0xE2, CHR 0x80, CHR 0x82], [CHR 0xE2, CHR 0x80, CHR 0x83],
      [CHR 0xE2, CHR 0x80, CHR 0x84], [CHR 0xE2, CHR 0x80, CHR 0x85],
      [CHR 0xE2, CHR 0x80, CHR 0x86], [CHR 0xE2, CHR 0x80, CHR 0x87],
      [CHR 0xE2, CHR 0x80, CHR 0x88], [CHR 0xE2, CHR 0x80, CHR 0x89],
      [CHR 0xE2, CHR 0x80, CHR 0x8A],
      [CHR 0xE2, CHR 0x80, CHR 0xA8], [CHR 0xE2, CHR 0x80, CHR 0xA9],
      [CHR 0xE2, CHR 0x80, CHR 0xAF], [CHR 0xE2, CHR 0x81, CHR 0x9F],
      [CHR 0xE3, CHR 0x80, CHR 0x80]]"

definition leadingSpace :: "string \<Rightarrow> nat" where
  "leadingSpace s = (case filter (HasPrefix s) spaceSeqs of [] \<Rightarrow> 0 | q # _ \<Rightarrow> length q)"

definition trailingSpace :: "string \<Rightarrow> nat" where
  "trailingSpace s = (case filter (HasSuffix s) spaceSeqs of [] \<Rightarrow> 0 | q # _ \<Rightarrow> length q)"

lemma spaceSeqs_nonempty: "q \<in> set spaceSeqs \<Longrightarrow> q \<noteq> []"
  by (auto simp: spaceSeqs_def)

lemma leadingSpace_le: "leadingSpace s \<le> length s"
proof (cases "filter (HasPrefix s) spaceSeqs")
  case Nil
  then show ?thesis by (simp add: leadingSpace_def)
next
  case (Cons q qs)
  then have "q \<in> set (filter (HasPrefix s) spaceSeqs)" by simp
  then have "HasPrefix s q" by simp
  then show ?thesis using Cons by (simp add: leadingSpace_def HasPrefix_def)
qed

lemma trailingSpace_le: "trailingSpace s \<le> length s"
proof (cases "filter (HasSuffix s) spaceSeqs")
  case Nil
  then show ?thesis by (simp add: trailingSpace_def)
next
  case (Cons q qs)
  then have "q \<in> set (filter (HasSuffix s) spaceSeqs)" by simp
  then have "HasSuffix s q" by simp
  then show ?thesis using Cons by (simp add: trailingSpace_def HasSuffix_def)
qed

function trimLeft :: "string \<Rightarrow> string" where
  "trimLeft s = (if leadingSpace s = 0 then s else trimLeft (drop (leadingSpace s) s))"
  by pat_completeness auto
termination
proof (relation "measure length")
  show "wf (measure length)" by simp
next
  fix s :: string
  assume "leadingSpace s \<noteq> 0"
  then have "0 < leadingSpace s" by simp
  moreover have "leadingSpace s \<le> length s" by (rule leadingSpace_le)
  ultimately show "(drop (leadingSpace s) s, s) \<in> measure length" by simp
qed

function trimRight :: "string \<Rightarrow> string" where
  "trimRight s =
     (if trailingSpace s = 0 then s else trimRight (take (length s - trailingSpace s) s))"
  by pat_completeness auto
termination
proof (relation "measure length")
  show "wf (measure length)" by simp
next
  fix s :: string
  assume "trailingSpace s \<noteq> 0"
  then have "0 < trailingSpace s" by simp
  moreover have "trailingSpace s \<le> length s" by (rule trailingSpace_le)
  ultimately show "(take (length s - trailingSpace s) s, s) \<in> measure length" by simp
qed

declare trimLeft.simps [simp del] trimRight.simps [simp del]

definition TrimSpace :: "string \<Rightarrow> string" where
  "TrimSpace s = trimRight (trimLeft s)"

text \<open>
  \<^verbatim>\<open>strings.Split(s, sep)\<close> for a separator of one byte, the only use the program makes
  of it (\<^verbatim>\<open>","\<close>). The result is never empty: the empty string splits into one empty
  part.
\<close>

fun Split :: "string \<Rightarrow> char \<Rightarrow> string list" where
  "Split [] sep = [[]]"
| "Split (c # cs) sep =
     (if c = sep then [] # Split cs sep
      else (case Split cs sep of [] \<Rightarrow> [[c]] | x # xs \<Rightarrow> (c # x) # xs))"

text \<open>
  \<^verbatim>\<open>strings.ToLower\<close> on the ASCII letters. Go also maps letters outside ASCII; none of
  them maps to an ASCII \<^verbatim>\<open>a\<close> or \<^verbatim>\<open>l\<close>, so the one comparison the model makes
  (with \<^verbatim>\<open>"all"\<close>) reads no such byte.
\<close>

definition toLowerByte :: "char \<Rightarrow> char" where
  "toLowerByte c =
     (if (0x41::nat) \<le> of_char c \<and> (of_char c :: nat) \<le> 0x5A
      then char_of ((of_char c :: nat) + 0x20) else c)"

definition ToLower :: "string \<Rightarrow> string" where
  "ToLower s = map toLowerByte s"

subsection \<open>\<^verbatim>\<open>strconv.Atoi\<close> and \<^verbatim>\<open>%d\<close>\<close>

text \<open>
  \<^verbatim>\<open>Atoi\<close> accepts an optional sign followed by one or more decimal digits, and fails
  (\<open>None\<close>) on anything else and on a value outside the 64-bit \<^verbatim>\<open>int\<close> of the
  platforms the program is built for.
\<close>

definition isDigit :: "char \<Rightarrow> bool" where
  "isDigit c = ((0x30::nat) \<le> of_char c \<and> (of_char c :: nat) \<le> 0x39)"

definition digitVal :: "char \<Rightarrow> int" where
  "digitVal c = int (of_char c) - 0x30"

definition Atoi :: "string \<Rightarrow> int option" where
  "Atoi s =
     (let neg = (s \<noteq> [] \<and> hd s = CHR ''-'');
          body = (if s \<noteq> [] \<and> (hd s = CHR ''-'' \<or> hd s = CHR ''+'') then tl s else s)
      in if body = [] \<or> \<not> list_all isDigit body then None
         else
           let n = foldl (\<lambda>a c. a * 10 + digitVal c) 0 body;
               v = (if neg then - n else n)
           in if v < - (2 ^ 63) \<or> 2 ^ 63 - 1 < v then None else Some v)"

fun natStr :: "nat \<Rightarrow> string" where
  "natStr n = (if n < 10 then [''0123456789'' ! n] else natStr (n div 10) @ [''0123456789'' ! (n mod 10)])"

declare natStr.simps [simp del]

definition intStr :: "int \<Rightarrow> string" where
  "intStr i = (if i < 0 then CHR ''-'' # natStr (nat (- i)) else natStr (nat i))"

section \<open>The AWS gateway (\<^verbatim>\<open>internal/aws/client.go\<close>)\<close>

text \<open>
  The IAM service, the credential configuration, the clock and the JSON and URL codecs lie
  outside the program. They are a parameter of the model, \<open>sdk\<close>. Every answer of the
  service may depend on the whole history of requests made so far and on their outcomes
  (\<open>calls\<close>), so nothing is assumed about the service but that it is deterministic in
  that history. A request is recorded with the client's profile; an error is its text
  (\<^verbatim>\<open>%v\<close> of a Go error). A paginator delivers a finite list of pages, each a page or
  an error; the loops of the program stop at the first error.
\<close>

datatype request =
    LoadDefaultConfigInput string
  | GetRoleInput string string
  | ListRolesInput string
  | ListAttachedRolePoliciesInput string string
  | ListRolePoliciesInput string string
  | GetRolePolicyInput string string string
  | ListRoleTagsInput string string
  | CreateRoleInput string string string "string option"
  | AttachRolePolicyInput string string string
  | PutRolePolicyInput string string string string
  | TagRoleInput string string "(string \<times> string) list"

type_synonym event = "request \<times> string option"

text \<open>The requests that change the destination account.\<close>

fun mutating :: "request \<Rightarrow> bool" where
  "mutating (CreateRoleInput _ _ _ _) = True"
| "mutating (AttachRolePolicyInput _ _ _) = True"
| "mutating (PutRolePolicyInput _ _ _ _) = True"
| "mutating (TagRoleInput _ _ _) = True"
| "mutating _ = False"

record Role =
  Role_RoleName :: string
  Role_Description :: "string option"
  Role_AssumeRolePolicyDocument :: "string option"

record 'j sdk =
  LoadDefaultConfig :: "event list \<Rightarrow> string \<Rightarrow> string option"
  iamGetRole :: "event list \<Rightarrow> string \<Rightarrow> string \<Rightarrow> string + Role"
  iamListRoles :: "event list \<Rightarrow> string \<Rightarrow> (string + string list) list"
  iamListAttachedRolePolicies ::
    "event list \<Rightarrow> string \<Rightarrow> string \<Rightarrow> (string + string list) list"
  iamListRolePolicies :: "event list \<Rightarrow> string \<Rightarrow> string \<Rightarrow> string + string list"
  iamGetRolePolicy :: "event list \<Rightarrow> string \<Rightarrow> string \<Rightarrow> string \<Rightarrow> string + string option"
  iamListRoleTags :: "event list \<Rightarrow> string \<Rightarrow> string \<Rightarrow> string + (string \<times> string) list"
  iamCreateRole ::
    "event list \<Rightarrow> string \<Rightarrow> string \<Rightarrow> string \<Rightarrow> string option \<Rightarrow> string option"
  iamAttachRolePolicy :: "event list \<Rightarrow> string \<Rightarrow> string \<Rightarrow> string \<Rightarrow> string option"
  iamPutRolePolicy ::
    "event list \<Rightarrow> string \<Rightarrow> string \<Rightarrow> string \<Rightarrow> string \<Rightarrow> string option"
  iamTagRole ::
    "event list \<Rightarrow> string \<Rightarrow> string \<Rightarrow> (string \<times> string) list \<Rightarrow> string option"
  QueryUnescape :: "string \<Rightarrow> string + string"
  Unmarshal :: "string \<Rightarrow> string + 'j"
  MarshalIndent :: "'j \<Rightarrow> string + string"
  Now :: "event list \<Rightarrow> string"

text \<open>
  The state the program acts on: the requests sent so far, the lines written to the
  console (and to the log file), and what is left of standard input.
\<close>

datatype level =
  INFO | SUCCESS | WARNING | ERROR | DEBUG | PROGRESS | HEADER | SEPARATOR | STDOUT

record world =
  calls :: "event list"
  console :: "(level \<times> string) list"
  stdin :: string

definition call :: "request \<Rightarrow> string option \<Rightarrow> world \<Rightarrow> world" where
  "call r e w = w\<lparr>calls := calls w @ [(r, e)]\<rparr>"

datatype Client = Client (profile: string)

record RoleInfo =
  RoleName :: string
  Description :: string
  TrustPolicy :: string
  ManagedPolicies :: "string list"
  InlinePolicies :: "(string \<times> string) list"
  Tags :: "(string \<times> string) list"

text \<open>
  A Go \<^verbatim>\<open>map[string]string\<close> is an association list: \<^verbatim>\<open>m[k] = v\<close> is
  \<^const>\<open>AList.update\<close>, which keeps one entry for each key, and \<^verbatim>\<open>range m\<close> visits
  the entries in the order of the list. Go leaves that order unspecified.
\<close>

definition NewClient :: "'j sdk \<Rightarrow> string \<Rightarrow> world \<Rightarrow> (string + Client) \<times> world" where
  "NewClient lib prof w =
     (case LoadDefaultConfig lib (calls w) prof of
        Some err \<Rightarrow>
          (Inl (''failed to load AWS config for profile '' @ prof @ '': '' @ err),
           call (LoadDefaultConfigInput prof) (Some err) w)
      | None \<Rightarrow> (Inr (Client prof), call (LoadDefaultConfigInput prof) None w))"

fun ListRoles_pages ::
  "string \<Rightarrow> string \<Rightarrow> (string + string list) list \<Rightarrow> string list \<Rightarrow> world
     \<Rightarrow> (string + string list) \<times> world" where
  "ListRoles_pages prof prefix [] allRoles w = (Inr allRoles, w)"
| "ListRoles_pages prof prefix (page # pages) allRoles w =
     (case page of
        Inl err \<Rightarrow> (Inl (''failed to list roles: '' @ err), call (ListRolesInput prof) (Some err) w)
      | Inr roles \<Rightarrow>
          ListRoles_pages prof prefix pages
            (allRoles @ filter (\<lambda>roleName. prefix = [] \<or> HasPrefix roleName prefix) roles)
            (call (ListRolesInput prof) None w))"

definition ListRoles ::
  "'j sdk \<Rightarrow> Client \<Rightarrow> string \<Rightarrow> world \<Rightarrow> (string + string list) \<times> world" where
  "ListRoles lib c prefix w =
     ListRoles_pages (profile c) prefix (iamListRoles lib (calls w) (profile c)) [] w"

definition RoleExists :: "'j sdk \<Rightarrow> Client \<Rightarrow> string \<Rightarrow> world \<Rightarrow> bool \<times> world" where
  "RoleExists lib c roleName w =
     (case iamGetRole lib (calls w) (profile c) roleName of
        Inl err \<Rightarrow> (False, call (GetRoleInput (profile c) roleName) (Some err) w)
      | Inr _ \<Rightarrow> (True, call (GetRoleInput (profile c) roleName) None w))"

definition processStringPolicy :: "'j sdk \<Rightarrow> string \<Rightarrow> string + string" where
  "processStringPolicy lib policyStr =
     (let decoded = (case QueryUnescape lib policyStr of Inl _ \<Rightarrow> policyStr | Inr d \<Rightarrow> d)
      in case Unmarshal lib decoded of
           Inl err \<Rightarrow>
             Inl (''invalid JSON after decoding: '' @ err @ '' (original: '' @ policyStr @ '')'')
         | Inr temp \<Rightarrow>
             (case MarshalIndent lib temp of
                Inl err \<Rightarrow> Inl (''failed to re-marshal policy: '' @ err)
              | Inr bytes \<Rightarrow> Inr bytes))"

text \<open>
  \<^verbatim>\<open>processPolicyDocument\<close> switches on the dynamic type of its argument. Both callers
  pass the \<^verbatim>\<open>*string\<close> of an SDK output, so the model has that branch: a nil pointer is
  an error, anything else goes to \<open>processStringPolicy\<close>.
\<close>

definition processPolicyDocument :: "'j sdk \<Rightarrow> string option \<Rightarrow> string + string" where
  "processPolicyDocument lib policyDoc =
     (case policyDoc of
        None \<Rightarrow> Inl ''policy document is nil''
      | Some v \<Rightarrow> processStringPolicy lib v)"

fun getManagedPolicies_pages ::
  "string \<Rightarrow> string \<Rightarrow> (string + string list) list \<Rightarrow> string list \<Rightarrow> world
     \<Rightarrow> (string + string list) \<times> world" where
  "getManagedPolicies_pages prof roleName [] policies w = (Inr policies, w)"
| "getManagedPolicies_pages prof roleName (page # pages) policies w =
     (case page of
        Inl err \<Rightarrow> (Inl err, call (ListAttachedRolePoliciesInput prof roleName) (Some err) w)
      | Inr arns \<Rightarrow>
          getManagedPolicies_pages prof roleName pages (policies @ arns)
            (call (ListAttachedRolePoliciesInput prof roleName) None w))"

definition getManagedPolicies ::
  "'j sdk \<Rightarrow> Client \<Rightarrow> string \<Rightarrow> world \<Rightarrow> (string + string list) \<times> world" where
  "getManagedPolicies lib c roleName w =
     getManagedPolicies_pages (profile c) roleName
       (iamListAttachedRolePolicies lib (calls w) (profile c) roleName) [] w"

fun getInlinePolicies_names ::
  "'j sdk \<Rightarrow> Client \<Rightarrow> string \<Rightarrow> string list \<Rightarrow> (string \<times> string) list \<Rightarrow> world
     \<Rightarrow> (string + (string \<times> string) list) \<times> world" where
  "getInlinePolicies_names lib c roleName [] policies w = (Inr policies, w)"
| "getInlinePolicies_names lib c roleName (policyName # names) policies w =
     (case iamGetRolePolicy lib (calls w) (profile c) roleName policyName of
        Inl err \<Rightarrow> (Inl err, call (GetRolePolicyInput (profile c) roleName policyName) (Some err) w)
      | Inr doc \<Rightarrow>
          (case processPolicyDocument lib doc of
             Inl err \<Rightarrow>
               (Inl (''failed to process inline policy '' @ policyName @ '': '' @ err),
                call (GetRolePolicyInput (profile c) roleName policyName) None w)
           | Inr policyDoc \<Rightarrow>
               getInlinePolicies_names lib c roleName names
                 (AList.update policyName policyDoc policies)
                 (call (GetRolePolicyInput (profile c) roleName policyName) None w)))"

definition getInlinePolicies ::
  "'j sdk \<Rightarrow> Client \<Rightarrow> string \<Rightarrow> world \<Rightarrow> (string + (string \<times> string) list) \<times> world" where
  "getInlinePolicies lib c roleName w =
     (case iamListRolePolicies lib (calls w) (profile c) roleName of
        Inl err \<Rightarrow> (Inl err, call (ListRolePoliciesInput (profile c) roleName) (Some err) w)
      | Inr names \<Rightarrow>
          getInlinePolicies_names lib c roleName names []
            (call (ListRolePoliciesInput (profile c) roleName) None w))"

definition getRoleTags ::
  "'j sdk \<Rightarrow> Client \<Rightarrow> string \<Rightarrow> world \<Rightarrow> (string + (string \<times> string) list) \<times> world" where
  "getRoleTags lib c roleName w =
     (case iamListRoleTags lib (calls w) (profile c) roleName of
        Inl err \<Rightarrow> (Inl err, call (ListRoleTagsInput (profile c) roleName) (Some err) w)
      | Inr output \<Rightarrow>
          (Inr (fold (\<lambda>(key, val) tags. AList.update key val tags) output []),
           call (ListRoleTagsInput (profile c) roleName) None w))"

definition GetRoleInfo ::
  "'j sdk \<Rightarrow> Client \<Rightarrow> string \<Rightarrow> world \<Rightarrow> (string + RoleInfo) \<times> world" where
  "GetRoleInfo lib c roleName w =
     (case iamGetRole lib (calls w) (profile c) roleName of
        Inl err \<Rightarrow>
          (Inl (''failed to get role '' @ roleName @ '': '' @ err),
           call (GetRoleInput (profile c) roleName) (Some err) w)
      | Inr role \<Rightarrow>
          (let w1 = call (GetRoleInput (profile c) roleName) None w in
           case processPolicyDocument lib (Role_AssumeRolePolicyDocument role) of
             Inl err \<Rightarrow> (Inl (''failed to process trust policy: '' @ err), w1)
           | Inr trustPolicy \<Rightarrow>
               (case getManagedPolicies lib c roleName w1 of
                  (Inl err, w2) \<Rightarrow> (Inl (''failed to get managed policies: '' @ err), w2)
                | (Inr managedPolicies, w2) \<Rightarrow>
                    (case getInlinePolicies lib c roleName w2 of
                       (Inl err, w3) \<Rightarrow> (Inl (''failed to get inline policies: '' @ err), w3)
                     | (Inr inlinePolicies, w3) \<Rightarrow>
                         (case getRoleTags lib c roleName w3 of
                            (Inl err, w4) \<Rightarrow> (Inl (''failed to get tags: '' @ err), w4)
                          | (Inr tags, w4) \<Rightarrow>
                              (Inr \<lparr>RoleName = Role_RoleName role,
                                    Description =
                                      (case Role_Description role of None \<Rightarrow> [] | Some d \<Rightarrow> d),
                                    TrustPolicy = trustPolicy,
                                    ManagedPolicies = managedPolicies,
                                    InlinePolicies = inlinePolicies,
                                    Tags = tags\<rparr>, w4))))))"

definition CreateRole ::
  "'j sdk \<Rightarrow> Client \<Rightarrow> string \<Rightarrow> string \<Rightarrow> string \<Rightarrow> world \<Rightarrow> string option \<times> world" where
  "CreateRole lib c roleName trustPolicy description w =
     (let input = CreateRoleInput (profile c) roleName trustPolicy
                    (if description \<noteq> [] then Some description else None)
      in case iamCreateRole lib (calls w) (profile c) roleName trustPolicy
                (if description \<noteq> [] then Some description else None) of
           Some err \<Rightarrow>
             (Some (''failed to create role '' @ roleName @ '': '' @ err), call input (Some err) w)
         | None \<Rightarrow> (None, call input None w))"

definition AttachManagedPolicy ::
  "'j sdk \<Rightarrow> Client \<Rightarrow> string \<Rightarrow> string \<Rightarrow> world \<Rightarrow> string option \<times> world" where
  "AttachManagedPolicy lib c roleName policyArn w =
     (case iamAttachRolePolicy lib (calls w) (profile c) roleName policyArn of
        Some err \<Rightarrow>
          (Some (''failed to attach policy '' @ policyArn @ '' to role '' @ roleName @ '': '' @ err),
           call (AttachRolePolicyInput (profile c) roleName policyArn) (Some err) w)
      | None \<Rightarrow> (None, call (AttachRolePolicyInput (profile c) roleName policyArn) None w))"

definition CreateInlinePolicy ::
  "'j sdk \<Rightarrow> Client \<Rightarrow> string \<Rightarrow> string \<Rightarrow> string \<Rightarrow> world \<Rightarrow> string option \<times> world" where
  "CreateInlinePolicy lib c roleName policyName policyDocument w =
     (case iamPutRolePolicy lib (calls w) (profile c) roleName policyName policyDocument of
        Some err \<Rightarrow>
          (Some (''failed to create inline policy '' @ policyName @ '' for role '' @ roleName
                 @ '': '' @ err),
           call (PutRolePolicyInput (profile c) roleName policyName policyDocument) (Some err) w)
      | None \<Rightarrow>
          (None, call (PutRolePolicyInput (profile c) roleName policyName policyDocument) None w))"

definition TagRole ::
  "'j sdk \<Rightarrow> Client \<Rightarrow> string \<Rightarrow> (string \<times> string) list \<Rightarrow> world \<Rightarrow> string option \<times> world" where
  "TagRole lib c roleName tags w =
     (if length tags = 0 then (None, w)
      else
        (case iamTagRole lib (calls w) (profile c) roleName tags of
           Some err \<Rightarrow>
             (Some (''failed to tag role '' @ roleName @ '': '' @ err),
              call (TagRoleInput (profile c) roleName tags) (Some err) w)
         | None \<Rightarrow> (None, call (TagRoleInput (profile c) roleName tags) None w)))"

definition ReplacePatternInJSON :: "string \<Rightarrow> string \<Rightarrow> string \<Rightarrow> string" where
  "ReplacePatternInJSON jsonStr sourcePattern destPattern =
     ReplaceAll jsonStr sourcePattern destPattern"

definition GenerateNewRoleName :: "string \<Rightarrow> string \<Rightarrow> string \<Rightarrow> string" where
  "GenerateNewRoleName originalName sourcePattern destPattern =
     ReplaceAll originalName sourcePattern destPattern"

section \<open>The logger (\<^verbatim>\<open>internal/logger\<close>)\<close>

text \<open>
  Every method appends one line to the console; the same line goes to the log file, with a
  time stamp that the model leaves out. \<open>Debug\<close> writes only when the logger is verbose.
\<close>

record Logger =
  verbose :: bool

definition emit :: "level \<Rightarrow> string \<Rightarrow> world \<Rightarrow> world" where
  "emit l message w = w\<lparr>console := console w @ [(l, message)]\<rparr>"

definition Info :: "Logger \<Rightarrow> string \<Rightarrow> world \<Rightarrow> world" where
  "Info log message w = emit INFO message w"

definition Success :: "Logger \<Rightarrow> string \<Rightarrow> world \<Rightarrow> world" where
  "Success log message w = emit SUCCESS message w"

definition Warning :: "Logger \<Rightarrow> string \<Rightarrow> world \<Rightarrow> world" where
  "Warning log message w = emit WARNING message w"

definition Error :: "Logger \<Rightarrow> string \<Rightarrow> world \<Rightarrow> world" where
  "Error log message w = emit ERROR message w"

definition Debug :: "Logger \<Rightarrow> string \<Rightarrow> world \<Rightarrow> world" where
  "Debug log message w = (if \<not> verbose log then w else emit DEBUG message w)"

definition Progress :: "Logger \<Rightarrow> nat \<Rightarrow> nat \<Rightarrow> string \<Rightarrow> world \<Rightarrow> world" where
  "Progress log step n message w =
     emit PROGRESS (''['' @ natStr step @ ''/'' @ natStr n @ ''] '' @ message) w"

definition Separator :: "Logger \<Rightarrow> world \<Rightarrow> world" where
  "Separator log w = emit SEPARATOR ''--------------------------------'' w"

text \<open>\<^verbatim>\<open>fmt.Print\<close> and \<^verbatim>\<open>reader.ReadString('\n')\<close>, whose error the program drops.\<close>

definition Print :: "string \<Rightarrow> world \<Rightarrow> world" where
  "Print str w = emit STDOUT str w"

definition ReadString :: "world \<Rightarrow> string \<times> world" where
  "ReadString w =
     (let line = takeWhile (\<lambda>c. c \<noteq> CHR 0x0A) (stdin w);
          rest = dropWhile (\<lambda>c. c \<noteq> CHR 0x0A) (stdin w)
      in if rest = [] then (line, w\<lparr>stdin := []\<rparr>)
         else (line @ [CHR 0x0A], w\<lparr>stdin := tl rest\<rparr>))"

section \<open>The clone command (\<^verbatim>\<open>cmd/clone.go\<close>)\<close>

record CloneConfig =
  SourceProfile :: string
  DestProfile :: string
  SourcePattern :: string
  DestPattern :: string
  Roles :: "string list"
  Verbose :: bool
  DryRun :: bool
  LogFile :: string

text \<open>The arrow of the messages, U+2192, and the apostrophe.\<close>

definition rarrow :: string where
  "rarrow = [CHR 0xE2, CHR 0x86, CHR 0x92]"

definition apos :: string where
  "apos = [CHR 0x27]"

text \<open>
  A function returns, or the program panics. The one panic in reach of the model is the
  call of a method on the nil destination client.
\<close>

datatype 'a go = Return 'a | Panic string

subsection \<open>Step 2: the patterns\<close>

definition getPatternConfiguration ::
  "CloneConfig \<Rightarrow> Logger \<Rightarrow> world \<Rightarrow> (string option \<times> CloneConfig) \<times> world" where
  "getPatternConfiguration config log w0 =
     (let w1 = Separator log (Info log ''Step 2: Pattern Configuration'' w0);
          (config1, w2) =
            (if SourcePattern config = [] then
               (let (pattern, w') =
                      ReadString (Print (''Enter source pattern (e.g., '' @ apos @ ''dev_'' @ apos
                        @ '', '' @ apos @ ''staging-'' @ apos @ ''): '') w1)
                in (config\<lparr>SourcePattern := TrimSpace pattern\<rparr>, w'))
             else (config, w1));
          (config2, w3) =
            (if DestPattern config1 = [] then
               (let (pattern, w') =
                      ReadString (Print (''Enter destination pattern (e.g., '' @ apos @ ''prod_''
                        @ apos @ '', '' @ apos @ ''live-'' @ apos @ ''): '') w2)
                in (config1\<lparr>DestPattern := TrimSpace pattern\<rparr>, w'))
             else (config1, w2));
          w4 = Success log (''Pattern replacement: '' @ apos @ SourcePattern config2 @ apos @ '' ''
                 @ rarrow @ '' '' @ apos @ DestPattern config2 @ apos) w3;
          exampleRole = SourcePattern config2 @ ''example_role'';
          newExampleRole =
            GenerateNewRoleName exampleRole (SourcePattern config2) (DestPattern config2);
          w5 = Info log (''Example transformation: '' @ exampleRole @ '' '' @ rarrow @ '' ''
                 @ newExampleRole) w4
      in ((None, config2), w5))"

subsection \<open>Step 3: the selection\<close>

fun parseRoleSelection_parts ::
  "string list \<Rightarrow> string list \<Rightarrow> string list \<Rightarrow> string + string list" where
  "parseRoleSelection_parts [] allRoles selectedRoles = Inr selectedRoles"
| "parseRoleSelection_parts (p # parts) allRoles selectedRoles =
     (let part = TrimSpace p in
      if part = [] then parseRoleSelection_parts parts allRoles selectedRoles
      else
        (case Atoi part of
           None \<Rightarrow> Inl (''invalid number: '' @ part)
         | Some index \<Rightarrow>
             if index < 1 \<or> index > int (length allRoles)
             then Inl (''number out of range: '' @ intStr index)
             else parseRoleSelection_parts parts allRoles
                    (selectedRoles @ [allRoles ! nat (index - 1)])))"

definition parseRoleSelection :: "string \<Rightarrow> string list \<Rightarrow> string + string list" where
  "parseRoleSelection selection allRoles =
     parseRoleSelection_parts (Split selection CHR '','') allRoles []"

text \<open>
  The end of \<^verbatim>\<open>discoverAndSelectRoles\<close>, from the prompt for the role numbers on: it
  is reached when the discovery found at least one role, \<open>allRoles\<close>.
\<close>

definition discoverAndSelectRoles_select ::
  "CloneConfig \<Rightarrow> Logger \<Rightarrow> string list \<Rightarrow> world \<Rightarrow> (string option \<times> CloneConfig) \<times> world" where
  "discoverAndSelectRoles_select config log allRoles w0 =
     (let (line, w1) =
            ReadString (Print ([CHR 0x0A] @ ''Enter role numbers to clone (e.g., 1,3,5 or '' @ apos
              @ ''all'' @ apos @ ''): '') w0);
          selection = TrimSpace line
      in if ToLower selection = ''all''
         then ((None, config\<lparr>Roles := allRoles\<rparr>),
               Success log (''Selected all '' @ natStr (length allRoles) @ '' roles'') w1)
         else
           (case parseRoleSelection selection allRoles of
              Inl err \<Rightarrow> ((Some (''invalid selection: '' @ err), config), w1)
            | Inr selectedRoles \<Rightarrow>
                ((None, config\<lparr>Roles := selectedRoles\<rparr>),
                 Success log (''Selected '' @ natStr (length selectedRoles) @ '' roles'') w1)))"

subsection \<open>Step 5: cloning one role\<close>

text \<open>\<^verbatim>\<open>%+v\<close> of a map: the entries in the order of their keys, \<^verbatim>\<open>map[k1:v1 k2:v2]\<close>.\<close>

fun joinWith :: "string \<Rightarrow> string list \<Rightarrow> string" where
  "joinWith sep [] = []"
| "joinWith sep [x] = x"
| "joinWith sep (x # y # ys) = x @ sep @ joinWith sep (y # ys)"

definition fmtMap :: "(string \<times> string) list \<Rightarrow> string" where
  "fmtMap m = ''map['' @ joinWith '' '' (map (\<lambda>(k, v). k @ '':'' @ v) (sort_key fst m)) @ '']''"

text \<open>The three loops of the verbose dry run: they write to the console and nothing else.\<close>

definition cloneSingleRole_dryRunManaged :: "Logger \<Rightarrow> string list \<Rightarrow> world \<Rightarrow> world" where
  "cloneSingleRole_dryRunManaged log policies w =
     fold (\<lambda>policy. Debug log (''    - '' @ policy)) policies w"

definition cloneSingleRole_dryRunInline ::
  "CloneConfig \<Rightarrow> Logger \<Rightarrow> (string \<times> string) list \<Rightarrow> world \<Rightarrow> world" where
  "cloneSingleRole_dryRunInline config log policies w =
     fold (\<lambda>(policyName, policyDocument).
             let newPolicyName =
                   GenerateNewRoleName policyName (SourcePattern config) (DestPattern config)
             in Debug log (''    - '' @ policyName @ '' '' @ rarrow @ '' '' @ newPolicyName))
       policies w"

definition cloneSingleRole_dryRunTags ::
  "CloneConfig \<Rightarrow> Logger \<Rightarrow> (string \<times> string) list \<Rightarrow> world \<Rightarrow> world" where
  "cloneSingleRole_dryRunTags config log tags w =
     fold (\<lambda>(key, val).
             if key = ''Environment'' then
               (let envValue =
                      TrimSuffix (TrimSuffix (TrimSuffix (DestPattern config) ''_'') ''-'') ''.''
                in Debug log (''    - '' @ key @ '': '' @ val @ '' '' @ rarrow @ '' '' @ envValue))
             else
               (let newValue =
                      ReplacePatternInJSON val (SourcePattern config) (DestPattern config)
                in if newValue \<noteq> val
                   then Debug log (''    - '' @ key @ '': '' @ val @ '' '' @ rarrow @ '' '' @ newValue)
                   else Debug log (''    - '' @ key @ '': '' @ val)))
       tags w"

definition cloneSingleRole_dryRun :: "CloneConfig \<Rightarrow> Logger \<Rightarrow> RoleInfo \<Rightarrow> world \<Rightarrow> world" where
  "cloneSingleRole_dryRun config log roleInfo w0 =
     (let w1 = Info log ''  [DRY RUN] Would create role and copy policies/tags'' w0;
          processedTrustPolicy =
            ReplacePatternInJSON (TrustPolicy roleInfo) (SourcePattern config) (DestPattern config)
      in if Verbose config then
           (let w2 = Debug log (''  [DRY RUN] Original trust policy: '' @ TrustPolicy roleInfo) w1;
                w3 = Debug log (''  [DRY RUN] Processed trust policy: '' @ processedTrustPolicy) w2;
                w4 = (if length (ManagedPolicies roleInfo) > 0 then
                        cloneSingleRole_dryRunManaged log (ManagedPolicies roleInfo)
                          (Debug log (''  [DRY RUN] Would attach ''
                             @ natStr (length (ManagedPolicies roleInfo))
                             @ '' managed policies:'') w3)
                      else w3);
                w5 = (if length (InlinePolicies roleInfo) > 0 then
                        cloneSingleRole_dryRunInline config log (InlinePolicies roleInfo)
                          (Debug log (''  [DRY RUN] Would create ''
                             @ natStr (length (InlinePolicies roleInfo))
                             @ '' inline policies:'') w4)
                      else w4);
                w6 = (if length (Tags roleInfo) > 0 then
                        cloneSingleRole_dryRunTags config log (Tags roleInfo)
                          (Debug log (''  [DRY RUN] Would copy '' @ natStr (length (Tags roleInfo))
                             @ '' tags:'') w5)
                      else w5)
            in w6)
         else w1)"

text \<open>The loops of the real run: managed policies, inline policies, tags.\<close>

definition cloneSingleRole_attach ::
  "'j sdk \<Rightarrow> Client \<Rightarrow> string \<Rightarrow> Logger \<Rightarrow> string list \<Rightarrow> world \<Rightarrow> world" where
  "cloneSingleRole_attach lib destClient destRole log policies w =
     fold (\<lambda>policyArn w.
             case AttachManagedPolicy lib destClient destRole policyArn w of
               (Some err, w') \<Rightarrow>
                 Warning log (''    Failed to attach managed policy '' @ policyArn @ '': '' @ err) w'
             | (None, w') \<Rightarrow> Debug log (''    Attached: '' @ policyArn) w')
       policies w"

definition cloneSingleRole_inline ::
  "'j sdk \<Rightarrow> Client \<Rightarrow> string \<Rightarrow> CloneConfig \<Rightarrow> Logger \<Rightarrow> (string \<times> string) list \<Rightarrow> world
     \<Rightarrow> world" where
  "cloneSingleRole_inline lib destClient destRole config log policies w =
     fold (\<lambda>(policyName, policyDocument) w.
             let newPolicyName =
                   GenerateNewRoleName policyName (SourcePattern config) (DestPattern config);
                 processedDocument =
                   ReplacePatternInJSON policyDocument (SourcePattern config) (DestPattern config);
                 w1 = (if Verbose config then
                         Debug log (''    Policy document preview: ''
                                    @ takeRunes 100 processedDocument @ ''...'')
                           (Debug log (''    Creating inline policy: '' @ newPolicyName) w)
                       else w)
             in case CreateInlinePolicy lib destClient destRole newPolicyName processedDocument w1 of
                  (Some err, w') \<Rightarrow>
                    Warning log (''    Failed to create inline policy '' @ newPolicyName @ '': ''
                                 @ err) w'
                | (None, w') \<Rightarrow> Debug log (''    Created inline policy: '' @ newPolicyName) w')
       policies w"

definition cloneSingleRole_processedTags ::
  "CloneConfig \<Rightarrow> (string \<times> string) list \<Rightarrow> (string \<times> string) list" where
  "cloneSingleRole_processedTags config tags =
     fold (\<lambda>(key, val) processedTags.
             if key = ''Environment'' then
               (let envValue =
                      TrimSuffix (TrimSuffix (TrimSuffix (DestPattern config) ''_'') ''-'') ''.''
                in AList.update key envValue processedTags)
             else
               AList.update key
                 (ReplacePatternInJSON val (SourcePattern config) (DestPattern config))
                 processedTags)
       tags []"

definition cloneSingleRole_tags ::
  "'j sdk \<Rightarrow> Client \<Rightarrow> string \<Rightarrow> CloneConfig \<Rightarrow> Logger \<Rightarrow> (string \<times> string) list \<Rightarrow> world
     \<Rightarrow> world" where
  "cloneSingleRole_tags lib destClient destRole config log tags w0 =
     (if length tags > 0 then
        (let w1 = Debug log (''  Copying '' @ natStr (length tags) @ '' tags...'') w0;
             processedTags = cloneSingleRole_processedTags config tags;
             w2 = (if Verbose config
                   then Debug log (''    Processed tags: '' @ fmtMap processedTags) w1 else w1)
         in case TagRole lib destClient destRole processedTags w2 of
              (Some err, w3) \<Rightarrow> Warning log (''    Failed to copy tags: '' @ err) w3
            | (None, w3) \<Rightarrow> Debug log ''    Tags copied successfully'' w3)
      else w0)"

definition cloneSingleRole_real ::
  "'j sdk \<Rightarrow> Client \<Rightarrow> string \<Rightarrow> string \<Rightarrow> CloneConfig \<Rightarrow> Logger \<Rightarrow> RoleInfo \<Rightarrow> world
     \<Rightarrow> string option \<times> world" where
  "cloneSingleRole_real lib destClient sourceRole destRole config log roleInfo w0 =
     (case RoleExists lib destClient destRole w0 of
        (True, w1) \<Rightarrow> (Some (''destination role already exists: '' @ destRole), w1)
      | (False, w1) \<Rightarrow>
          (let w2 = Debug log ''  Creating new role...'' w1;
               processedTrustPolicy =
                 ReplacePatternInJSON (TrustPolicy roleInfo) (SourcePattern config)
                   (DestPattern config);
               w3 = (if Verbose config then
                       Debug log (''  Processed trust policy: '' @ processedTrustPolicy)
                         (Debug log (''  Original trust policy: '' @ TrustPolicy roleInfo) w2)
                     else w2);
               description = ''Cloned from '' @ sourceRole @ '' on '' @ Now lib (calls w3)
           in case CreateRole lib destClient destRole processedTrustPolicy description w3 of
                (Some err, w4) \<Rightarrow>
                  (Some (''failed to create role: '' @ err),
                   if Verbose config
                   then Error log (''  Failed trust policy content: '' @ processedTrustPolicy) w4
                   else w4)
              | (None, w4) \<Rightarrow>
                  (let w5 = Debug log ''  Role created successfully'' w4;
                       w6 = Debug log (''  Attaching '' @ natStr (length (ManagedPolicies roleInfo))
                              @ '' managed policies...'') w5;
                       w7 = cloneSingleRole_attach lib destClient destRole log
                              (ManagedPolicies roleInfo) w6;
                       w8 = Debug log (''  Creating '' @ natStr (length (InlinePolicies roleInfo))
                              @ '' inline policies...'') w7;
                       w9 = cloneSingleRole_inline lib destClient destRole config log
                              (InlinePolicies roleInfo) w8;
                       w10 = cloneSingleRole_tags lib destClient destRole config log
                               (Tags roleInfo) w9
                   in (None, w10))))"

definition cloneSingleRole ::
  "'j sdk \<Rightarrow> Client \<Rightarrow> Client option \<Rightarrow> string \<Rightarrow> string \<Rightarrow> CloneConfig \<Rightarrow> Logger \<Rightarrow> world
     \<Rightarrow> string option go \<times> world" where
  "cloneSingleRole lib sourceClient destClient sourceRole destRole config log w0 =
     (let w1 = Debug log (''  Getting role information for: '' @ sourceRole) w0 in
      case GetRoleInfo lib sourceClient sourceRole w1 of
        (Inl err, w2) \<Rightarrow> (Return (Some (''failed to get role info: '' @ err)), w2)
      | (Inr roleInfo, w2) \<Rightarrow>
          (let w3 = Debug log (''  Retrieved role info: ''
                      @ natStr (length (ManagedPolicies roleInfo)) @ '' managed policies, ''
                      @ natStr (length (InlinePolicies roleInfo)) @ '' inline policies, ''
                      @ natStr (length (Tags roleInfo)) @ '' tags'') w2
           in if DryRun config then (Return None, cloneSingleRole_dryRun config log roleInfo w3)
              else
                (case destClient of
                   None \<Rightarrow> (Panic ''invalid memory address or nil pointer dereference'', w3)
                 | Some dc \<Rightarrow>
                     (case cloneSingleRole_real lib dc sourceRole destRole config log roleInfo w3 of
                        (r, w4) \<Rightarrow> (Return r, w4)))))"

subsection \<open>Step 5: the loop over the selected roles\<close>

fun performCloning_roles ::
  "'j sdk \<Rightarrow> Client \<Rightarrow> Client option \<Rightarrow> CloneConfig \<Rightarrow> Logger \<Rightarrow> nat \<Rightarrow> string list \<Rightarrow> nat
     \<Rightarrow> world \<Rightarrow> nat go \<times> world" where
  "performCloning_roles lib sourceClient destClient config log i [] successCount w =
     (Return successCount, w)"
| "performCloning_roles lib sourceClient destClient config log i (role # roles) successCount w =
     (let newRole = GenerateNewRoleName role (SourcePattern config) (DestPattern config);
          w1 = Progress log (i + 1) (length (Roles config))
                 (''Cloning: '' @ role @ '' '' @ rarrow @ '' '' @ newRole) w
      in case cloneSingleRole lib sourceClient destClient role newRole config log w1 of
           (Panic p, w2) \<Rightarrow> (Panic p, w2)
         | (Return (Some err), w2) \<Rightarrow>
             performCloning_roles lib sourceClient destClient config log (i + 1) roles successCount
               (Error log (''Failed to clone '' @ role @ '': '' @ err) w2)
         | (Return None, w2) \<Rightarrow>
             performCloning_roles lib sourceClient destClient config log (i + 1) roles
               (successCount + 1)
               (Success log (''Successfully cloned: '' @ role @ '' '' @ rarrow @ '' '' @ newRole) w2))"

definition performCloning ::
  "'j sdk \<Rightarrow> CloneConfig \<Rightarrow> Logger \<Rightarrow> world \<Rightarrow> string option go \<times> world" where
  "performCloning lib config log w0 =
     (let w1 = Separator log (Info log ''Step 5: Role Cloning Process'' w0) in
      case NewClient lib (SourceProfile config) w1 of
        (Inl err, w2) \<Rightarrow> (Return (Some (''failed to create source client: '' @ err)), w2)
      | (Inr sourceClient, w2) \<Rightarrow>
          (case (if \<not> DryRun config then
                   (case NewClient lib (DestProfile config) w2 of
                      (Inl err, w3) \<Rightarrow> (Inl err, w3)
                    | (Inr c, w3) \<Rightarrow> (Inr (Some c), w3))
                 else (Inr None, w2)) of
             (Inl err, w3) \<Rightarrow>
               (Return (Some (''failed to create destination client: '' @ err)), w3)
           | (Inr destClient, w3) \<Rightarrow>
               (case performCloning_roles lib sourceClient destClient config log 0 (Roles config)
                       0 w3 of
                  (Panic p, w4) \<Rightarrow> (Panic p, w4)
                | (Return successCount, w4) \<Rightarrow>
                    (let w5 = Separator log w4;
                         w6 = Success log (''Cloning completed: '' @ natStr successCount @ ''/''
                                @ natStr (length (Roles config)) @ '' roles successful'') w5;
                         w7 = (if DryRun config then
                                 Info log ''This was a dry run. Use without --dry-run to perform actual cloning.'' w6
                               else w6)
                     in (Return None, w7)))))"

text \<open>
  The end of \<^verbatim>\<open>runEnhancedClone\<close>, after the confirmation: the cloning, then either
  \<^verbatim>\<open>os.Exit(1)\<close> or the two closing lines. The first bytes of the closing line are the
  emoji U+1F389.
\<close>

datatype ending = Exit nat | Done

definition runEnhancedClone_step5 ::
  "'j sdk \<Rightarrow> CloneConfig \<Rightarrow> Logger \<Rightarrow> world \<Rightarrow> ending go \<times> world" where
  "runEnhancedClone_step5 lib config log w0 =
     (case performCloning lib config log w0 of
        (Panic p, w1) \<Rightarrow> (Panic p, w1)
      | (Return (Some err), w1) \<Rightarrow> (Return (Exit 1), Error log (''Cloning failed: '' @ err) w1)
      | (Return None, w1) \<Rightarrow>
          (Return Done,
           Info log (''Log file saved: '' @ LogFile config)
             (Success log ([CHR 0xF0, CHR 0x9F, CHR 0x8E, CHR 0x89]
                           @ '' Role cloning completed successfully!'') w1)))"

section \<open>The version command (\<^verbatim>\<open>cmd/version.go\<close>)\<close>

text \<open>
  The flags of a command are the boolean flags of the \<^verbatim>\<open>pflag\<close> library: a name, a
  one-letter shorthand and a value. \<open>BoolP\<close> registers a flag. \<open>GetBool\<close> looks a flag
  up by its name and, for a name that was never registered, returns \<open>False\<close> with an
  error. A command line is a list of flag arguments, \<^verbatim>\<open>--name\<close> or \<^verbatim>\<open>-c\<close>; parsing
  sets the flags it names and rejects an argument that names no registered flag.
\<close>

record Flag =
  Name :: string
  Shorthand :: string
  Value :: bool

definition BoolP :: "string \<Rightarrow> string \<Rightarrow> bool \<Rightarrow> Flag list \<Rightarrow> Flag list" where
  "BoolP name shorthand val fs = fs @ [\<lparr>Name = name, Shorthand = shorthand, Value = val\<rparr>]"

definition GetBool :: "Flag list \<Rightarrow> string \<Rightarrow> bool \<times> string option" where
  "GetBool fs name =
     (case find (\<lambda>f. Name f = name) fs of
        None \<Rightarrow> (False, Some (''flag accessed but not defined: '' @ name))
      | Some f \<Rightarrow> (Value f, None))"

datatype arg = Long string | Short char

fun ParseFlags :: "Flag list \<Rightarrow> arg list \<Rightarrow> string + Flag list" where
  "ParseFlags fs [] = Inr fs"
| "ParseFlags fs (Long name # rest) =
     (case find (\<lambda>f. Name f = name) fs of
        None \<Rightarrow> Inl (''unknown flag: --'' @ name)
      | Some _ \<Rightarrow>
          ParseFlags (map (\<lambda>f. if Name f = name then f\<lparr>Value := True\<rparr> else f) fs) rest)"
| "ParseFlags fs (Short c # rest) =
     (case find (\<lambda>f. Shorthand f = [c]) fs of
        None \<Rightarrow> Inl (''unknown shorthand flag: '' @ apos @ [c] @ apos @ '' in -'' @ [c])
      | Some _ \<Rightarrow>
          ParseFlags (map (\<lambda>f. if Shorthand f = [c] then f\<lparr>Value := True\<rparr> else f) fs) rest)"

text \<open>The build information is set when the program is linked.\<close>

record BuildInfo =
  Version :: string
  GitCommit :: string
  BuildDate :: string
  GoVersion :: string
  Platform :: string

definition showSimpleVersion :: "BuildInfo \<Rightarrow> string list" where
  "showSimpleVersion b = [''IAM Role Cloner v'' @ Version b]"

definition showDetailedVersion :: "BuildInfo \<Rightarrow> string list" where
  "showDetailedVersion b =
     [[CHR 0xF0, CHR 0x9F, CHR 0x9A, CHR 0x80] @ '' IAM Role Cloner'',
      ''=================='',
      ''Version:      '' @ Version b,
      ''Git Commit:   '' @ GitCommit b,
      ''Build Date:   '' @ BuildDate b,
      ''Go Version:   '' @ GoVersion b,
      ''Platform:     '' @ Platform b,
      [],
      [CHR 0xF0, CHR 0x9F, CHR 0x93, CHR 0x8B] @ '' Features:'',
      ''  '' @ [CHR 0xE2, CHR 0x9C, CHR 0x85] @ '' Clone IAM roles between AWS accounts'',
      ''  '' @ [CHR 0xE2, CHR 0x9C, CHR 0x85] @ '' Pattern replacement in names and policies'',
      ''  '' @ [CHR 0xE2, CHR 0x9C, CHR 0x85] @ '' Dry-run mode for safe testing'',
      ''  '' @ [CHR 0xE2, CHR 0x9C, CHR 0x85] @ '' Comprehensive logging and error handling'',
      ''  '' @ [CHR 0xE2, CHR 0x9C, CHR 0x85] @ '' Interactive and command-line modes'',
      ''  '' @ [CHR 0xE2, CHR 0x9C, CHR 0x85] @ '' Role discovery and validation'',
      [],
      [CHR 0xF0, CHR 0x9F, CHR 0x94, CHR 0x97]
        @ '' Repository: https://github.com/your-username/iam-role-cloner'',
      [CHR 0xF0, CHR 0x9F, CHR 0x93, CHR 0x9A]
        @ '' Documentation: https://github.com/your-username/iam-role-cloner/README.md'']"

definition versionCmd_Run :: "BuildInfo \<Rightarrow> Flag list \<Rightarrow> string list" where
  "versionCmd_Run b flags =
     (let (detailed, _) = GetBool flags ''detailed''
      in if detailed then showDetailedVersion b else showSimpleVersion b)"

text \<open>
  The flags of the version command: the persistent flags of the root command
  (\<^verbatim>\<open>cmd/root.go\<close>), the help flag that the command library adds, and the one flag that
  \<^verbatim>\<open>init\<close> registers.
\<close>

definition versionCmd_Flags :: "Flag list" where
  "versionCmd_Flags =
     BoolP ''explain'' ''e'' False
       (BoolP ''help'' ''h'' False
          (BoolP ''dry-run'' ''d'' False
             (BoolP ''verbose'' ''v'' False [])))"

datatype outcome = Failed string | Help | Printed "string list"

definition versionCmd_Execute :: "BuildInfo \<Rightarrow> arg list \<Rightarrow> outcome" where
  "versionCmd_Execute b args =
     (case ParseFlags versionCmd_Flags args of
        Inl err \<Rightarrow> Failed err
      | Inr flags \<Rightarrow>
          if fst (GetBool flags ''help'') then Help else Printed (versionCmd_Run b flags))"

section \<open>Notions for the statements and the proofs\<close>

subsection \<open>The requests a step sends\<close>

text \<open>
  \<open>sent w w'\<close> are the requests recorded between the state \<open>w\<close> and a later state
  \<open>w'\<close>, \<open>mutations\<close> those among them that change an account. A step is \<open>quiet\<close>
  when it only adds requests to the record and none of them is a mutation.
\<close>

definition sent :: "world \<Rightarrow> world \<Rightarrow> event list" where
  "sent w w' = drop (length (calls w)) (calls w')"

definition mutations :: "event list \<Rightarrow> event list" where
  "mutations evs = filter (\<lambda>e. mutating (fst e)) evs"

definition quiet :: "world \<Rightarrow> world \<Rightarrow> bool" where
  "quiet w w' = (calls w' = calls w @ sent w w' \<and> mutations (sent w w') = [])"

subsection \<open>The warnings of the cloning step\<close>

text \<open>
  The warning that the cloning of a role writes when a request after \<open>CreateRole\<close> fails
  with the error \<open>e\<close>: the text of \<open>cloneSingleRole\<close> followed by the error that the
  gateway returns.
\<close>

fun warning :: "request \<Rightarrow> string \<Rightarrow> string" where
  "warning (AttachRolePolicyInput p r arn) e =
     ''    Failed to attach managed policy '' @ arn @ '': ''
     @ ''failed to attach policy '' @ arn @ '' to role '' @ r @ '': '' @ e"
| "warning (PutRolePolicyInput p r n d) e =
     ''    Failed to create inline policy '' @ n @ '': ''
     @ ''failed to create inline policy '' @ n @ '' for role '' @ r @ '': '' @ e"
| "warning (TagRoleInput p r t) e =
     ''    Failed to copy tags: '' @ ''failed to tag role '' @ r @ '': '' @ e"
| "warning _ e = []"

subsection \<open>The parts of a selection\<close>

text \<open>
  A part of the selection is rejected when, after trimming, it is not empty and either is
  not a number or is a number outside \<open>1 .. length allRoles\<close>.
\<close>

definition rejected :: "string list \<Rightarrow> string \<Rightarrow> bool" where
  "rejected allRoles p =
     (TrimSpace p \<noteq> [] \<and>
      (case Atoi (TrimSpace p) of
         None \<Rightarrow> True
       | Some index \<Rightarrow> index < 1 \<or> index > int (length allRoles)))"

subsection \<open>Invariants of the proofs\<close>

text \<open>
  A proof device for the errors of the fetch. \<open>fetchError req e\<close> is the error that
  \<open>GetRoleInfo\<close> returns when its request \<open>req\<close> fails with the error \<open>e\<close>, and
  \<open>fetches p r\<close> are the requests it sends for the role \<open>r\<close> of the profile \<open>p\<close>.
  Between the states \<open>w\<close> and \<open>w'\<close> requests were added to the record; every one that
  failed is one of \<open>fetches p r\<close>, and \<open>res\<close>, the error of the operation if it has
  one, is its error.
\<close>

fun fetchError :: "request \<Rightarrow> string \<Rightarrow> string" where
  "fetchError (GetRoleInput p r) e = ''failed to get role '' @ r @ '': '' @ e"
| "fetchError (ListAttachedRolePoliciesInput p r) e = ''failed to get managed policies: '' @ e"
| "fetchError (ListRolePoliciesInput p r) e = ''failed to get inline policies: '' @ e"
| "fetchError (GetRolePolicyInput p r n) e = ''failed to get inline policies: '' @ e"
| "fetchError (ListRoleTagsInput p r) e = ''failed to get tags: '' @ e"
| "fetchError _ e = []"

definition errOf :: "string + 'a \<Rightarrow> string option" where
  "errOf r = (case r of Inl m \<Rightarrow> Some m | Inr _ \<Rightarrow> None)"

definition fetches :: "string \<Rightarrow> string \<Rightarrow> request set" where
  "fetches p r =
     {GetRoleInput p r, ListAttachedRolePoliciesInput p r, ListRolePoliciesInput p r,
      ListRoleTagsInput p r} \<union> range (GetRolePolicyInput p r)"

definition reported :: "string \<Rightarrow> string \<Rightarrow> world \<Rightarrow> string option \<Rightarrow> world \<Rightarrow> bool" where
  "reported p r w res w' \<longleftrightarrow>
     (\<exists>evs. calls w' = calls w @ evs \<and>
        (\<forall>req e. (req, Some e) \<in> set evs \<longrightarrow>
           req \<in> fetches p r \<and> res = Some (fetchError req e)))"

text \<open>
  A proof device for the requests after \<open>CreateRole\<close>: between the states \<open>w\<close> and
  \<open>w'\<close> the requests \<open>reqs\<close> were sent, in that order, and every one that failed has
  its warning on the console.
\<close>

definition substeps :: "world \<Rightarrow> world \<Rightarrow> request list \<Rightarrow> bool" where
  "substeps w w' reqs \<longleftrightarrow>
     (\<exists>evs out. calls w' = calls w @ evs \<and> console w' = console w @ out \<and>
        map fst evs = reqs \<and>
        (\<forall>req e. (req, Some e) \<in> set evs \<longrightarrow> (WARNING, warning req e) \<in> set out))"

section \<open>Concrete runs\<close>

text \<open>
  One source role, \<open>dev_app\<close> in the profile \<open>dev\<close>, to be cloned into the profile
  \<open>prod\<close> with the pattern \<open>dev_\<close> to \<open>prod_\<close>. The three switches say whether the
  source role can be fetched, whether the destination role is present, and whether the
  requests after \<open>CreateRole\<close> succeed. The codecs are the identity.
\<close>

definition demo_role :: Role where
  "demo_role = \<lparr>Role_RoleName = ''dev_app'', Role_Description = Some ''application role'',
                 Role_AssumeRolePolicyDocument = Some ''{dev_}''\<rparr>"

definition demo_sdk :: "bool \<Rightarrow> bool \<Rightarrow> bool \<Rightarrow> string sdk" where
  "demo_sdk fetched present attached =
     \<lparr>LoadDefaultConfig = (\<lambda>h p. None),
      iamGetRole = (\<lambda>h p r.
        if p = ''dev'' then (if fetched then Inr demo_role else Inl ''NoSuchEntity'')
        else (if present then Inr demo_role else Inl ''NoSuchEntity'')),
      iamListRoles = (\<lambda>h p. [Inr [''dev_app'', ''ops'']]),
      iamListAttachedRolePolicies = (\<lambda>h p r. [Inr [''arn:aws:iam::aws:policy/ReadOnlyAccess'']]),
      iamListRolePolicies = (\<lambda>h p r. Inr [''dev_inline'']),
      iamGetRolePolicy = (\<lambda>h p r n. Inr (Some ''{dev_}'')),
      iamListRoleTags = (\<lambda>h p r. Inr [(''Environment'', ''dev''), (''Team'', ''dev_core'')]),
      iamCreateRole = (\<lambda>h p r t d. None),
      iamAttachRolePolicy = (\<lambda>h p r a. if attached then None else Some ''AccessDenied''),
      iamPutRolePolicy = (\<lambda>h p r n d. if attached then None else Some ''AccessDenied''),
      iamTagRole = (\<lambda>h p r t. if attached then None else Some ''AccessDenied''),
      QueryUnescape = (\<lambda>s. Inr s),
      Unmarshal = (\<lambda>s. Inr s),
      MarshalIndent = (\<lambda>j. Inr j),
      Now = (\<lambda>h. ''2025-01-01 00:00:00'')\<rparr>"

definition demo_config :: "bool \<Rightarrow> bool \<Rightarrow> CloneConfig" where
  "demo_config v d =
     \<lparr>SourceProfile = ''dev'', DestProfile = ''prod'', SourcePattern = ''dev_'',
      DestPattern = ''prod_'', Roles = [''dev_app''], Verbose = v, DryRun = d,
      LogFile = ''clone.log''\<rparr>"

definition demo_world :: world where
  "demo_world = \<lparr>calls = [], console = [], stdin = []\<rparr>"

text \<open>What the fetch of the source role returns, and the requests it sends.\<close>

definition demo_info :: RoleInfo where
  "demo_info =
     \<lparr>RoleName = ''dev_app'', Description = ''application role'', TrustPolicy = ''{dev_}'',
      ManagedPolicies = [''arn:aws:iam::aws:policy/ReadOnlyAccess''],
      InlinePolicies = [(''dev_inline'', ''{dev_}'')],
      Tags = [(''Environment'', ''dev''), (''Team'', ''dev_core'')]\<rparr>"

definition demo_reads :: "event list" where
  "demo_reads =
     [(GetRoleInput ''dev'' ''dev_app'', None),
      (ListAttachedRolePoliciesInput ''dev'' ''dev_app'', None),
      (ListRolePoliciesInput ''dev'' ''dev_app'', None),
      (GetRolePolicyInput ''dev'' ''dev_app'' ''dev_inline'', None),
      (ListRoleTagsInput ''dev'' ''dev_app'', None)]"

text \<open>The state in which the loop calls \<open>cloneSingleRole\<close> for the one role.\<close>

definition demo_progress :: world where
  "demo_progress =
     Progress \<lparr>verbose = False\<rparr> (0 + 1) (length (Roles (demo_config False False)))
       (''Cloning: '' @ ''dev_app'' @ '' '' @ rarrow @ '' '' @ ''prod_app'') demo_world"

text \<open>
  The real run in which the destination role is absent and every request after
  \<open>CreateRole\<close> is denied: the requests it sends and the warnings it writes.
\<close>

definition demo_writes :: "event list" where
  "demo_writes =
     [(GetRoleInput ''prod'' ''prod_app'', Some ''NoSuchEntity''),
      (CreateRoleInput ''prod'' ''prod_app'' ''{prod_}''
         (Some ''Cloned from dev_app on 2025-01-01 00:00:00''), None),
      (AttachRolePolicyInput ''prod'' ''prod_app'' ''arn:aws:iam::aws:policy/ReadOnlyAccess'',
         Some ''AccessDenied''),
      (PutRolePolicyInput ''prod'' ''prod_app'' ''prod_inline'' ''{prod_}'', Some ''AccessDenied''),
      (TagRoleInput ''prod'' ''prod_app'' [(''Environment'', ''prod''), (''Team'', ''prod_core'')],
         Some ''AccessDenied'')]"

definition demo_warnings :: "(level \<times> string) list" where
  "demo_warnings =
     [(WARNING, warning (AttachRolePolicyInput ''prod'' ''prod_app''
                           ''arn:aws:iam::aws:policy/ReadOnlyAccess'') ''AccessDenied''),
      (WARNING, warning (PutRolePolicyInput ''prod'' ''prod_app'' ''prod_inline'' ''{prod_}'')
                  ''AccessDenied''),
      (WARNING, warning (TagRoleInput ''prod'' ''prod_app''
                           [(''Environment'', ''prod''), (''Team'', ''prod_core'')])
                  ''AccessDenied'')]"

text \<open>A service that denies every request.\<close>

definition failing_sdk :: "string sdk" where
  "failing_sdk =
     \<lparr>LoadDefaultConfig = (\<lambda>h p. Some ''AccessDenied''),
      iamGetRole = (\<lambda>h p r. Inl ''AccessDenied''),
      iamListRoles = (\<lambda>h p. [Inl ''AccessDenied'']),
      iamListAttachedRolePolicies = (\<lambda>h p r. [Inl ''AccessDenied'']),
      iamListRolePolicies = (\<lambda>h p r. Inl ''AccessDenied''),
      iamGetRolePolicy = (\<lambda>h p r n. Inl ''AccessDenied''),
      iamListRoleTags = (\<lambda>h p r. Inl ''AccessDenied''),
      iamCreateRole = (\<lambda>h p r t d. Some ''AccessDenied''),
      iamAttachRolePolicy = (\<lambda>h p r a. Some ''AccessDenied''),
      iamPutRolePolicy = (\<lambda>h p r n d. Some ''AccessDenied''),
      iamTagRole = (\<lambda>h p r t. Some ''AccessDenied''),
      QueryUnescape = (\<lambda>s. Inr s),
      Unmarshal = (\<lambda>s. Inr s),
      MarshalIndent = (\<lambda>j. Inr j),
      Now = (\<lambda>h. ''2025-01-01 00:00:00'')\<rparr>"

text \<open>
  A service that answers the first \<open>n\<close> requests and denies every later one; a page of a
  listing counts as answered when the listing starts within the first \<open>n\<close> requests.
\<close>

definition denying_sdk :: "nat \<Rightarrow> string sdk" where
  "denying_sdk n =
     \<lparr>LoadDefaultConfig = (\<lambda>h p. if length h < n then None else Some ''AccessDenied''),
      iamGetRole = (\<lambda>h p r. if length h < n then Inr demo_role else Inl ''AccessDenied''),
      iamListRoles = (\<lambda>h p.
        if length h < n then [Inr [''dev_app'', ''ops'']] else [Inl ''AccessDenied'']),
      iamListAttachedRolePolicies = (\<lambda>h p r.
        if length h < n then [Inr [''arn:aws:iam::aws:policy/ReadOnlyAccess'']]
        else [Inl ''AccessDenied'']),
      iamListRolePolicies = (\<lambda>h p r.
        if length h < n then Inr [''dev_inline''] else Inl ''AccessDenied''),
      iamGetRolePolicy = (\<lambda>h p r n'.
        if length h < n then Inr (Some ''{dev_}'') else Inl ''AccessDenied''),
      iamListRoleTags = (\<lambda>h p r.
        if length h < n then Inr [(''Environment'', ''dev''), (''Team'', ''dev_core'')]
        else Inl ''AccessDenied''),
      iamCreateRole = (\<lambda>h p r t d. if length h < n then None else Some ''AccessDenied''),
      iamAttachRolePolicy = (\<lambda>h p r a. if length h < n then None else Some ''AccessDenied''),
      iamPutRolePolicy = (\<lambda>h p r n' d. if length h < n then None else Some ''AccessDenied''),
      iamTagRole = (\<lambda>h p r t. if length h < n then None else Some ''AccessDenied''),
      QueryUnescape = (\<lambda>s. Inr s),
      Unmarshal = (\<lambda>s. Inr s),
      MarshalIndent = (\<lambda>j. Inr j),
      Now = (\<lambda>h. ''2025-01-01 00:00:00'')\<rparr>"

section \<open>Properties of the string functions\<close>

lemma HasPrefix_iff: "HasPrefix s p \<longleftrightarrow> (\<exists>q. s = p @ q)"
  unfolding HasPrefix_def by (metis append_eq_conv_conj append_take_drop_id length_append le_add1)

lemma HasPrefix_Nil [simp]: "HasPrefix s []"
  by (simp add: HasPrefix_def)

lemma Contains_Nil [simp]: "Contains s []"
  by (cases s) simp_all

lemma Contains_self [simp]: "Contains s s"
  by (cases s) (simp_all add: HasPrefix_def)

lemma replaceFrom_absent: "\<not> Contains s old \<Longrightarrow> replaceFrom old new s = s"
  by (induction s) auto

lemma replaceFrom_self: "old \<noteq> [] \<Longrightarrow> replaceFrom old new old = new"
  by (cases old) (auto simp: HasPrefix_def)

lemma replaceFrom_length_le:
  "length new \<le> length old \<Longrightarrow> length (replaceFrom old new s) \<le> length s"
proof (induction old new s rule: replaceFrom.induct)
  case (1 old new)
  then show ?case by simp
next
  case (2 old new c cs)
  show ?case
  proof (cases "old \<noteq> [] \<and> HasPrefix (c # cs) old")
    case True
    then have "length old \<le> length (c # cs)" by (simp add: HasPrefix_def)
    moreover have "length (replaceFrom old new (drop (length old) (c # cs)))
        \<le> length (drop (length old) (c # cs))"
      using 2 True by blast
    ultimately show ?thesis using True "2.prems" by simp
  next
    case False
    then show ?thesis using 2 by auto
  qed
qed

lemma replaceFrom_length_less:
  "length new < length old \<Longrightarrow> Contains s old \<Longrightarrow> length (replaceFrom old new s) < length s"
proof (induction old new s rule: replaceFrom.induct)
  case (1 old new)
  then show ?case by simp
next
  case (2 old new c cs)
  have ne: "old \<noteq> []" using "2.prems" by auto
  show ?case
  proof (cases "HasPrefix (c # cs) old")
    case True
    then have "length old \<le> length (c # cs)" by (simp add: HasPrefix_def)
    moreover have "length (replaceFrom old new (drop (length old) (c # cs)))
        \<le> length (drop (length old) (c # cs))"
      using "2.prems" by (intro replaceFrom_length_le) simp
    ultimately show ?thesis using True ne "2.prems" by simp
  next
    case False
    then have "Contains cs old" using "2.prems" by simp
    then show ?thesis using 2 False by auto
  qed
qed

lemma replaceFrom_length_ge:
  "length old \<le> length new \<Longrightarrow> length s \<le> length (replaceFrom old new s)"
proof (induction old new s rule: replaceFrom.induct)
  case (1 old new)
  then show ?case by simp
next
  case (2 old new c cs)
  show ?case
  proof (cases "old \<noteq> [] \<and> HasPrefix (c # cs) old")
    case True
    then have "length old \<le> length (c # cs)" by (simp add: HasPrefix_def)
    moreover have "length (drop (length old) (c # cs))
        \<le> length (replaceFrom old new (drop (length old) (c # cs)))"
      using 2 True by blast
    ultimately show ?thesis using True "2.prems" by simp
  next
    case False
    then show ?thesis using 2 by auto
  qed
qed

lemma replaceFrom_length_greater:
  "length old < length new \<Longrightarrow> old \<noteq> [] \<Longrightarrow> Contains s old
     \<Longrightarrow> length s < length (replaceFrom old new s)"
proof (induction old new s rule: replaceFrom.induct)
  case (1 old new)
  then show ?case by simp
next
  case (2 old new c cs)
  show ?case
  proof (cases "HasPrefix (c # cs) old")
    case True
    then have "length old \<le> length (c # cs)" by (simp add: HasPrefix_def)
    moreover have "length (drop (length old) (c # cs))
        \<le> length (replaceFrom old new (drop (length old) (c # cs)))"
      using "2.prems" by (intro replaceFrom_length_ge) simp
    ultimately show ?thesis using True "2.prems" by simp
  next
    case False
    then have "Contains cs old" using "2.prems" by simp
    then show ?thesis using 2 False by auto
  qed
qed

lemma replaceFrom_same_length_changes:
  "length old = length new \<Longrightarrow> old \<noteq> new \<Longrightarrow> Contains s old \<Longrightarrow> replaceFrom old new s \<noteq> s"
proof (induction old new s rule: replaceFrom.induct)
  case (1 old new)
  then show ?case by simp
next
  case (2 old new c cs)
  have ne: "old \<noteq> []" using "2.prems" by auto
  show ?case
  proof (cases "HasPrefix (c # cs) old")
    case True
    then obtain q where q: "c # cs = old @ q" by (auto simp: HasPrefix_iff)
    have "replaceFrom old new (c # cs) = new @ replaceFrom old new (drop (length old) (c # cs))"
      using True ne by simp
    then show ?thesis using q "2.prems" by (metis append_eq_append_conv)
  next
    case False
    then have "Contains cs old" using "2.prems" by simp
    then show ?thesis using 2 False by auto
  qed
qed

lemma replaceFrom_changes:
  assumes "old \<noteq> []" "old \<noteq> new" "Contains s old"
  shows "replaceFrom old new s \<noteq> s"
proof -
  consider "length new < length old" | "length old < length new" | "length old = length new"
    by linarith
  then show ?thesis
  proof cases
    case 1
    then show ?thesis using replaceFrom_length_less [OF 1 assms(3)] by auto
  next
    case 2
    then show ?thesis using replaceFrom_length_greater [OF 2 assms(1) assms(3)] by auto
  next
    case 3
    then show ?thesis using replaceFrom_same_length_changes assms by blast
  qed
qed

lemma replaceEmpty_length: "length s \<le> length (replaceEmpty new s)"
proof (induction new s rule: replaceEmpty.induct)
  case (1 new s)
  show ?case
  proof (cases "s = []")
    case True
    then show ?thesis by (simp add: replaceEmpty.simps)
  next
    case False
    have "length (drop (DecodeRuneWidth s) s) \<le> length (replaceEmpty new (drop (DecodeRuneWidth s) s))"
      using 1 False by blast
    moreover have "DecodeRuneWidth s \<le> length s" by (rule DecodeRuneWidth_le)
    ultimately show ?thesis using False by (subst replaceEmpty.simps) simp
  qed
qed

lemma ReplaceAll_fixed_iff: "ReplaceAll s old new = s \<longleftrightarrow> (old = new \<or> \<not> Contains s old)"
proof (cases "old = new")
  case True
  then show ?thesis by (simp add: ReplaceAll_def)
next
  case neq: False
  show ?thesis
  proof (cases "old = []")
    case True
    then have "new \<noteq> []" using neq by auto
    then have "length s < length (new @ replaceEmpty new s)"
      using replaceEmpty_length [of s new] by (cases new) auto
    then have "length (new @ replaceEmpty new s) \<noteq> length s" by simp
    then have "new @ replaceEmpty new s \<noteq> s" by metis
    then show ?thesis using True neq by (simp add: ReplaceAll_def)
  next
    case False
    then show ?thesis
      using neq replaceFrom_changes [OF False neq] replaceFrom_absent
      by (auto simp: ReplaceAll_def)
  qed
qed

lemma concat_runes: "concat (runes s) = s"
proof (induction s rule: runes.induct)
  case (1 s)
  show ?case
  proof (cases "s = []")
    case True
    then show ?thesis by (simp add: runes.simps)
  next
    case False
    then have "concat (runes (drop (DecodeRuneWidth s) s)) = drop (DecodeRuneWidth s) s"
      using 1 by blast
    then show ?thesis using False by (subst runes.simps) simp
  qed
qed

lemma runes_ascii: "\<forall>c \<in> set s. (of_char c :: nat) < 0x80 \<Longrightarrow> runes s = map (\<lambda>c. [c]) s"
proof (induction s)
  case Nil
  then show ?case by (simp add: runes.simps)
next
  case (Cons c cs)
  then have w: "DecodeRuneWidth (c # cs) = 1" by simp
  have "runes (c # cs) = take 1 (c # cs) # runes (drop 1 (c # cs))"
    by (subst runes.simps) (simp only: w list.distinct if_False)
  then show ?case using Cons by simp
qed

lemma replaceEmpty_runes: "replaceEmpty new s = concat (map (\<lambda>r. r @ new) (runes s))"
proof (induction new s rule: replaceEmpty.induct)
  case (1 new s)
  show ?case
  proof (cases "s = []")
    case True
    then show ?thesis by (simp add: runes.simps replaceEmpty.simps)
  next
    case False
    then have "replaceEmpty new (drop (DecodeRuneWidth s) s)
        = concat (map (\<lambda>r. r @ new) (runes (drop (DecodeRuneWidth s) s)))"
      using 1 by blast
    then show ?thesis
      using False by (subst replaceEmpty.simps, subst runes.simps) simp
  qed
qed

lemma ReplaceAll_empty_old:
  "new \<noteq> [] \<Longrightarrow> ReplaceAll s [] new = new @ concat (map (\<lambda>r. r @ new) (runes s))"
  by (auto simp: ReplaceAll_def replaceEmpty_runes)

lemma Contains_infix: "Contains (p @ sub @ q) sub"
proof (induction p)
  case Nil
  show ?case
  proof (cases "sub @ q")
    case Nil
    then show ?thesis by simp
  next
    case (Cons c cs)
    have "HasPrefix (sub @ q) sub" by (simp add: HasPrefix_def)
    then show ?thesis using Cons by simp
  qed
next
  case (Cons c p)
  then show ?case by simp
qed

section \<open>The state: requests and console\<close>

lemma calls_emit [simp]: "calls (emit l m w) = calls w"
  and console_emit [simp]: "console (emit l m w) = console w @ [(l, m)]"
  and stdin_emit [simp]: "stdin (emit l m w) = stdin w"
  by (simp_all add: emit_def)

lemma calls_call [simp]: "calls (call r e w) = calls w @ [(r, e)]"
  and console_call [simp]: "console (call r e w) = console w"
  and stdin_call [simp]: "stdin (call r e w) = stdin w"
  by (simp_all add: call_def)

lemma calls_log [simp]:
  "calls (Info log m w) = calls w"
  "calls (Success log m w) = calls w"
  "calls (Warning log m w) = calls w"
  "calls (Error log m w) = calls w"
  "calls (Debug log m w) = calls w"
  "calls (Progress log i n m w) = calls w"
  "calls (Separator log w) = calls w"
  "calls (Print m w) = calls w"
  by (simp_all add: Info_def Success_def Warning_def Error_def Debug_def Progress_def
        Separator_def Print_def)

lemma stdin_log [simp]:
  "stdin (Info log m w) = stdin w"
  "stdin (Success log m w) = stdin w"
  "stdin (Warning log m w) = stdin w"
  "stdin (Error log m w) = stdin w"
  "stdin (Debug log m w) = stdin w"
  "stdin (Progress log i n m w) = stdin w"
  "stdin (Separator log w) = stdin w"
  "stdin (Print m w) = stdin w"
  by (simp_all add: Info_def Success_def Warning_def Error_def Debug_def Progress_def
        Separator_def Print_def)

lemma console_log [simp]:
  "console (Info log m w) = console w @ [(INFO, m)]"
  "console (Success log m w) = console w @ [(SUCCESS, m)]"
  "console (Warning log m w) = console w @ [(WARNING, m)]"
  "console (Error log m w) = console w @ [(ERROR, m)]"
  "console (Debug log m w) = console w @ (if verbose log then [(DEBUG, m)] else [])"
  "console (Separator log w) = console w @ [(SEPARATOR, ''--------------------------------'')]"
  "console (Print m w) = console w @ [(STDOUT, m)]"
  by (simp_all add: Info_def Success_def Warning_def Error_def Debug_def
        Separator_def Print_def)

section \<open>Properties of the gateway and of the prompts\<close>

lemma ListRoles_pages_ok:
  "fst (ListRoles_pages prof prefix (map Inr pages) acc w)
     = Inr (acc @ filter (\<lambda>roleName. prefix = [] \<or> HasPrefix roleName prefix) (concat pages))"
  by (induction pages arbitrary: acc w) simp_all

lemma ReadString_stdin: "stdin w' = stdin w \<Longrightarrow> fst (ReadString w') = fst (ReadString w)"
  by (auto simp: ReadString_def Let_def)

lemma getPatternConfiguration_accepts:
  "fst (fst (getPatternConfiguration config log w)) = None"
  by (simp add: getPatternConfiguration_def Let_def split: prod.splits)

lemma getPatternConfiguration_SourcePattern:
  assumes "SourcePattern config = []"
  shows "SourcePattern (snd (fst (getPatternConfiguration config log w)))
           = TrimSpace (fst (ReadString w))"
proof -
  have "fst (ReadString (Print m (Separator log (Info log m' w)))) = fst (ReadString w)" for m m'
    by (rule ReadString_stdin) simp
  then show ?thesis
    using assms by (simp add: getPatternConfiguration_def Let_def split_beta)
qed

lemma sent_append: "calls w' = calls w @ evs \<Longrightarrow> sent w w' = evs"
  by (simp add: sent_def)

lemma quietI: "calls w' = calls w @ evs \<Longrightarrow> mutations evs = [] \<Longrightarrow> quiet w w'"
  by (simp add: quiet_def sent_def)

lemma quietD: "quiet w w' \<Longrightarrow> \<exists>evs. calls w' = calls w @ evs \<and> mutations evs = []"
  unfolding quiet_def by blast

lemma quiet_same: "calls w' = calls w \<Longrightarrow> quiet w w'"
  by (rule quietI [where evs = "[]"]) (simp_all add: mutations_def)

lemma quiet_refl [simp]: "quiet w w"
  by (rule quiet_same) simp

lemma quiet_trans: "quiet w1 w2 \<Longrightarrow> quiet w2 w3 \<Longrightarrow> quiet w1 w3"
proof -
  assume "quiet w1 w2" "quiet w2 w3"
  then obtain e1 e2 where "calls w2 = calls w1 @ e1" "mutations e1 = []"
    "calls w3 = calls w2 @ e2" "mutations e2 = []"
    by (blast dest: quietD)
  then show ?thesis by (intro quietI [where evs = "e1 @ e2"]) (simp_all add: mutations_def)
qed

lemma quiet_call: "\<not> mutating r \<Longrightarrow> quiet w (call r e w)"
  by (rule quietI [where evs = "[(r, e)]"]) (simp_all add: mutations_def)

lemma quiet_call_trans: "\<not> mutating r \<Longrightarrow> quiet (call r e w) w' \<Longrightarrow> quiet w w'"
  using quiet_call quiet_trans by blast

lemma quiet_log [simp]:
  "quiet w (Info log m w)" "quiet w (Success log m w)" "quiet w (Warning log m w)"
  "quiet w (Error log m w)" "quiet w (Debug log m w)" "quiet w (Progress log i n m w)"
  "quiet w (Separator log w)" "quiet w (Print m w)"
  by (simp_all add: quiet_same)

lemma quiet_NewClient: "quiet w (snd (NewClient lib prof w))"
  by (auto simp: NewClient_def quiet_call split: option.splits)

lemma quiet_RoleExists: "quiet w (snd (RoleExists lib c roleName w))"
  by (auto simp: RoleExists_def quiet_call split: sum.splits)

lemma quiet_ListRoles_pages: "quiet w (snd (ListRoles_pages prof prefix pages acc w))"
proof (induction pages arbitrary: acc w)
  case Nil
  then show ?case by simp
next
  case (Cons page pages)
  show ?case
  proof (cases page)
    case (Inl err)
    then show ?thesis by (simp add: quiet_call)
  next
    case (Inr roles)
    then show ?thesis
      using Cons.IH quiet_call_trans [of "ListRolesInput prof" None w] by simp
  qed
qed

lemma quiet_getManagedPolicies_pages:
  "quiet w (snd (getManagedPolicies_pages prof roleName pages acc w))"
proof (induction pages arbitrary: acc w)
  case Nil
  then show ?case by simp
next
  case (Cons page pages)
  show ?case
  proof (cases page)
    case (Inl err)
    then show ?thesis by (simp add: quiet_call)
  next
    case (Inr arns)
    then show ?thesis
      using Cons.IH quiet_call_trans [of "ListAttachedRolePoliciesInput prof roleName" None w]
      by simp
  qed
qed

lemma quiet_getInlinePolicies_names:
  "quiet w (snd (getInlinePolicies_names lib c roleName names acc w))"
proof (induction names arbitrary: acc w)
  case Nil
  then show ?case by simp
next
  case (Cons policyName names)
  show ?case
    using Cons.IH
      quiet_call_trans [of "GetRolePolicyInput (profile c) roleName policyName" None w]
    by (auto simp: quiet_call split: sum.splits)
qed

lemma quiet_getManagedPolicies: "quiet w (snd (getManagedPolicies lib c roleName w))"
  by (simp add: getManagedPolicies_def quiet_getManagedPolicies_pages)

lemma quiet_getInlinePolicies: "quiet w (snd (getInlinePolicies lib c roleName w))"
proof (cases "iamListRolePolicies lib (calls w) (profile c) roleName")
  case (Inl err)
  then show ?thesis by (simp add: getInlinePolicies_def quiet_call)
next
  case (Inr names)
  have "quiet w (snd (getInlinePolicies_names lib c roleName names []
      (call (ListRolePoliciesInput (profile c) roleName) None w)))"
    by (rule quiet_call_trans [OF _ quiet_getInlinePolicies_names]) simp
  then show ?thesis using Inr by (simp add: getInlinePolicies_def)
qed

lemma quiet_getRoleTags: "quiet w (snd (getRoleTags lib c roleName w))"
  by (auto simp: getRoleTags_def quiet_call split: sum.splits)

lemma quiet_GetRoleInfo: "quiet w (snd (GetRoleInfo lib c roleName w))"
proof (cases "iamGetRole lib (calls w) (profile c) roleName")
  case (Inl err)
  then show ?thesis by (simp add: GetRoleInfo_def quiet_call)
next
  case (Inr role)
  let ?w1 = "call (GetRoleInput (profile c) roleName) None w"
  let ?w2 = "snd (getManagedPolicies lib c roleName ?w1)"
  let ?w3 = "snd (getInlinePolicies lib c roleName ?w2)"
  let ?w4 = "snd (getRoleTags lib c roleName ?w3)"
  have q1: "quiet w ?w1" by (simp add: quiet_call)
  have q2: "quiet w ?w2" using q1 quiet_getManagedPolicies quiet_trans by blast
  have q3: "quiet w ?w3" using q2 quiet_getInlinePolicies quiet_trans by blast
  have q4: "quiet w ?w4" using q3 quiet_getRoleTags quiet_trans by blast
  show ?thesis
    using Inr q1 q2 q3 q4
    by (auto simp: GetRoleInfo_def Let_def split: sum.splits prod.splits)
qed

lemma console_gateway [simp]:
  "console (snd (NewClient lib prof w)) = console w"
  "console (snd (RoleExists lib c roleName w)) = console w"
  "console (snd (CreateRole lib c roleName tp d w)) = console w"
  "console (snd (AttachManagedPolicy lib c roleName arn w)) = console w"
  "console (snd (CreateInlinePolicy lib c roleName n doc w)) = console w"
  "console (snd (TagRole lib c roleName tags w)) = console w"
  by (auto simp: NewClient_def RoleExists_def CreateRole_def AttachManagedPolicy_def
      CreateInlinePolicy_def TagRole_def Let_def split: option.splits sum.splits)

lemma errOf_simps [simp]: "errOf (Inl m) = Some m" "errOf (Inr x) = None"
  by (simp_all add: errOf_def)

lemma reported_refl [simp]: "reported p rn w res w"
  unfolding reported_def by simp

lemma reported_ok [simp]: "reported p rn w res (call r None w)"
  unfolding reported_def by simp

lemma reported_failed:
  "r \<in> fetches p rn \<Longrightarrow> reported p rn w (Some (fetchError r e)) (call r (Some e) w)"
  unfolding reported_def by auto

lemma reported_trans:
  "reported p rn w None w1 \<Longrightarrow> reported p rn w1 res w2 \<Longrightarrow> reported p rn w res w2"
  unfolding reported_def by (elim exE conjE, rule exI [where x = "_ @ _"]) auto

lemma reported_getManagedPolicies_pages:
  "reported prof roleName w
     (map_option ((@) ''failed to get managed policies: '')
        (errOf (fst (getManagedPolicies_pages prof roleName pages acc w))))
     (snd (getManagedPolicies_pages prof roleName pages acc w))"
proof (induction pages arbitrary: acc w)
  case Nil
  then show ?case by simp
next
  case (Cons page pages)
  show ?case
  proof (cases page)
    case (Inl err)
    then show ?thesis
      using reported_failed [of "ListAttachedRolePoliciesInput prof roleName" prof roleName w err]
      by (simp add: fetches_def)
  next
    case (Inr arns)
    then show ?thesis
      using reported_trans [OF reported_ok Cons.IH] by simp
  qed
qed

lemma reported_getManagedPolicies:
  "reported (profile c) roleName w
     (map_option ((@) ''failed to get managed policies: '')
        (errOf (fst (getManagedPolicies lib c roleName w))))
     (snd (getManagedPolicies lib c roleName w))"
  by (simp add: getManagedPolicies_def reported_getManagedPolicies_pages)

lemma reported_getInlinePolicies_names:
  "reported (profile c) roleName w
     (map_option ((@) ''failed to get inline policies: '')
        (errOf (fst (getInlinePolicies_names lib c roleName names acc w))))
     (snd (getInlinePolicies_names lib c roleName names acc w))"
proof (induction names arbitrary: acc w)
  case Nil
  then show ?case by simp
next
  case (Cons policyName names)
  show ?case
  proof (cases "iamGetRolePolicy lib (calls w) (profile c) roleName policyName")
    case (Inl err)
    then show ?thesis
      using reported_failed [of "GetRolePolicyInput (profile c) roleName policyName" "profile c" roleName w err]
      by (simp add: fetches_def)
  next
    case (Inr doc)
    show ?thesis
    proof (cases "processPolicyDocument lib doc")
      case (Inl err)
      then show ?thesis using Inr by simp
    next
      case policyDoc: (Inr policyDoc)
      then show ?thesis
        using Inr reported_trans [OF reported_ok Cons.IH] by simp
    qed
  qed
qed

lemma reported_getInlinePolicies:
  "reported (profile c) roleName w
     (map_option ((@) ''failed to get inline policies: '')
        (errOf (fst (getInlinePolicies lib c roleName w))))
     (snd (getInlinePolicies lib c roleName w))"
proof (cases "iamListRolePolicies lib (calls w) (profile c) roleName")
  case (Inl err)
  then show ?thesis
    using reported_failed [of "ListRolePoliciesInput (profile c) roleName" "profile c" roleName w err]
    by (simp add: getInlinePolicies_def fetches_def)
next
  case (Inr names)
  then show ?thesis
    using reported_trans [OF reported_ok reported_getInlinePolicies_names]
    by (simp add: getInlinePolicies_def)
qed

lemma reported_getRoleTags:
  "reported (profile c) roleName w
     (map_option ((@) ''failed to get tags: '') (errOf (fst (getRoleTags lib c roleName w))))
     (snd (getRoleTags lib c roleName w))"
proof (cases "iamListRoleTags lib (calls w) (profile c) roleName")
  case (Inl err)
  then show ?thesis
    using reported_failed [of "ListRoleTagsInput (profile c) roleName" "profile c" roleName w err]
    by (simp add: getRoleTags_def fetches_def)
next
  case (Inr ts)
  then show ?thesis by (simp add: getRoleTags_def)
qed

lemma reported_GetRoleInfo:
  "reported (profile c) roleName w (errOf (fst (GetRoleInfo lib c roleName w))) (snd (GetRoleInfo lib c roleName w))"
proof (cases "iamGetRole lib (calls w) (profile c) roleName")
  case (Inl err)
  then show ?thesis
    using reported_failed [of "GetRoleInput (profile c) roleName" "profile c" roleName w err]
    by (simp add: GetRoleInfo_def fetches_def)
next
  case role: (Inr role)
  let ?w1 = "call (GetRoleInput (profile c) roleName) None w"
  have q1: "reported (profile c) roleName w None ?w1" by simp
  show ?thesis
  proof (cases "processPolicyDocument lib (Role_AssumeRolePolicyDocument role)")
    case (Inl err)
    then show ?thesis using role by (simp add: GetRoleInfo_def Let_def)
  next
    case tp: (Inr trustPolicy)
    let ?m = "getManagedPolicies lib c roleName ?w1"
    have qm: "reported (profile c) roleName ?w1
        (map_option ((@) ''failed to get managed policies: '') (errOf (fst ?m))) (snd ?m)"
      by (rule reported_getManagedPolicies)
    show ?thesis
    proof (cases "fst ?m")
      case (Inl err)
      have "reported (profile c) roleName w (Some (''failed to get managed policies: '' @ err)) (snd ?m)"
        using reported_trans [OF q1 qm] Inl by simp
      then show ?thesis
        using role tp Inl by (simp add: GetRoleInfo_def Let_def case_prod_beta)
    next
      case mp: (Inr managedPolicies)
      have q2: "reported (profile c) roleName w None (snd ?m)" using reported_trans [OF q1 qm] mp by simp
      let ?i = "getInlinePolicies lib c roleName (snd ?m)"
      have qi: "reported (profile c) roleName (snd ?m)
          (map_option ((@) ''failed to get inline policies: '') (errOf (fst ?i))) (snd ?i)"
        by (rule reported_getInlinePolicies)
      show ?thesis
      proof (cases "fst ?i")
        case (Inl err)
        have "reported (profile c) roleName w (Some (''failed to get inline policies: '' @ err)) (snd ?i)"
          using reported_trans [OF q2 qi] Inl by simp
        then show ?thesis
          using role tp mp Inl by (simp add: GetRoleInfo_def Let_def case_prod_beta)
      next
        case ip: (Inr inlinePolicies)
        have q3: "reported (profile c) roleName w None (snd ?i)" using reported_trans [OF q2 qi] ip by simp
        let ?t = "getRoleTags lib c roleName (snd ?i)"
        have qt: "reported (profile c) roleName (snd ?i)
            (map_option ((@) ''failed to get tags: '') (errOf (fst ?t))) (snd ?t)"
          by (rule reported_getRoleTags)
        show ?thesis
        proof (cases "fst ?t")
          case (Inl err)
          have "reported (profile c) roleName w (Some (''failed to get tags: '' @ err)) (snd ?t)"
            using reported_trans [OF q3 qt] Inl by simp
          then show ?thesis
            using role tp mp ip Inl by (simp add: GetRoleInfo_def Let_def case_prod_beta)
        next
          case (Inr tags)
          have "reported (profile c) roleName w None (snd ?t)" using reported_trans [OF q3 qt] Inr by simp
          then show ?thesis
            using role tp mp ip Inr by (simp add: GetRoleInfo_def Let_def case_prod_beta)
        qed
      qed
    qed
  qed
qed

lemma reportedD:
  "reported p rn w (errOf res) w' \<Longrightarrow> (req, Some e) \<in> set (sent w w') \<Longrightarrow>
     req \<in> fetches p rn \<and> res = Inl (fetchError req e)"
  unfolding reported_def sent_def by (cases res) auto

lemma ListRoles_pages_failed:
  "\<exists>evs. calls (snd (ListRoles_pages prof prefix pages acc w)) = calls w @ evs \<and>
     (\<forall>req e. (req, Some e) \<in> set evs \<longrightarrow>
        fst (ListRoles_pages prof prefix pages acc w) = Inl (''failed to list roles: '' @ e))"
proof (induction pages arbitrary: acc w)
  case Nil
  then show ?case by simp
next
  case (Cons page pages)
  show ?case
  proof (cases page)
    case (Inl err)
    then show ?thesis by simp
  next
    case (Inr roles)
    obtain evs where e: "calls (snd (ListRoles_pages prof prefix pages
        (acc @ filter (\<lambda>roleName. prefix = [] \<or> HasPrefix roleName prefix) roles)
        (call (ListRolesInput prof) None w)))
      = calls (call (ListRolesInput prof) None w) @ evs"
      "\<forall>req e. (req, Some e) \<in> set evs \<longrightarrow>
        fst (ListRoles_pages prof prefix pages
          (acc @ filter (\<lambda>roleName. prefix = [] \<or> HasPrefix roleName prefix) roles)
          (call (ListRolesInput prof) None w)) = Inl (''failed to list roles: '' @ e)"
      using Cons.IH by blast
    show ?thesis
      using Inr e by (intro exI [where x = "(ListRolesInput prof, None) # evs"]) simp
  qed
qed

section \<open>Properties of the cloning step\<close>

lemma calls_dryRunManaged [simp]: "calls (cloneSingleRole_dryRunManaged log ps w) = calls w"
  unfolding cloneSingleRole_dryRunManaged_def by (induction ps arbitrary: w) simp_all

lemma calls_dryRunInline [simp]: "calls (cloneSingleRole_dryRunInline config log ps w) = calls w"
  unfolding cloneSingleRole_dryRunInline_def
  by (induction ps arbitrary: w) (simp_all add: Let_def split_beta)

lemma calls_dryRunTags [simp]: "calls (cloneSingleRole_dryRunTags config log tags w) = calls w"
  unfolding cloneSingleRole_dryRunTags_def
  by (induction tags arbitrary: w) (simp_all add: Let_def split_beta)

lemma calls_dryRun [simp]: "calls (cloneSingleRole_dryRun config log roleInfo w) = calls w"
  by (simp add: cloneSingleRole_dryRun_def Let_def)

lemma cloneSingleRole_fetch_failed:
  "GetRoleInfo lib sourceClient sourceRole
      (Debug log (''  Getting role information for: '' @ sourceRole) w) = (Inl err, w2) \<Longrightarrow>
   cloneSingleRole lib sourceClient destClient sourceRole destRole config log w
     = (Return (Some (''failed to get role info: '' @ err)), w2)"
  by (simp add: cloneSingleRole_def Let_def)

lemma cloneSingleRole_DryRun:
  assumes "DryRun config"
  shows "quiet w (snd (cloneSingleRole lib sourceClient destClient sourceRole destRole config log w))"
    and "\<exists>r. fst (cloneSingleRole lib sourceClient destClient sourceRole destRole config log w)
           = Return r"
proof -
  let ?w1 = "Debug log (''  Getting role information for: '' @ sourceRole) w"
  have q: "quiet w (snd (GetRoleInfo lib sourceClient sourceRole ?w1))"
    using quiet_trans [OF _ quiet_GetRoleInfo] quiet_log(5) by blast
  show "quiet w (snd (cloneSingleRole lib sourceClient destClient sourceRole destRole config log w))"
  proof (cases "GetRoleInfo lib sourceClient sourceRole ?w1")
    case (Pair r w2)
    then have q2: "quiet w w2" using q by simp
    show ?thesis
    proof (cases r)
      case (Inl err)
      then show ?thesis using Pair q2 by (simp add: cloneSingleRole_def Let_def)
    next
      case (Inr roleInfo)
      have "quiet w2 (cloneSingleRole_dryRun config log roleInfo (Debug log m w2))" for m
        by (rule quiet_same) simp
      then show ?thesis
        using Pair Inr q2 assms quiet_trans by (auto simp: cloneSingleRole_def Let_def)
    qed
  qed
  show "\<exists>r. fst (cloneSingleRole lib sourceClient destClient sourceRole destRole config log w)
           = Return r"
    using assms by (auto simp: cloneSingleRole_def Let_def split: sum.splits prod.splits)
qed

lemma performCloning_roles_DryRun:
  "DryRun config \<Longrightarrow>
   quiet w (snd (performCloning_roles lib sourceClient destClient config log i roles n w)) \<and>
   (\<exists>k. fst (performCloning_roles lib sourceClient destClient config log i roles n w) = Return k)"
proof (induction roles arbitrary: i n w)
  case Nil
  then show ?case by simp
next
  case (Cons role roles)
  let ?newRole = "GenerateNewRoleName role (SourcePattern config) (DestPattern config)"
  let ?w1 = "Progress log (i + 1) (length (Roles config))
               (''Cloning: '' @ role @ '' '' @ rarrow @ '' '' @ ?newRole) w"
  let ?c = "cloneSingleRole lib sourceClient destClient role ?newRole config log ?w1"
  have q1: "quiet w (snd ?c)"
    using quiet_trans [OF quiet_log(6) cloneSingleRole_DryRun(1) [OF Cons.prems]] .
  obtain r where r: "fst ?c = Return r"
    using cloneSingleRole_DryRun(2) [OF Cons.prems] by blast
  show ?case
  proof (cases r)
    case None
    let ?w3 = "Success log (''Successfully cloned: '' @ role @ '' '' @ rarrow @ '' '' @ ?newRole)
                 (snd ?c)"
    have e: "performCloning_roles lib sourceClient destClient config log i (role # roles) n w
        = performCloning_roles lib sourceClient destClient config log (i + 1) roles (n + 1) ?w3"
      using r None by (cases ?c) (simp add: Let_def)
    have "quiet w ?w3" using q1 quiet_log(2) quiet_trans by blast
    then show ?thesis
      using Cons.IH [OF Cons.prems, of ?w3 "i + 1" "n + 1"] quiet_trans unfolding e by blast
  next
    case (Some err)
    let ?w3 = "Error log (''Failed to clone '' @ role @ '': '' @ err) (snd ?c)"
    have e: "performCloning_roles lib sourceClient destClient config log i (role # roles) n w
        = performCloning_roles lib sourceClient destClient config log (i + 1) roles n ?w3"
      using r Some by (cases ?c) (simp add: Let_def)
    have "quiet w ?w3" using q1 quiet_log(4) quiet_trans by blast
    then show ?thesis
      using Cons.IH [OF Cons.prems, of ?w3 "i + 1" n] quiet_trans unfolding e by blast
  qed
qed

lemma performCloning_DryRun:
  assumes "DryRun config"
  shows "quiet w (snd (performCloning lib config log w))"
proof -
  let ?w1 = "Separator log (Info log ''Step 5: Role Cloning Process'' w)"
  have q1: "quiet w ?w1" using quiet_log(1) quiet_log(7) quiet_trans by blast
  let ?n = "NewClient lib (SourceProfile config) ?w1"
  have q2: "quiet w (snd ?n)" using q1 quiet_NewClient quiet_trans by blast
  show ?thesis
  proof (cases "fst ?n")
    case (Inl err)
    then show ?thesis using q2 by (cases ?n) (simp add: performCloning_def Let_def)
  next
    case (Inr sourceClient)
    let ?l = "performCloning_roles lib sourceClient None config log 0 (Roles config) 0 (snd ?n)"
    have q3: "quiet w (snd ?l)"
      using q2 performCloning_roles_DryRun [OF assms] quiet_trans by blast
    obtain k where k: "fst ?l = Return k"
      using performCloning_roles_DryRun [OF assms] by blast
    have "quiet (snd ?l) (Info log m' (Success log m (Separator log (snd ?l))))" for m m'
      by (rule quiet_same) simp
    then have "quiet w (Info log m' (Success log m (Separator log (snd ?l))))" for m m'
      using q3 quiet_trans by blast
    then show ?thesis
      using Inr k assms by (cases ?n, cases ?l) (simp add: performCloning_def Let_def)
  qed
qed

lemma performCloning_roles_counted:
  "fst (cloneSingleRole lib sourceClient destClient role
          (GenerateNewRoleName role (SourcePattern config) (DestPattern config)) config log
          (Progress log (i + 1) (length (Roles config))
             (''Cloning: '' @ role @ '' '' @ rarrow @ '' ''
              @ GenerateNewRoleName role (SourcePattern config) (DestPattern config)) w))
     = Return None \<Longrightarrow>
   performCloning_roles lib sourceClient destClient config log i (role # roles) n w
     = performCloning_roles lib sourceClient destClient config log (i + 1) roles (n + 1)
         (Success log (''Successfully cloned: '' @ role @ '' '' @ rarrow @ '' ''
                       @ GenerateNewRoleName role (SourcePattern config) (DestPattern config))
            (snd (cloneSingleRole lib sourceClient destClient role
                    (GenerateNewRoleName role (SourcePattern config) (DestPattern config))
                    config log
                    (Progress log (i + 1) (length (Roles config))
                       (''Cloning: '' @ role @ '' '' @ rarrow @ '' ''
                        @ GenerateNewRoleName role (SourcePattern config) (DestPattern config))
                       w))))"
  by (cases "cloneSingleRole lib sourceClient destClient role (GenerateNewRoleName role (SourcePattern config) (DestPattern config)) config log (Progress log (i + 1) (length (Roles config)) (''Cloning: '' @ role @ '' '' @ rarrow @ '' '' @ GenerateNewRoleName role (SourcePattern config) (DestPattern config)) w)") (simp add: Let_def)

lemma performCloning_roles_failed:
  "fst (cloneSingleRole lib sourceClient destClient role
          (GenerateNewRoleName role (SourcePattern config) (DestPattern config)) config log
          (Progress log (i + 1) (length (Roles config))
             (''Cloning: '' @ role @ '' '' @ rarrow @ '' ''
              @ GenerateNewRoleName role (SourcePattern config) (DestPattern config)) w))
     = Return (Some err) \<Longrightarrow>
   performCloning_roles lib sourceClient destClient config log i (role # roles) n w
     = performCloning_roles lib sourceClient destClient config log (i + 1) roles n
         (Error log (''Failed to clone '' @ role @ '': '' @ err)
            (snd (cloneSingleRole lib sourceClient destClient role
                    (GenerateNewRoleName role (SourcePattern config) (DestPattern config))
                    config log
                    (Progress log (i + 1) (length (Roles config))
                       (''Cloning: '' @ role @ '' '' @ rarrow @ '' ''
                        @ GenerateNewRoleName role (SourcePattern config) (DestPattern config))
                       w))))"
  by (cases "cloneSingleRole lib sourceClient destClient role (GenerateNewRoleName role (SourcePattern config) (DestPattern config)) config log (Progress log (i + 1) (length (Roles config)) (''Cloning: '' @ role @ '' '' @ rarrow @ '' '' @ GenerateNewRoleName role (SourcePattern config) (DestPattern config)) w)") (simp add: Let_def)

declare performCloning_roles.simps(2) [simp del]

lemma cloneSingleRole_real_exists:
  "iamGetRole lib (calls w) (profile dc) destRole = Inr role \<Longrightarrow>
   cloneSingleRole_real lib dc sourceRole destRole config log roleInfo w
     = (Some (''destination role already exists: '' @ destRole),
        call (GetRoleInput (profile dc) destRole) None w)"
  by (simp add: cloneSingleRole_real_def RoleExists_def)

lemma cloneSingleRole_fetched:
  "\<not> DryRun config \<Longrightarrow>
   GetRoleInfo lib sourceClient sourceRole
      (Debug log (''  Getting role information for: '' @ sourceRole) w) = (Inr roleInfo, w2) \<Longrightarrow>
   cloneSingleRole lib sourceClient (Some dc) sourceRole destRole config log w
     = (Return (fst (cloneSingleRole_real lib dc sourceRole destRole config log roleInfo
                  (Debug log (''  Retrieved role info: ''
                      @ natStr (length (ManagedPolicies roleInfo)) @ '' managed policies, ''
                      @ natStr (length (InlinePolicies roleInfo)) @ '' inline policies, ''
                      @ natStr (length (Tags roleInfo)) @ '' tags'') w2))),
        snd (cloneSingleRole_real lib dc sourceRole destRole config log roleInfo
               (Debug log (''  Retrieved role info: ''
                      @ natStr (length (ManagedPolicies roleInfo)) @ '' managed policies, ''
                      @ natStr (length (InlinePolicies roleInfo)) @ '' inline policies, ''
                      @ natStr (length (Tags roleInfo)) @ '' tags'') w2)))"
  by (simp add: cloneSingleRole_def Let_def split_beta)

lemma processedTags_fold_Environment:
  "map_of (fold (\<lambda>(key, val) processedTags.
             if key = E then (let envValue = ev in AList.update key envValue processedTags)
             else AList.update key (f val) processedTags) tags acc) E
   = (if E \<in> fst ` set tags then Some ev else map_of acc E)"
  by (induction tags arbitrary: acc) (auto simp: update_conv')

lemma processedTags_fold_keys:
  "fst ` set (fold (\<lambda>(key, val) processedTags.
             if key = E then (let envValue = ev in AList.update key envValue processedTags)
             else AList.update key (f val) processedTags) tags acc)
   = fst ` set tags \<union> fst ` set acc"
proof (induction tags arbitrary: acc)
  case Nil
  then show ?case by simp
next
  case (Cons a tags)
  obtain k v where a: "a = (k, v)" by (cases a)
  show ?case
    by (auto simp: a Let_def AList.dom_update Cons.IH)
qed

lemma processedTags_empty_iff: "cloneSingleRole_processedTags config tags = [] \<longleftrightarrow> tags = []"
proof -
  have "fst ` set (cloneSingleRole_processedTags config tags) = fst ` set tags"
    unfolding cloneSingleRole_processedTags_def by (simp add: processedTags_fold_keys)
  then show ?thesis by (metis image_is_empty set_empty)
qed

lemma dryRunTags_console:
  "verbose log \<Longrightarrow>
   console (cloneSingleRole_dryRunTags config log tags w) =
     console w @ map (\<lambda>(key, val).
       (DEBUG,
        if key = ''Environment'' then
          ''    - '' @ key @ '': '' @ val @ '' '' @ rarrow @ '' ''
            @ TrimSuffix (TrimSuffix (TrimSuffix (DestPattern config) ''_'') ''-'') ''.''
        else if ReplacePatternInJSON val (SourcePattern config) (DestPattern config) \<noteq> val
        then ''    - '' @ key @ '': '' @ val @ '' '' @ rarrow @ '' ''
               @ ReplacePatternInJSON val (SourcePattern config) (DestPattern config)
        else ''    - '' @ key @ '': '' @ val)) tags"
  unfolding cloneSingleRole_dryRunTags_def
  by (induction tags arbitrary: w) (auto simp: Let_def)

lemma tags_calls:
  "tags \<noteq> [] \<Longrightarrow>
   calls (cloneSingleRole_tags lib dc destRole config log tags w) =
     calls w @ [(TagRoleInput (profile dc) destRole (cloneSingleRole_processedTags config tags),
                 iamTagRole lib (calls w) (profile dc) destRole
                   (cloneSingleRole_processedTags config tags))]"
  by (auto simp: cloneSingleRole_tags_def TagRole_def Let_def processedTags_empty_iff
      split: option.splits)

lemma TrimSuffix_snoc: "TrimSuffix (base @ [c]) [d] = (if c = d then base else base @ [c])"
  by (simp add: TrimSuffix_def HasSuffix_def)

lemma HasSuffix_snoc: "HasSuffix (base @ [c]) [d] \<longleftrightarrow> c = d"
  by (simp add: HasSuffix_def)

lemma TrimSuffix_id: "\<not> HasSuffix s suf \<Longrightarrow> TrimSuffix s suf = s"
  by (simp add: TrimSuffix_def)

lemma substeps_log:
  "calls w' = calls w \<Longrightarrow> console w' = console w @ out \<Longrightarrow> substeps w w' []"
  unfolding substeps_def by auto

lemma substeps_trans:
  assumes "substeps w w1 r1" "substeps w1 w2 r2"
  shows "substeps w w2 (r1 @ r2)"
proof -
  obtain e1 o1 where 1: "calls w1 = calls w @ e1" "console w1 = console w @ o1"
    "map fst e1 = r1" "\<forall>req e. (req, Some e) \<in> set e1 \<longrightarrow> (WARNING, warning req e) \<in> set o1"
    using assms(1) unfolding substeps_def by blast
  obtain e2 o2 where 2: "calls w2 = calls w1 @ e2" "console w2 = console w1 @ o2"
    "map fst e2 = r2" "\<forall>req e. (req, Some e) \<in> set e2 \<longrightarrow> (WARNING, warning req e) \<in> set o2"
    using assms(2) unfolding substeps_def by blast
  have "calls w2 = calls w @ (e1 @ e2)" "console w2 = console w @ (o1 @ o2)"
    "map fst (e1 @ e2) = r1 @ r2"
    using 1 2 by simp_all
  moreover have "\<forall>req e. (req, Some e) \<in> set (e1 @ e2)
      \<longrightarrow> (WARNING, warning req e) \<in> set (o1 @ o2)"
    using 1(4) 2(4) by auto
  ultimately show ?thesis unfolding substeps_def by blast
qed

lemma substeps_Debug [simp]: "substeps w (Debug log m w) []"
  by (rule substeps_log [where out = "if verbose log then [(DEBUG, m)] else []"]) simp_all

lemma substeps_attach_one:
  "substeps w
     (case AttachManagedPolicy lib dc destRole policyArn w of
        (Some err, w') \<Rightarrow>
          Warning log (''    Failed to attach managed policy '' @ policyArn @ '': '' @ err) w'
      | (None, w') \<Rightarrow> Debug log (''    Attached: '' @ policyArn) w')
     [AttachRolePolicyInput (profile dc) destRole policyArn]"
  unfolding substeps_def
  by (cases "iamAttachRolePolicy lib (calls w) (profile dc) destRole policyArn")
    (auto simp: AttachManagedPolicy_def)

lemma substeps_attach:
  "substeps w (cloneSingleRole_attach lib dc destRole log policies w)
     (map (AttachRolePolicyInput (profile dc) destRole) policies)"
proof (induction policies arbitrary: w)
  case Nil
  then show ?case by (simp add: cloneSingleRole_attach_def substeps_log [where out = "[]"])
next
  case (Cons p ps)
  show ?case
    using substeps_trans [OF substeps_attach_one Cons.IH]
    by (simp add: cloneSingleRole_attach_def)
qed

lemma substeps_inline_one:
  "substeps w
     (let newPolicyName =
            GenerateNewRoleName policyName (SourcePattern config) (DestPattern config);
          processedDocument =
            ReplacePatternInJSON policyDocument (SourcePattern config) (DestPattern config);
          w1 = (if Verbose config then
                  Debug log (''    Policy document preview: ''
                             @ takeRunes 100 processedDocument @ ''...'')
                    (Debug log (''    Creating inline policy: '' @ newPolicyName) w)
                else w)
      in case CreateInlinePolicy lib dc destRole newPolicyName processedDocument w1 of
           (Some err, w') \<Rightarrow>
             Warning log (''    Failed to create inline policy '' @ newPolicyName @ '': ''
                          @ err) w'
         | (None, w') \<Rightarrow> Debug log (''    Created inline policy: '' @ newPolicyName) w')
     [PutRolePolicyInput (profile dc) destRole
        (GenerateNewRoleName policyName (SourcePattern config) (DestPattern config))
        (ReplacePatternInJSON policyDocument (SourcePattern config) (DestPattern config))]"
  unfolding substeps_def Let_def
  by (cases "iamPutRolePolicy lib
        (calls w) (profile dc) destRole
        (GenerateNewRoleName policyName (SourcePattern config) (DestPattern config))
        (ReplacePatternInJSON policyDocument (SourcePattern config) (DestPattern config))")
    (auto simp: CreateInlinePolicy_def)

lemma substeps_inline:
  "substeps w (cloneSingleRole_inline lib dc destRole config log policies w)
     (map (\<lambda>(policyName, policyDocument).
             PutRolePolicyInput (profile dc) destRole
               (GenerateNewRoleName policyName (SourcePattern config) (DestPattern config))
               (ReplacePatternInJSON policyDocument (SourcePattern config) (DestPattern config)))
        policies)"
proof (induction policies arbitrary: w)
  case Nil
  then show ?case by (simp add: cloneSingleRole_inline_def substeps_log [where out = "[]"])
next
  case (Cons p ps)
  obtain n d where p: "p = (n, d)" by (cases p)
  show ?case
    using substeps_trans [OF substeps_inline_one Cons.IH]
    by (simp add: cloneSingleRole_inline_def p)
qed

lemma substeps_tags:
  "substeps w (cloneSingleRole_tags lib dc destRole config log tags w)
     (if tags = [] then []
      else [TagRoleInput (profile dc) destRole (cloneSingleRole_processedTags config tags)])"
proof (cases "tags = []")
  case True
  then show ?thesis by (simp add: cloneSingleRole_tags_def substeps_log [where out = "[]"])
next
  case False
  then have ne: "cloneSingleRole_processedTags config tags \<noteq> []"
    by (simp add: processedTags_empty_iff)
  show ?thesis
    unfolding substeps_def
    using False ne
    by (cases "iamTagRole lib (calls w) (profile dc) destRole
                 (cloneSingleRole_processedTags config tags)")
      (auto simp: cloneSingleRole_tags_def TagRole_def Let_def)
qed

lemma substeps_same: "calls w' = calls w \<Longrightarrow> console w' = console w \<Longrightarrow> substeps w w' []"
  by (rule substeps_log [where out = "[]"]) simp_all

lemma substeps_cong:
  "substeps w w' reqs \<Longrightarrow> calls v = calls w \<Longrightarrow> console v = console w \<Longrightarrow> substeps v w' reqs"
  unfolding substeps_def by simp

text \<open>The requests after \<open>CreateRole\<close>, for a role and its destination.\<close>

lemma cloneSingleRole_real_after_create:
  "substeps w
     (cloneSingleRole_tags lib dc destRole config log (Tags roleInfo)
        (cloneSingleRole_inline lib dc destRole config log (InlinePolicies roleInfo)
           (Debug log m3
              (cloneSingleRole_attach lib dc destRole log (ManagedPolicies roleInfo)
                 (Debug log m2 (Debug log m1 w))))))
     (map (AttachRolePolicyInput (profile dc) destRole) (ManagedPolicies roleInfo)
      @ map (\<lambda>(policyName, policyDocument).
               PutRolePolicyInput (profile dc) destRole
                 (GenerateNewRoleName policyName (SourcePattern config) (DestPattern config))
                 (ReplacePatternInJSON policyDocument (SourcePattern config) (DestPattern config)))
          (InlinePolicies roleInfo)
      @ (if Tags roleInfo = [] then []
         else [TagRoleInput (profile dc) destRole
                 (cloneSingleRole_processedTags config (Tags roleInfo))]))"
proof -
  let ?a = "Debug log m2 (Debug log m1 w)"
  let ?b = "cloneSingleRole_attach lib dc destRole log (ManagedPolicies roleInfo) ?a"
  let ?c = "Debug log m3 ?b"
  let ?d = "cloneSingleRole_inline lib dc destRole config log (InlinePolicies roleInfo) ?c"
  have 1: "substeps w ?a []"
    using substeps_trans [OF substeps_Debug substeps_Debug] by simp
  have 2: "substeps w ?b (map (AttachRolePolicyInput (profile dc) destRole)
      (ManagedPolicies roleInfo))"
    using substeps_trans [OF 1 substeps_attach] by simp
  have 3: "substeps w ?c (map (AttachRolePolicyInput (profile dc) destRole)
      (ManagedPolicies roleInfo))"
    using substeps_trans [OF 2 substeps_Debug] by simp
  have 4: "substeps w ?d (map (AttachRolePolicyInput (profile dc) destRole)
      (ManagedPolicies roleInfo)
      @ map (\<lambda>(policyName, policyDocument).
               PutRolePolicyInput (profile dc) destRole
                 (GenerateNewRoleName policyName (SourcePattern config) (DestPattern config))
                 (ReplacePatternInJSON policyDocument (SourcePattern config) (DestPattern config)))
          (InlinePolicies roleInfo))"
    using substeps_trans [OF 3 substeps_inline] .
  show ?thesis
    using substeps_trans [OF 4 substeps_tags [where lib = lib and dc = dc and destRole = destRole
        and config = config and log = log and tags = "Tags roleInfo"]]
    by simp
qed

lemma cloneSingleRole_real_create_failed:
  assumes g: "iamGetRole lib (calls w) (profile dc) destRole = Inl e0"
    and c: "iamCreateRole lib (calls w @ [(GetRoleInput (profile dc) destRole, Some e0)])
              (profile dc) destRole
              (ReplacePatternInJSON (TrustPolicy roleInfo) (SourcePattern config)
                 (DestPattern config))
              (Some (''Cloned from '' @ sourceRole @ '' on ''
                     @ Now lib (calls w @ [(GetRoleInput (profile dc) destRole, Some e0)])))
            = Some err"
  shows "fst (cloneSingleRole_real lib dc sourceRole destRole config log roleInfo w)
           = Some (''failed to create role: '' @ ''failed to create role '' @ destRole @ '': ''
                   @ err)"
    and "calls (snd (cloneSingleRole_real lib dc sourceRole destRole config log roleInfo w))
           = calls w @ [(GetRoleInput (profile dc) destRole, Some e0),
                (CreateRoleInput (profile dc) destRole
                   (ReplacePatternInJSON (TrustPolicy roleInfo) (SourcePattern config)
                      (DestPattern config))
                   (Some (''Cloned from '' @ sourceRole @ '' on ''
                          @ Now lib (calls w @ [(GetRoleInput (profile dc) destRole, Some e0)]))),
                 Some err)]"
  using g c by (simp_all add: cloneSingleRole_real_def RoleExists_def CreateRole_def Let_def)

lemma cloneSingleRole_real_created:
  assumes g: "iamGetRole lib (calls w) (profile dc) destRole = Inl e0"
    and c: "iamCreateRole lib (calls w @ [(GetRoleInput (profile dc) destRole, Some e0)])
              (profile dc) destRole
              (ReplacePatternInJSON (TrustPolicy roleInfo) (SourcePattern config)
                 (DestPattern config))
              (Some (''Cloned from '' @ sourceRole @ '' on ''
                     @ Now lib (calls w @ [(GetRoleInput (profile dc) destRole, Some e0)])))
            = None"
  shows "fst (cloneSingleRole_real lib dc sourceRole destRole config log roleInfo w) = None"
    and "\<exists>evs out.
           calls (snd (cloneSingleRole_real lib dc sourceRole destRole config log roleInfo w))
             = calls w @ [(GetRoleInput (profile dc) destRole, Some e0),
                  (CreateRoleInput (profile dc) destRole
                     (ReplacePatternInJSON (TrustPolicy roleInfo) (SourcePattern config)
                        (DestPattern config))
                     (Some (''Cloned from '' @ sourceRole @ '' on ''
                            @ Now lib (calls w @ [(GetRoleInput (profile dc) destRole, Some e0)]))),
                   None)] @ evs \<and>
           console (snd (cloneSingleRole_real lib dc sourceRole destRole config log roleInfo w))
             = console w @ out \<and>
           map fst evs =
             map (AttachRolePolicyInput (profile dc) destRole) (ManagedPolicies roleInfo)
             @ map (\<lambda>(policyName, policyDocument).
                      PutRolePolicyInput (profile dc) destRole
                        (GenerateNewRoleName policyName (SourcePattern config) (DestPattern config))
                        (ReplacePatternInJSON policyDocument (SourcePattern config)
                           (DestPattern config)))
                 (InlinePolicies roleInfo)
             @ (if Tags roleInfo = [] then []
                else [TagRoleInput (profile dc) destRole
                        (cloneSingleRole_processedTags config (Tags roleInfo))]) \<and>
           (\<forall>req e. (req, Some e) \<in> set evs \<longrightarrow> (WARNING, warning req e) \<in> set out)"
proof -
  let ?tp = "ReplacePatternInJSON (TrustPolicy roleInfo) (SourcePattern config) (DestPattern config)"
  let ?w1 = "call (GetRoleInput (profile dc) destRole) (Some e0) w"
  let ?w3 = "if Verbose config then
               Debug log (''  Processed trust policy: '' @ ?tp)
                 (Debug log (''  Original trust policy: '' @ TrustPolicy roleInfo)
                    (Debug log ''  Creating new role...'' ?w1))
             else Debug log ''  Creating new role...'' ?w1"
  let ?desc = "''Cloned from '' @ sourceRole @ '' on ''
                 @ Now lib (calls w @ [(GetRoleInput (profile dc) destRole, Some e0)])"
  let ?w4 = "call (CreateRoleInput (profile dc) destRole ?tp (Some ?desc)) None ?w3"
  let ?reqs = "map (AttachRolePolicyInput (profile dc) destRole) (ManagedPolicies roleInfo)
             @ map (\<lambda>(policyName, policyDocument).
                      PutRolePolicyInput (profile dc) destRole
                        (GenerateNewRoleName policyName (SourcePattern config) (DestPattern config))
                        (ReplacePatternInJSON policyDocument (SourcePattern config)
                           (DestPattern config)))
                 (InlinePolicies roleInfo)
             @ (if Tags roleInfo = [] then []
                else [TagRoleInput (profile dc) destRole
                        (cloneSingleRole_processedTags config (Tags roleInfo))])"
  let ?final = "cloneSingleRole_tags lib dc destRole config log (Tags roleInfo)
        (cloneSingleRole_inline lib dc destRole config log (InlinePolicies roleInfo)
           (Debug log (''  Creating '' @ natStr (length (InlinePolicies roleInfo))
                              @ '' inline policies...'')
              (cloneSingleRole_attach lib dc destRole log (ManagedPolicies roleInfo)
                 (Debug log (''  Attaching '' @ natStr (length (ManagedPolicies roleInfo))
                              @ '' managed policies...'')
                    (Debug log ''  Role created successfully'' ?w4)))))"
  have c3: "calls ?w3 = calls w @ [(GetRoleInput (profile dc) destRole, Some e0)]" by simp
  have r: "cloneSingleRole_real lib dc sourceRole destRole config log roleInfo w = (None, ?final)"
    using g c c3 by (simp add: cloneSingleRole_real_def RoleExists_def CreateRole_def Let_def)
  show "fst (cloneSingleRole_real lib dc sourceRole destRole config log roleInfo w) = None"
    by (simp add: r)
  have "substeps ?w4 ?final ?reqs" by (rule cloneSingleRole_real_after_create)
  then obtain evs out where e: "calls ?final = calls ?w4 @ evs" "console ?final = console ?w4 @ out"
      "map fst evs = ?reqs"
      "\<forall>req e. (req, Some e) \<in> set evs \<longrightarrow> (WARNING, warning req e) \<in> set out"
    unfolding substeps_def by blast
  obtain out0 where o: "console ?w4 = console w @ out0"
    by (cases "Verbose config") simp_all
  have "calls ?final = calls w @ [(GetRoleInput (profile dc) destRole, Some e0),
          (CreateRoleInput (profile dc) destRole ?tp (Some ?desc), None)] @ evs"
    using e(1) by simp
  moreover have "console ?final = console w @ (out0 @ out)" using e(2) o by simp
  moreover have "\<forall>req e. (req, Some e) \<in> set evs \<longrightarrow> (WARNING, warning req e) \<in> set (out0 @ out)"
    using e(4) by simp
  ultimately show "\<exists>evs out.
           calls (snd (cloneSingleRole_real lib dc sourceRole destRole config log roleInfo w))
             = calls w @ [(GetRoleInput (profile dc) destRole, Some e0),
                  (CreateRoleInput (profile dc) destRole ?tp (Some ?desc), None)] @ evs \<and>
           console (snd (cloneSingleRole_real lib dc sourceRole destRole config log roleInfo w))
             = console w @ out \<and>
           map fst evs = ?reqs \<and>
           (\<forall>req e. (req, Some e) \<in> set evs \<longrightarrow> (WARNING, warning req e) \<in> set out)"
    using e(3) unfolding r snd_conv by blast
qed

lemma cloneSingleRole_returns:
  "DryRun config \<or> destClient \<noteq> None \<Longrightarrow>
   \<exists>r. fst (cloneSingleRole lib sourceClient destClient sourceRole destRole config log w)
         = Return r"
  by (auto simp: cloneSingleRole_def Let_def split: sum.splits prod.splits option.splits)

lemma performCloning_roles_returns:
  "DryRun config \<or> destClient \<noteq> None \<Longrightarrow>
   \<exists>k. fst (performCloning_roles lib sourceClient destClient config log i roles n w) = Return k
       \<and> n \<le> k \<and> k \<le> n + length roles"
proof (induction roles arbitrary: i n w)
  case Nil
  then show ?case by simp
next
  case (Cons role roles)
  let ?newRole = "GenerateNewRoleName role (SourcePattern config) (DestPattern config)"
  let ?w1 = "Progress log (i + 1) (length (Roles config))
               (''Cloning: '' @ role @ '' '' @ rarrow @ '' '' @ ?newRole) w"
  let ?c = "cloneSingleRole lib sourceClient destClient role ?newRole config log ?w1"
  obtain r where r: "fst ?c = Return r"
    using cloneSingleRole_returns [OF Cons.prems] by blast
  show ?case
  proof (cases r)
    case None
    obtain k where "fst (performCloning_roles lib sourceClient destClient config log (i + 1) roles
        (n + 1)
        (Success log (''Successfully cloned: '' @ role @ '' '' @ rarrow @ '' '' @ ?newRole) (snd ?c)))
      = Return k" "n + 1 \<le> k" "k \<le> n + 1 + length roles"
      using Cons.IH [OF Cons.prems] by blast
    then show ?thesis
      using performCloning_roles_counted [of lib sourceClient destClient role config log i w roles n]
        r None
      by auto
  next
    case (Some err)
    obtain k where "fst (performCloning_roles lib sourceClient destClient config log (i + 1) roles n
        (Error log (''Failed to clone '' @ role @ '': '' @ err) (snd ?c)))
      = Return k" "n \<le> k" "k \<le> n + length roles"
      using Cons.IH [OF Cons.prems] by blast
    then show ?thesis
      using performCloning_roles_failed [of lib sourceClient destClient role config log i w err
          roles n] r Some
      by auto
  qed
qed

section \<open>The concrete runs, evaluated\<close>

lemmas strs = HasPrefix_def HasSuffix_def TrimSuffix_def ReplaceAll_def ReplacePatternInJSON_def
  GenerateNewRoleName_def

lemma demo_config_simps [simp]:
  "Roles (demo_config v d) = [''dev_app'']" "SourceProfile (demo_config v d) = ''dev''"
  "DestProfile (demo_config v d) = ''prod''" "DryRun (demo_config v d) = d"
  "Verbose (demo_config v d) = v" "SourcePattern (demo_config v d) = ''dev_''"
  "DestPattern (demo_config v d) = ''prod_''" "LogFile (demo_config v d) = ''clone.log''"
  by (simp_all add: demo_config_def)

lemma demo_GetRoleInfo:
  "GetRoleInfo (demo_sdk True present attached) (Client ''dev'') ''dev_app'' w
     = (Inr demo_info, w\<lparr>calls := calls w @ demo_reads\<rparr>)"
  by (simp add: GetRoleInfo_def demo_sdk_def demo_role_def demo_info_def demo_reads_def
      processPolicyDocument_def processStringPolicy_def getManagedPolicies_def
      getInlinePolicies_def getRoleTags_def call_def Let_def)

lemma demo_newRole: "GenerateNewRoleName ''dev_app'' ''dev_'' ''prod_'' = ''prod_app''"
  by (simp add: strs)

lemma demo_cloneSingleRole_dry:
  "fst (cloneSingleRole (demo_sdk True present attached) (Client ''dev'') dc ''dev_app'' destRole
          (demo_config v True) log w) = Return None"
  "calls (snd (cloneSingleRole (demo_sdk True present attached) (Client ''dev'') dc ''dev_app''
          destRole (demo_config v True) log w)) = calls w @ demo_reads"
  by (simp_all add: cloneSingleRole_def demo_GetRoleInfo Let_def demo_config_def)

lemma demo_performCloning_roles_dry:
  "fst (performCloning_roles (demo_sdk True present attached) (Client ''dev'') dc
          (demo_config v True) log 0 [''dev_app''] 0 w) = Return 1"
  "calls (snd (performCloning_roles (demo_sdk True present attached) (Client ''dev'') dc
          (demo_config v True) log 0 [''dev_app''] 0 w)) = calls w @ demo_reads"
  by (simp_all add: performCloning_roles_counted demo_cloneSingleRole_dry)

lemma demo_performCloning_dry:
  "calls (snd (performCloning (demo_sdk True present attached) (demo_config v True) log w))
     = calls w @ (LoadDefaultConfigInput ''dev'', None) # demo_reads"
proof -
  let ?lib = "demo_sdk True present attached"
  let ?w2 = "call (LoadDefaultConfigInput ''dev'') None
               (Separator log (Info log ''Step 5: Role Cloning Process'' w))"
  let ?l = "performCloning_roles ?lib (Client ''dev'') None (demo_config v True) log 0
              [''dev_app''] 0 ?w2"
  have n: "NewClient ?lib ''dev'' (Separator log (Info log ''Step 5: Role Cloning Process'' w))
      = (Inr (Client ''dev''), ?w2)"
    by (simp add: NewClient_def demo_sdk_def)
  obtain w3 where l: "?l = (Return 1, w3)"
    using demo_performCloning_roles_dry(1) [of present attached None v log ?w2]
    by (metis prod.collapse)
  have "calls (snd ?l) = calls w @ (LoadDefaultConfigInput ''dev'', None) # demo_reads"
    by (simp add: demo_performCloning_roles_dry(2))
  then have "calls w3 = calls w @ (LoadDefaultConfigInput ''dev'', None) # demo_reads"
    by (simp add: l)
  then show ?thesis
    by (simp add: performCloning_def Let_def n l)
qed

lemma demo_progress_calls [simp]: "calls demo_progress = []"
  by (simp add: demo_progress_def demo_world_def)

lemma demo_real:
  "cloneSingleRole_real (demo_sdk fetched False False) (Client ''prod'') ''dev_app'' ''prod_app''
     (demo_config False False) \<lparr>verbose = False\<rparr> demo_info w
   = (None, w\<lparr>calls := calls w @ demo_writes, console := console w @ demo_warnings\<rparr>)"
  by (simp add: cloneSingleRole_real_def RoleExists_def CreateRole_def
      cloneSingleRole_attach_def AttachManagedPolicy_def cloneSingleRole_inline_def
      CreateInlinePolicy_def cloneSingleRole_tags_def TagRole_def
      cloneSingleRole_processedTags_def demo_sdk_def demo_info_def demo_writes_def
      demo_warnings_def call_def Debug_def Warning_def emit_def strs Let_def)

text \<open>The real run in which the source role cannot be fetched.\<close>

lemma demo_cloneSingleRole_fetch_failed:
  "cloneSingleRole (demo_sdk False present attached) (Client ''dev'') dc ''dev_app'' destRole
     config \<lparr>verbose = False\<rparr> w
   = (Return (Some ''failed to get role info: failed to get role dev_app: NoSuchEntity''),
      w\<lparr>calls := calls w @ [(GetRoleInput ''dev'' ''dev_app'', Some ''NoSuchEntity'')]\<rparr>)"
  by (simp add: cloneSingleRole_def GetRoleInfo_def demo_sdk_def Debug_def call_def)

lemma demo_LoadDefaultConfig [simp]:
  "LoadDefaultConfig (demo_sdk fetched present attached) h prof = None"
  by (simp add: demo_sdk_def)

lemma demo_performCloning_none_cloned:
  "fst (performCloning (demo_sdk False present attached) (demo_config False False)
          \<lparr>verbose = False\<rparr> demo_world) = Return None"
  "last (filter (\<lambda>l. fst l = SUCCESS)
      (console (snd (performCloning (demo_sdk False present attached) (demo_config False False)
          \<lparr>verbose = False\<rparr> demo_world))))
    = (SUCCESS, ''Cloning completed: 0/1 roles successful'')"
  by (simp_all add: performCloning_def NewClient_def performCloning_roles.simps
      demo_cloneSingleRole_fetch_failed demo_newRole Let_def natStr.simps)

section \<open>The claims\<close>

subsection \<open>C1: the Environment tag\<close>

text \<open>
  Claim C1, as stated: the value stored under \<open>Environment\<close> is the destination pattern
  with any trailing \<open>_\<close>, \<open>-\<close> or \<open>.\<close> stripped, so it ends in none of them. The code
  applies \<open>TrimSuffix\<close> three times, once for each character, so at most one \<open>_\<close>, then
  at most one \<open>-\<close>, then at most one \<open>.\<close> is removed: the destination pattern
  \<open>prod__\<close> gives the value \<open>prod_\<close>.
\<close>

theorem C1_counterexample:
  "cloneSingleRole_processedTags
     ((demo_config False False)\<lparr>DestPattern := ''prod__''\<rparr>) [(''Environment'', ''dev'')]
   = [(''Environment'', ''prod_'')] \<and>
   HasSuffix ''prod_'' ''_''"
  by (simp add: cloneSingleRole_processedTags_def demo_config_def strs)

text \<open>
  Claim C1, amended: for every tag map with the key \<open>Environment\<close>, the value stored
  under that key is the destination pattern after \<open>TrimSuffix\<close> with \<open>_\<close>, then with
  \<open>-\<close>, then with \<open>.\<close>, whatever the source value and the source pattern are. That
  map is the one sent with the \<open>TagRole\<close> request of the real run, and the verbose dry run
  prints the same value. The value ends in none of the three characters when the
  destination pattern is a string that ends in none of them, followed by at most one of them.
\<close>

theorem C1_environment_tag:
  "(''Environment'' \<in> fst ` set tags \<longrightarrow>
      map_of (cloneSingleRole_processedTags config tags) ''Environment''
        = Some (TrimSuffix (TrimSuffix (TrimSuffix (DestPattern config) ''_'') ''-'') ''.'')) \<and>
   (tags \<noteq> [] \<longrightarrow>
      calls (cloneSingleRole_tags lib dc destRole config log tags w) =
        calls w @ [(TagRoleInput (profile dc) destRole (cloneSingleRole_processedTags config tags),
                    iamTagRole lib (calls w) (profile dc) destRole
                      (cloneSingleRole_processedTags config tags))]) \<and>
   (verbose log \<and> (''Environment'', v) \<in> set tags \<longrightarrow>
      (DEBUG, ''    - Environment: '' @ v @ '' '' @ rarrow @ '' ''
              @ TrimSuffix (TrimSuffix (TrimSuffix (DestPattern config) ''_'') ''-'') ''.'')
        \<in> set (console (cloneSingleRole_dryRunTags config log tags w))) \<and>
   (\<not> HasSuffix base ''_'' \<and> \<not> HasSuffix base ''-'' \<and> \<not> HasSuffix base ''.'' \<longrightarrow>
      TrimSuffix (TrimSuffix (TrimSuffix base ''_'') ''-'') ''.'' = base \<and>
      TrimSuffix (TrimSuffix (TrimSuffix (base @ ''_'') ''_'') ''-'') ''.'' = base \<and>
      TrimSuffix (TrimSuffix (TrimSuffix (base @ ''-'') ''_'') ''-'') ''.'' = base \<and>
      TrimSuffix (TrimSuffix (TrimSuffix (base @ ''.'') ''_'') ''-'') ''.'' = base)"
proof (intro conjI impI)
  assume "''Environment'' \<in> fst ` set tags"
  then show "map_of (cloneSingleRole_processedTags config tags) ''Environment''
        = Some (TrimSuffix (TrimSuffix (TrimSuffix (DestPattern config) ''_'') ''-'') ''.'')"
    unfolding cloneSingleRole_processedTags_def
    by (simp add: processedTags_fold_Environment)
next
  assume "tags \<noteq> []"
  then show "calls (cloneSingleRole_tags lib dc destRole config log tags w) =
        calls w @ [(TagRoleInput (profile dc) destRole (cloneSingleRole_processedTags config tags),
                    iamTagRole lib (calls w) (profile dc) destRole
                      (cloneSingleRole_processedTags config tags))]"
    by (rule tags_calls)
next
  assume a: "verbose log \<and> (''Environment'', v) \<in> set tags"
  then have "(DEBUG, ''    - '' @ ''Environment'' @ '': '' @ v @ '' '' @ rarrow @ '' ''
              @ TrimSuffix (TrimSuffix (TrimSuffix (DestPattern config) ''_'') ''-'') ''.'')
        \<in> set (console (cloneSingleRole_dryRunTags config log tags w))"
    by (force simp: dryRunTags_console)
  then show "(DEBUG, ''    - Environment: '' @ v @ '' '' @ rarrow @ '' ''
              @ TrimSuffix (TrimSuffix (TrimSuffix (DestPattern config) ''_'') ''-'') ''.'')
        \<in> set (console (cloneSingleRole_dryRunTags config log tags w))"
    by simp
next
  assume a: "\<not> HasSuffix base ''_'' \<and> \<not> HasSuffix base ''-'' \<and> \<not> HasSuffix base ''.''"
  then show "TrimSuffix (TrimSuffix (TrimSuffix base ''_'') ''-'') ''.'' = base"
    by (simp add: TrimSuffix_id)
  show "TrimSuffix (TrimSuffix (TrimSuffix (base @ ''_'') ''_'') ''-'') ''.'' = base"
    using a by (simp add: TrimSuffix_snoc TrimSuffix_id)
  show "TrimSuffix (TrimSuffix (TrimSuffix (base @ ''-'') ''_'') ''-'') ''.'' = base"
    using a by (simp add: TrimSuffix_snoc TrimSuffix_id)
  show "TrimSuffix (TrimSuffix (TrimSuffix (base @ ''.'') ''_'') ''-'') ''.'' = base"
    using a by (simp add: TrimSuffix_snoc TrimSuffix_id)
qed

text \<open>The theorem at the tags \<open>Environment = dev\<close>, \<open>Team = dev_core\<close> and the pattern \<open>dev_\<close> to \<open>prod_\<close>.\<close>

theorem C1_environment_tag_witness:
  "''Environment'' \<in> fst ` set [(''Environment'', ''dev''), (''Team'', ''dev_core'')] \<and>
   map_of (cloneSingleRole_processedTags (demo_config True False)
      [(''Environment'', ''dev''), (''Team'', ''dev_core'')]) ''Environment'' = Some ''prod'' \<and>
   calls (cloneSingleRole_tags (demo_sdk True False True) (Client ''prod'') ''prod_app''
      (demo_config True False) \<lparr>verbose = True\<rparr>
      [(''Environment'', ''dev''), (''Team'', ''dev_core'')] demo_world)
     = [(TagRoleInput ''prod'' ''prod_app'' [(''Environment'', ''prod''), (''Team'', ''prod_core'')],
         None)] \<and>
   (DEBUG, ''    - Environment: dev '' @ rarrow @ '' prod'')
     \<in> set (console (cloneSingleRole_dryRunTags (demo_config True False) \<lparr>verbose = True\<rparr>
          [(''Environment'', ''dev''), (''Team'', ''dev_core'')] demo_world)) \<and>
   \<not> HasSuffix ''prod'' ''_'' \<and> \<not> HasSuffix ''prod'' ''-'' \<and> \<not> HasSuffix ''prod'' ''.'' \<and>
   TrimSuffix (TrimSuffix (TrimSuffix (''prod'' @ ''_'') ''_'') ''-'') ''.'' = ''prod''"
  using C1_environment_tag [of "[(''Environment'', ''dev''), (''Team'', ''dev_core'')]"
      "demo_config True False" "demo_sdk True False True" "Client ''prod''" "''prod_app''"
      "\<lparr>verbose = True\<rparr>" demo_world "''dev''" "''prod''"]
  by (simp add: cloneSingleRole_processedTags_def demo_config_def demo_sdk_def demo_world_def strs)

subsection \<open>C2: the dry run\<close>

text \<open>
  Claim C2: with the dry-run flag set, the execution step sends no request that changes an
  account (no \<open>CreateRole\<close>, \<open>AttachRolePolicy\<close>, \<open>PutRolePolicy\<close> or \<open>TagRole\<close>),
  whatever the verbose flag, the selected roles and the answers of the service are. This
  holds for the whole step, \<open>performCloning\<close>, and for the cloning of one role,
  \<open>cloneSingleRole\<close>: the step only adds requests to the record, and none of them is a
  mutation.
\<close>

theorem C2_dry_run_sends_no_mutation:
  "DryRun config \<Longrightarrow>
   calls (snd (performCloning lib config log w))
     = calls w @ sent w (snd (performCloning lib config log w)) \<and>
   mutations (sent w (snd (performCloning lib config log w))) = [] \<and>
   calls (snd (cloneSingleRole lib sourceClient destClient sourceRole destRole config log w))
     = calls w @ sent w (snd (cloneSingleRole lib sourceClient destClient sourceRole destRole
                                config log w)) \<and>
   mutations (sent w (snd (cloneSingleRole lib sourceClient destClient sourceRole destRole
                             config log w))) = []"
  using performCloning_DryRun [of config w lib log]
    cloneSingleRole_DryRun(1) [of config w lib sourceClient destClient sourceRole destRole log]
  by (simp add: quiet_def)

text \<open>The theorem at the verbose dry run of the concrete run: six requests, all of them reads.\<close>

theorem C2_dry_run_sends_no_mutation_witness:
  "DryRun (demo_config True True) \<and>
   calls (snd (performCloning (demo_sdk True False True) (demo_config True True)
                 \<lparr>verbose = True\<rparr> demo_world))
     = (LoadDefaultConfigInput ''dev'', None) # demo_reads \<and>
   sent demo_world (snd (performCloning (demo_sdk True False True) (demo_config True True)
                           \<lparr>verbose = True\<rparr> demo_world))
     = (LoadDefaultConfigInput ''dev'', None) # demo_reads \<and>
   mutations (sent demo_world (snd (performCloning (demo_sdk True False True)
                (demo_config True True) \<lparr>verbose = True\<rparr> demo_world))) = [] \<and>
   mutations (sent demo_world (snd (cloneSingleRole (demo_sdk True False True) (Client ''dev'')
                None ''dev_app'' ''prod_app'' (demo_config True True) \<lparr>verbose = True\<rparr>
                demo_world))) = []"
  using C2_dry_run_sends_no_mutation [of "demo_config True True" "demo_sdk True False True"
      "\<lparr>verbose = True\<rparr>" demo_world "Client ''dev''" None "''dev_app''" "''prod_app''"]
    demo_performCloning_dry [of False True True "\<lparr>verbose = True\<rparr>" demo_world]
  by (simp add: sent_def demo_world_def)

subsection \<open>C3: the destination role exists\<close>

text \<open>
  Claim C3, as stated: whenever the destination role exists, \<open>cloneSingleRole\<close> returns an
  error whose message contains \<open>already exists\<close>. The role is fetched from the source
  before the destination is looked at: when that fetch fails, the error is the one of the
  fetch, though the destination role exists.
\<close>

theorem C3_counterexample:
  "\<not> DryRun (demo_config False False) \<and>
   iamGetRole (demo_sdk False True True) [(GetRoleInput ''dev'' ''dev_app'', Some ''NoSuchEntity'')]
       ''prod'' ''prod_app'' = Inr demo_role \<and>
   cloneSingleRole (demo_sdk False True True) (Client ''dev'') (Some (Client ''prod''))
       ''dev_app'' ''prod_app'' (demo_config False False) \<lparr>verbose = False\<rparr> demo_world
     = (Return (Some ''failed to get role info: failed to get role dev_app: NoSuchEntity''),
        demo_world\<lparr>calls := [(GetRoleInput ''dev'' ''dev_app'', Some ''NoSuchEntity'')]\<rparr>) \<and>
   \<not> Contains ''failed to get role info: failed to get role dev_app: NoSuchEntity''
         ''already exists''"
  by (simp add: cloneSingleRole_def GetRoleInfo_def demo_sdk_def Debug_def call_def
      demo_world_def HasPrefix_def)

text \<open>
  Claim C3, amended: in a run that is no dry run, when the fetch of the source role
  succeeds and \<open>GetRole\<close> on the destination name succeeds, \<open>cloneSingleRole\<close> returns
  the error \<open>destination role already exists: \<close> followed by the name, which contains
  \<open>already exists\<close>; the only request it sends after the fetch is that \<open>GetRole\<close>, so
  no mutation and no \<open>CreateRole\<close> is sent; and the loop logs the failure and goes on
  with the next role, the count of successes unchanged. When the fetch of the source role
  fails, \<open>cloneSingleRole\<close> returns the error of the fetch instead, and no mutation is
  sent either.
\<close>

theorem C3_destination_exists:
  "\<not> DryRun config \<Longrightarrow>
   (GetRoleInfo lib sourceClient sourceRole
       (Debug log (''  Getting role information for: '' @ sourceRole) w) = (Inr roleInfo, w2) \<and>
    iamGetRole lib (calls w2) (profile dc) destRole = Inr role \<longrightarrow>
      fst (cloneSingleRole lib sourceClient (Some dc) sourceRole destRole config log w)
        = Return (Some (''destination role already exists: '' @ destRole)) \<and>
      Contains (''destination role already exists: '' @ destRole) ''already exists'' \<and>
      calls (snd (cloneSingleRole lib sourceClient (Some dc) sourceRole destRole config log w))
        = calls w2 @ [(GetRoleInput (profile dc) destRole, None)] \<and>
      mutations (sent w (snd (cloneSingleRole lib sourceClient (Some dc) sourceRole destRole
                                config log w))) = [] \<and>
      (destRole = GenerateNewRoleName sourceRole (SourcePattern config) (DestPattern config) \<and>
       w = Progress log (i + 1) (length (Roles config))
             (''Cloning: '' @ sourceRole @ '' '' @ rarrow @ '' '' @ destRole) w0 \<longrightarrow>
         performCloning_roles lib sourceClient (Some dc) config log i (sourceRole # roles) n w0
           = performCloning_roles lib sourceClient (Some dc) config log (i + 1) roles n
               (Error log (''Failed to clone '' @ sourceRole
                           @ '': destination role already exists: '' @ destRole)
                  (snd (cloneSingleRole lib sourceClient (Some dc) sourceRole destRole
                          config log w))))) \<and>
   (GetRoleInfo lib sourceClient sourceRole
       (Debug log (''  Getting role information for: '' @ sourceRole) w) = (Inl err, w2) \<longrightarrow>
      cloneSingleRole lib sourceClient (Some dc) sourceRole destRole config log w
        = (Return (Some (''failed to get role info: '' @ err)), w2) \<and>
      mutations (sent w w2) = [])"
proof -
  assume nd: "\<not> DryRun config"
  let ?c = "cloneSingleRole lib sourceClient (Some dc) sourceRole destRole config log w"
  let ?g = "GetRoleInfo lib sourceClient sourceRole
              (Debug log (''  Getting role information for: '' @ sourceRole) w)"
  have qg: "quiet w (snd ?g)"
    using quiet_trans [OF quiet_log(5) quiet_GetRoleInfo] .
  have part1: "fst ?c = Return (Some (''destination role already exists: '' @ destRole)) \<and>
      Contains (''destination role already exists: '' @ destRole) ''already exists'' \<and>
      calls (snd ?c) = calls w2 @ [(GetRoleInput (profile dc) destRole, None)] \<and>
      mutations (sent w (snd ?c)) = [] \<and>
      (destRole = GenerateNewRoleName sourceRole (SourcePattern config) (DestPattern config) \<and>
       w = Progress log (i + 1) (length (Roles config))
             (''Cloning: '' @ sourceRole @ '' '' @ rarrow @ '' '' @ destRole) w0 \<longrightarrow>
         performCloning_roles lib sourceClient (Some dc) config log i (sourceRole # roles) n w0
           = performCloning_roles lib sourceClient (Some dc) config log (i + 1) roles n
               (Error log (''Failed to clone '' @ sourceRole
                           @ '': destination role already exists: '' @ destRole) (snd ?c)))"
    if a: "?g = (Inr roleInfo, w2) \<and> iamGetRole lib (calls w2) (profile dc) destRole = Inr role"
  proof -
    let ?w3 = "Debug log (''  Retrieved role info: ''
                      @ natStr (length (ManagedPolicies roleInfo)) @ '' managed policies, ''
                      @ natStr (length (InlinePolicies roleInfo)) @ '' inline policies, ''
                      @ natStr (length (Tags roleInfo)) @ '' tags'') w2"
    have g: "iamGetRole lib (calls ?w3) (profile dc) destRole = Inr role" using a by simp
    have c: "?c = (Return (Some (''destination role already exists: '' @ destRole)),
                   call (GetRoleInput (profile dc) destRole) None ?w3)"
      using cloneSingleRole_fetched [OF nd conjunct1 [OF a], of dc destRole]
        cloneSingleRole_real_exists [OF g, of sourceRole config log roleInfo]
      by simp
    have r: "fst ?c = Return (Some (''destination role already exists: '' @ destRole))"
      by (simp add: c)
    have "Contains (''destination role '' @ ''already exists'' @ '': '' @ destRole)
            ''already exists''"
      by (rule Contains_infix)
    then have k: "Contains (''destination role already exists: '' @ destRole) ''already exists''"
      by simp
    have cs: "calls (snd ?c) = calls w2 @ [(GetRoleInput (profile dc) destRole, None)]"
      by (simp add: c)
    have "quiet w w2" using qg a by simp
    moreover have "quiet w2 (snd ?c)"
      by (rule quietI [where evs = "[(GetRoleInput (profile dc) destRole, None)]"])
        (simp_all add: cs mutations_def)
    ultimately have "quiet w (snd ?c)" by (rule quiet_trans)
    then have m: "mutations (sent w (snd ?c)) = []" by (simp add: quiet_def)
    have l: "performCloning_roles lib sourceClient (Some dc) config log i (sourceRole # roles) n w0
           = performCloning_roles lib sourceClient (Some dc) config log (i + 1) roles n
               (Error log (''Failed to clone '' @ sourceRole
                           @ '': destination role already exists: '' @ destRole) (snd ?c))"
      if d: "destRole = GenerateNewRoleName sourceRole (SourcePattern config) (DestPattern config) \<and>
       w = Progress log (i + 1) (length (Roles config))
             (''Cloning: '' @ sourceRole @ '' '' @ rarrow @ '' '' @ destRole) w0"
      using performCloning_roles_failed [of lib sourceClient "Some dc" sourceRole config log i w0
          "''destination role already exists: '' @ destRole" roles n] r d
      by simp
    show ?thesis using r k cs m l by blast
  qed
  have part2: "?c = (Return (Some (''failed to get role info: '' @ err)), w2) \<and>
      mutations (sent w w2) = []"
    if a: "?g = (Inl err, w2)"
  proof -
    have "quiet w w2" using qg a by simp
    then show ?thesis using cloneSingleRole_fetch_failed [OF a] by (simp add: quiet_def)
  qed
  show ?thesis using part1 part2 by blast
qed

text \<open>
  The theorem at the concrete run with the destination role present, once with the source
  role fetched and once with the fetch failing.
\<close>

theorem C3_destination_exists_witness:
  "\<not> DryRun (demo_config False False) \<and>
   GetRoleInfo (demo_sdk True True True) (Client ''dev'') ''dev_app''
       (Debug \<lparr>verbose = False\<rparr> (''  Getting role information for: '' @ ''dev_app'')
          demo_progress)
     = (Inr demo_info, demo_progress\<lparr>calls := demo_reads\<rparr>) \<and>
   iamGetRole (demo_sdk True True True) demo_reads ''prod'' ''prod_app'' = Inr demo_role \<and>
   fst (cloneSingleRole (demo_sdk True True True) (Client ''dev'') (Some (Client ''prod''))
          ''dev_app'' ''prod_app'' (demo_config False False) \<lparr>verbose = False\<rparr> demo_progress)
     = Return (Some ''destination role already exists: prod_app'') \<and>
   Contains ''destination role already exists: prod_app'' ''already exists'' \<and>
   calls (snd (cloneSingleRole (demo_sdk True True True) (Client ''dev'') (Some (Client ''prod''))
          ''dev_app'' ''prod_app'' (demo_config False False) \<lparr>verbose = False\<rparr> demo_progress))
     = demo_reads @ [(GetRoleInput ''prod'' ''prod_app'', None)] \<and>
   fst (performCloning_roles (demo_sdk True True True) (Client ''dev'') (Some (Client ''prod''))
          (demo_config False False) \<lparr>verbose = False\<rparr> 0 [''dev_app''] 0 demo_world)
     = Return 0 \<and>
   GetRoleInfo (demo_sdk False True True) (Client ''dev'') ''dev_app''
       (Debug \<lparr>verbose = False\<rparr> (''  Getting role information for: '' @ ''dev_app'')
          demo_progress)
     = (Inl ''failed to get role dev_app: NoSuchEntity'',
        demo_progress\<lparr>calls := [(GetRoleInput ''dev'' ''dev_app'', Some ''NoSuchEntity'')]\<rparr>) \<and>
   fst (cloneSingleRole (demo_sdk False True True) (Client ''dev'') (Some (Client ''prod''))
          ''dev_app'' ''prod_app'' (demo_config False False) \<lparr>verbose = False\<rparr> demo_progress)
     = Return (Some ''failed to get role info: failed to get role dev_app: NoSuchEntity'')"
proof -
  let ?log = "\<lparr>verbose = False\<rparr>"
  let ?cfg = "demo_config False False"
  have nd: "\<not> DryRun ?cfg" by simp
  have g1: "GetRoleInfo (demo_sdk True True True) (Client ''dev'') ''dev_app''
       (Debug ?log (''  Getting role information for: '' @ ''dev_app'') demo_progress)
     = (Inr demo_info, demo_progress\<lparr>calls := demo_reads\<rparr>)"
    by (simp add: demo_GetRoleInfo Debug_def)
  have e1: "iamGetRole (demo_sdk True True True) (calls (demo_progress\<lparr>calls := demo_reads\<rparr>))
      (profile (Client ''prod'')) ''prod_app'' = Inr demo_role"
    by (simp add: demo_sdk_def)
  have g2: "GetRoleInfo (demo_sdk False True True) (Client ''dev'') ''dev_app''
       (Debug ?log (''  Getting role information for: '' @ ''dev_app'') demo_progress)
     = (Inl ''failed to get role dev_app: NoSuchEntity'',
        demo_progress\<lparr>calls := [(GetRoleInput ''dev'' ''dev_app'', Some ''NoSuchEntity'')]\<rparr>)"
    by (simp add: GetRoleInfo_def demo_sdk_def Debug_def call_def)
  have d: "''prod_app'' = GenerateNewRoleName ''dev_app'' (SourcePattern ?cfg) (DestPattern ?cfg) \<and>
      demo_progress = Progress ?log (0 + 1) (length (Roles ?cfg))
        (''Cloning: '' @ ''dev_app'' @ '' '' @ rarrow @ '' '' @ ''prod_app'') demo_world"
    by (simp add: demo_newRole demo_progress_def)
  note t1 = C3_destination_exists [OF nd, where lib = "demo_sdk True True True"
      and sourceClient = "Client ''dev''" and sourceRole = "''dev_app''" and log = ?log
      and w = demo_progress and roleInfo = demo_info
      and ?w2.0 = "demo_progress\<lparr>calls := demo_reads\<rparr>" and dc = "Client ''prod''"
      and destRole = "''prod_app''" and role = demo_role and i = 0 and ?w0.0 = demo_world
      and roles = "[]" and n = 0]
  note t2 = C3_destination_exists [OF nd, where lib = "demo_sdk False True True"
      and sourceClient = "Client ''dev''" and sourceRole = "''dev_app''" and log = ?log
      and w = demo_progress and dc = "Client ''prod''" and destRole = "''prod_app''"
      and err = "''failed to get role dev_app: NoSuchEntity''"
      and ?w2.0 = "demo_progress\<lparr>calls := [(GetRoleInput ''dev'' ''dev_app'',
                                              Some ''NoSuchEntity'')]\<rparr>"]
  from t1 g1 e1 d have
    r1: "fst (cloneSingleRole (demo_sdk True True True) (Client ''dev'') (Some (Client ''prod''))
          ''dev_app'' ''prod_app'' ?cfg ?log demo_progress)
       = Return (Some (''destination role already exists: '' @ ''prod_app''))"
    and r2: "Contains (''destination role already exists: '' @ ''prod_app'') ''already exists''"
    and r3: "calls (snd (cloneSingleRole (demo_sdk True True True) (Client ''dev'')
          (Some (Client ''prod'')) ''dev_app'' ''prod_app'' ?cfg ?log demo_progress))
       = calls (demo_progress\<lparr>calls := demo_reads\<rparr>)
           @ [(GetRoleInput (profile (Client ''prod'')) ''prod_app'', None)]"
    and r4: "performCloning_roles (demo_sdk True True True) (Client ''dev'') (Some (Client ''prod''))
          ?cfg ?log 0 [''dev_app''] 0 demo_world
       = performCloning_roles (demo_sdk True True True) (Client ''dev'') (Some (Client ''prod''))
          ?cfg ?log (0 + 1) [] 0
          (Error ?log (''Failed to clone '' @ ''dev_app''
                           @ '': destination role already exists: '' @ ''prod_app'')
             (snd (cloneSingleRole (demo_sdk True True True) (Client ''dev'')
                (Some (Client ''prod'')) ''dev_app'' ''prod_app'' ?cfg ?log demo_progress)))"
    by blast+
  from t2 g2 have
    r5: "cloneSingleRole (demo_sdk False True True) (Client ''dev'') (Some (Client ''prod''))
          ''dev_app'' ''prod_app'' ?cfg ?log demo_progress
       = (Return (Some (''failed to get role info: '' @ ''failed to get role dev_app: NoSuchEntity'')),
          demo_progress\<lparr>calls := [(GetRoleInput ''dev'' ''dev_app'', Some ''NoSuchEntity'')]\<rparr>)"
    by blast
  have r6: "fst (performCloning_roles (demo_sdk True True True) (Client ''dev'')
      (Some (Client ''prod'')) ?cfg ?log 0 [''dev_app''] 0 demo_world) = Return 0"
    by (simp only: r4 performCloning_roles.simps(1) fst_conv)
  show ?thesis
    using nd g1 e1 r1 r2 r3 r6 g2 r5 by simp
qed

subsection \<open>C4: the selection of roles\<close>

lemma parseRoleSelection_parts_rejected:
  "list_ex (rejected allRoles) parts \<Longrightarrow>
   \<exists>err. parseRoleSelection_parts parts allRoles selectedRoles = Inl err"
proof (induction parts arbitrary: selectedRoles)
  case Nil
  then show ?case by simp
next
  case (Cons p parts)
  show ?case
  proof (cases "rejected allRoles p")
    case True
    then show ?thesis by (auto simp: rejected_def Let_def split: option.splits)
  next
    case False
    then have "list_ex (rejected allRoles) parts" using Cons.prems by simp
    then have "\<exists>err. parseRoleSelection_parts parts allRoles sel = Inl err" for sel
      using Cons.IH by blast
    then show ?thesis by (auto simp: Let_def split: option.splits)
  qed
qed

lemma parseRoleSelection_parts_accepted:
  "\<not> list_ex (rejected allRoles) parts \<Longrightarrow>
   parseRoleSelection_parts parts allRoles selectedRoles =
     Inr (selectedRoles @
          map (\<lambda>p. allRoles ! nat (the (Atoi (TrimSpace p)) - 1))
            (filter (\<lambda>p. TrimSpace p \<noteq> []) parts))"
proof (induction parts arbitrary: selectedRoles)
  case Nil
  then show ?case by simp
next
  case (Cons p parts)
  then have r: "\<not> rejected allRoles p" and rest: "\<not> list_ex (rejected allRoles) parts"
    by simp_all
  show ?case
    using r Cons.IH [OF rest] by (auto simp: rejected_def Let_def split: option.splits)
qed

lemma TrimSpace_digit:
  "TrimSpace ''0'' = ''0''" "TrimSpace ''1'' = ''1''" "TrimSpace ''3'' = ''3''"
  "TrimSpace ''5'' = ''5''" "TrimSpace ''6'' = ''6''" "TrimSpace [] = []"
  by (simp_all add: TrimSpace_def trimLeft.simps trimRight.simps leadingSpace_def
      trailingSpace_def spaceSeqs_def HasPrefix_def HasSuffix_def)

lemma Atoi_digit:
  "Atoi ''0'' = Some 0" "Atoi ''1'' = Some 1" "Atoi ''3'' = Some 3" "Atoi ''5'' = Some 5"
  "Atoi ''6'' = Some 6" "Atoi [] = None"
  by (simp_all add: Atoi_def isDigit_def digitVal_def)

lemma toLowerByte_A: "toLowerByte CHR ''A'' = CHR ''a''"
  by code_simp

lemma toLowerByte_a: "toLowerByte CHR ''a'' = CHR ''a''"
  by code_simp

lemma toLowerByte_L: "toLowerByte CHR ''L'' = CHR ''l''"
  by code_simp

lemma toLowerByte_l: "toLowerByte CHR ''l'' = CHR ''l''"
  by code_simp

lemma intStr_digit: "intStr 0 = ''0''" "intStr 6 = ''6''"
  by (simp_all add: intStr_def natStr.simps)

text \<open>
  Claim C4, as stated: any comma-separated token that is non-numeric or out of range makes
  the whole selection fail. The code skips a token that is empty after trimming: the
  selection \<open>1,,3\<close> has the token \<open>\<close>, which is no number, and selects the first and
  the third role; the empty selection selects nothing and is no error.
\<close>

theorem C4_counterexample:
  "Split ''1,,3'' CHR '','' = [''1'', [], ''3''] \<and> Atoi [] = None \<and>
   parseRoleSelection ''1,,3'' [''r1'', ''r2'', ''r3'', ''r4'', ''r5''] = Inr [''r1'', ''r3''] \<and>
   parseRoleSelection [] [''r1'', ''r2'', ''r3'', ''r4'', ''r5''] = Inr []"
  by (simp add: parseRoleSelection_def TrimSpace_digit Atoi_digit)

text \<open>
  Claim C4, amended: against a list of 5 discovered roles, the input \<open>1,3,5\<close> returns the
  roles at the 1-based positions 1, 3 and 5 in that order, and the inputs \<open>0\<close> and \<open>6\<close>
  return the out-of-range error and select nothing; an answer that is \<open>all\<close> in any
  mix of upper and lower case selects every discovered role. Generally, a token that is
  empty after trimming is skipped; any other token that is not a number or is outside
  \<open>1 .. length\<close> makes the whole selection fail with an error; and a selection with no
  such token returns the roles that its non-empty tokens number, in order.
\<close>

theorem C4_role_selection:
  "(length allRoles = 5 \<longrightarrow>
      parseRoleSelection ''1,3,5'' allRoles = Inr [allRoles ! 0, allRoles ! 2, allRoles ! 4] \<and>
      parseRoleSelection ''0'' allRoles = Inl ''number out of range: 0'' \<and>
      parseRoleSelection ''6'' allRoles = Inl ''number out of range: 6'') \<and>
   (ToLower (TrimSpace (fst (ReadString w))) = ''all'' \<longrightarrow>
      fst (discoverAndSelectRoles_select config log allRoles w)
        = (None, config\<lparr>Roles := allRoles\<rparr>)) \<and>
   ((a = CHR ''a'' \<or> a = CHR ''A'') \<and> (l1 = CHR ''l'' \<or> l1 = CHR ''L'') \<and>
    (l2 = CHR ''l'' \<or> l2 = CHR ''L'') \<longrightarrow> ToLower [a, l1, l2] = ''all'') \<and>
   (list_ex (rejected allRoles) (Split selection CHR '','') \<longrightarrow>
      (\<exists>err. parseRoleSelection selection allRoles = Inl err)) \<and>
   (\<not> list_ex (rejected allRoles) (Split selection CHR '','') \<longrightarrow>
      parseRoleSelection selection allRoles =
        Inr (map (\<lambda>p. allRoles ! nat (the (Atoi (TrimSpace p)) - 1))
               (filter (\<lambda>p. TrimSpace p \<noteq> []) (Split selection CHR '',''))))"
proof (intro conjI impI)
  assume len: "length allRoles = 5"
  show "parseRoleSelection ''1,3,5'' allRoles = Inr [allRoles ! 0, allRoles ! 2, allRoles ! 4]"
    using len by (simp add: parseRoleSelection_def TrimSpace_digit Atoi_digit)
  show "parseRoleSelection ''0'' allRoles = Inl ''number out of range: 0''"
    using len by (simp add: parseRoleSelection_def TrimSpace_digit Atoi_digit intStr_digit)
  show "parseRoleSelection ''6'' allRoles = Inl ''number out of range: 6''"
    using len by (simp add: parseRoleSelection_def TrimSpace_digit Atoi_digit intStr_digit)
next
  assume a: "ToLower (TrimSpace (fst (ReadString w))) = ''all''"
  have "fst (ReadString (Print m w)) = fst (ReadString w)" for m
    by (rule ReadString_stdin) simp
  then show "fst (discoverAndSelectRoles_select config log allRoles w)
        = (None, config\<lparr>Roles := allRoles\<rparr>)"
    using a by (simp add: discoverAndSelectRoles_select_def Let_def split_beta)
next
  assume "(a = CHR ''a'' \<or> a = CHR ''A'') \<and> (l1 = CHR ''l'' \<or> l1 = CHR ''L'') \<and>
    (l2 = CHR ''l'' \<or> l2 = CHR ''L'')"
  then show "ToLower [a, l1, l2] = ''all''"
    by (auto simp: ToLower_def toLowerByte_A toLowerByte_a toLowerByte_L toLowerByte_l)
next
  assume "list_ex (rejected allRoles) (Split selection CHR '','')"
  then show "\<exists>err. parseRoleSelection selection allRoles = Inl err"
    unfolding parseRoleSelection_def by (rule parseRoleSelection_parts_rejected)
next
  assume "\<not> list_ex (rejected allRoles) (Split selection CHR '','')"
  then show "parseRoleSelection selection allRoles =
        Inr (map (\<lambda>p. allRoles ! nat (the (Atoi (TrimSpace p)) - 1))
               (filter (\<lambda>p. TrimSpace p \<noteq> []) (Split selection CHR '','')))"
    unfolding parseRoleSelection_def by (simp add: parseRoleSelection_parts_accepted)
qed

lemma TrimSpace_ALL: "TrimSpace (''ALL'' @ [CHR 0x0A]) = ''ALL''"
  by code_simp

lemma ReadString_ALL: "fst (ReadString (demo_world\<lparr>stdin := ''ALL'' @ [CHR 0x0A]\<rparr>)) = ''ALL'' @ [CHR 0x0A]"
  by (simp add: ReadString_def demo_world_def)

lemma ToLower_ALL: "ToLower ''ALL'' = ''all''"
  by code_simp

lemma Split_examples: "Split ''2,x'' CHR '','' = [''2'', ''x'']" "Split '' 2 ,,4'' CHR '','' = ['' 2 '', [], ''4'']"
  by simp_all

lemma TrimSpace_examples: "TrimSpace ''2'' = ''2''" "TrimSpace ''x'' = ''x''" "TrimSpace '' 2 '' = ''2''"
  "TrimSpace ''4'' = ''4''"
  by code_simp+

lemma Atoi_examples: "Atoi ''2'' = Some 2" "Atoi ''x'' = None" "Atoi ''4'' = Some 4"
  by (simp_all add: Atoi_def isDigit_def digitVal_def)

lemma rejected_example: "list_ex (rejected [''r1'', ''r2'', ''r3'', ''r4'', ''r5'']) (Split ''2,x'' CHR '','')"
  by (simp add: Split_examples TrimSpace_examples Atoi_examples rejected_def)

lemma accepted_example: "\<not> list_ex (rejected [''r1'', ''r2'', ''r3'', ''r4'', ''r5'']) (Split '' 2 ,,4'' CHR '','')"
  by (simp add: Split_examples TrimSpace_examples Atoi_examples rejected_def TrimSpace_digit)

text \<open>
  The theorem at five roles, at the answer \<open>ALL\<close>, at the selection \<open>2,x\<close>, which is
  rejected, and at the selection \<open> 2 ,,4\<close>, which is accepted.
\<close>

theorem C4_role_selection_witness:
  "length [''r1'', ''r2'', ''r3'', ''r4'', ''r5''] = 5 \<and>
   parseRoleSelection ''1,3,5'' [''r1'', ''r2'', ''r3'', ''r4'', ''r5'']
     = Inr [''r1'', ''r3'', ''r5''] \<and>
   parseRoleSelection ''0'' [''r1'', ''r2'', ''r3'', ''r4'', ''r5'']
     = Inl ''number out of range: 0'' \<and>
   parseRoleSelection ''6'' [''r1'', ''r2'', ''r3'', ''r4'', ''r5'']
     = Inl ''number out of range: 6'' \<and>
   ToLower (TrimSpace (fst (ReadString (demo_world\<lparr>stdin := ''ALL'' @ [CHR 0x0A]\<rparr>)))) = ''all'' \<and>
   fst (discoverAndSelectRoles_select (demo_config False False) \<lparr>verbose = False\<rparr>
          [''r1'', ''r2'', ''r3'', ''r4'', ''r5''] (demo_world\<lparr>stdin := ''ALL'' @ [CHR 0x0A]\<rparr>))
     = (None, (demo_config False False)\<lparr>Roles := [''r1'', ''r2'', ''r3'', ''r4'', ''r5'']\<rparr>) \<and>
   ToLower ''ALl'' = ''all'' \<and>
   list_ex (rejected [''r1'', ''r2'', ''r3'', ''r4'', ''r5'']) (Split ''2,x'' CHR '','') \<and>
   parseRoleSelection ''2,x'' [''r1'', ''r2'', ''r3'', ''r4'', ''r5''] = Inl ''invalid number: x'' \<and>
   \<not> list_ex (rejected [''r1'', ''r2'', ''r3'', ''r4'', ''r5'']) (Split '' 2 ,,4'' CHR '','') \<and>
   parseRoleSelection '' 2 ,,4'' [''r1'', ''r2'', ''r3'', ''r4'', ''r5''] = Inr [''r2'', ''r4'']"
proof -
  let ?roles = "[''r1'', ''r2'', ''r3'', ''r4'', ''r5'']"
  let ?w = "demo_world\<lparr>stdin := ''ALL'' @ [CHR 0x0A]\<rparr>"
  note t1 = C4_role_selection [of ?roles ?w "demo_config False False" "\<lparr>verbose = False\<rparr>"
      "CHR ''A''" "CHR ''L''" "CHR ''l''" "''2,x''"]
  note t2 = C4_role_selection [of ?roles ?w "demo_config False False" "\<lparr>verbose = False\<rparr>"
      "CHR ''A''" "CHR ''L''" "CHR ''l''" "'' 2 ,,4''"]
  have all: "ToLower (TrimSpace (fst (ReadString ?w))) = ''all''"
    by (simp only: ReadString_ALL TrimSpace_ALL ToLower_ALL)
  have rej: "list_ex (rejected ?roles) (Split ''2,x'' CHR '','')" by (rule rejected_example)
  have acc: "\<not> list_ex (rejected ?roles) (Split '' 2 ,,4'' CHR '','')" by (rule accepted_example)
  have len: "length ?roles = 5" by simp
  from t1 len have p1: "parseRoleSelection ''1,3,5'' ?roles = Inr [''r1'', ''r3'', ''r5'']"
    and p2: "parseRoleSelection ''0'' ?roles = Inl ''number out of range: 0''"
    and p3: "parseRoleSelection ''6'' ?roles = Inl ''number out of range: 6''"
    by simp_all
  from t1 all have p4: "fst (discoverAndSelectRoles_select (demo_config False False)
      \<lparr>verbose = False\<rparr> ?roles ?w) = (None, (demo_config False False)\<lparr>Roles := ?roles\<rparr>)"
    by blast
  from t1 have p5: "ToLower ''ALl'' = ''all''" by simp
  have p6: "parseRoleSelection ''2,x'' ?roles = Inl ''invalid number: x''"
    by (simp add: parseRoleSelection_def Split_examples TrimSpace_examples Atoi_examples)
  from t2 acc have "parseRoleSelection '' 2 ,,4'' ?roles =
        Inr (map (\<lambda>p. ?roles ! nat (the (Atoi (TrimSpace p)) - 1))
               (filter (\<lambda>p. TrimSpace p \<noteq> []) (Split '' 2 ,,4'' CHR '','')))"
    by blast
  then have p7: "parseRoleSelection '' 2 ,,4'' ?roles = Inr [''r2'', ''r4'']"
    by (simp add: Split_examples TrimSpace_examples Atoi_examples TrimSpace_digit)
  show ?thesis using len p1 p2 p3 all p4 p5 rej p6 acc p7 by blast
qed

subsection \<open>C5: the round trip of the replacement\<close>

text \<open>
  Claim C5, as stated: for a non-empty \<open>src\<close>, replacing \<open>src\<close> by \<open>dst\<close> in \<open>s\<close> and
  then \<open>dst\<close> by \<open>src\<close> gives \<open>s\<close> again exactly when \<open>dst\<close> does not contain \<open>src\<close>.
  Both directions fail. With \<open>src = dev_\<close> and \<open>dst = prod_\<close>, where \<open>dst\<close> does not
  contain \<open>src\<close>, the string \<open>prod_x\<close> comes back as \<open>dev_x\<close>; with \<open>src = a\<close> and
  \<open>dst = aa\<close>, where \<open>dst\<close> contains \<open>src\<close>, the string \<open>a\<close> comes back as itself.
\<close>

theorem C5_counterexample:
  "\<not> Contains ''prod_'' ''dev_'' \<and>
   ReplaceAll (ReplaceAll ''prod_x'' ''dev_'' ''prod_'') ''prod_'' ''dev_'' = ''dev_x'' \<and>
   Contains ''aa'' ''a'' \<and>
   ReplaceAll (ReplaceAll ''a'' ''a'' ''aa'') ''aa'' ''a'' = ''a''"
  by (simp add: ReplaceAll_def HasPrefix_def)

text \<open>
  Claim C5, amended: whether the round trip gives \<open>s\<close> again is not decided by \<open>dst\<close>
  containing \<open>src\<close>. For a string \<open>s\<close> in which \<open>src\<close> does not occur, the round trip
  gives \<open>s\<close> again exactly when \<open>dst\<close> does not occur in \<open>s\<close> either. And whenever a
  non-empty \<open>dst\<close> does not contain \<open>src\<close>, the round trip already fails at \<open>s = dst\<close>,
  which comes back as \<open>src\<close>.
\<close>

theorem C5_round_trip:
  "(\<not> Contains s src \<longrightarrow>
      (ReplaceAll (ReplaceAll s src dst) dst src = s \<longleftrightarrow> \<not> Contains s dst)) \<and>
   (src \<noteq> [] \<and> dst \<noteq> [] \<and> \<not> Contains dst src \<longrightarrow>
      ReplaceAll (ReplaceAll dst src dst) dst src = src \<and> src \<noteq> dst)"
proof (intro conjI impI)
  assume a: "\<not> Contains s src"
  then have r1: "ReplaceAll s src dst = s" by (simp add: ReplaceAll_fixed_iff)
  have "ReplaceAll s dst src = s \<longleftrightarrow> \<not> Contains s dst"
    using a by (auto simp: ReplaceAll_fixed_iff)
  then show "ReplaceAll (ReplaceAll s src dst) dst src = s \<longleftrightarrow> \<not> Contains s dst"
    by (simp only: r1)
next
  assume a: "src \<noteq> [] \<and> dst \<noteq> [] \<and> \<not> Contains dst src"
  then have "ReplaceAll dst src dst = dst" by (simp add: ReplaceAll_fixed_iff)
  moreover have "src \<noteq> dst" using a by auto
  moreover have "ReplaceAll dst dst src = src"
    using a \<open>src \<noteq> dst\<close> by (auto simp: ReplaceAll_def replaceFrom_self)
  ultimately show "ReplaceAll (ReplaceAll dst src dst) dst src = src" by simp
  show "src \<noteq> dst" by fact
qed

theorem C5_round_trip_witness:
  "\<not> Contains ''app_role'' ''dev_'' \<and> \<not> Contains ''app_role'' ''prod_'' \<and>
   ReplaceAll (ReplaceAll ''app_role'' ''dev_'' ''prod_'') ''prod_'' ''dev_'' = ''app_role'' \<and>
   \<not> Contains ''prod_'' ''dev_'' \<and>
   ReplaceAll (ReplaceAll ''prod_'' ''dev_'' ''prod_'') ''prod_'' ''dev_'' = ''dev_''"
  using C5_round_trip [of "''app_role''" "''dev_''" "''prod_''"]
  by (simp add: HasPrefix_def)

subsection \<open>C6: the errors of the gateway\<close>

text \<open>
  Claim C6, as stated: no gateway operation maps an error of the service to a result that
  is no error. The existence check returns a boolean: when \<open>GetRole\<close> fails, for any
  reason, \<open>RoleExists\<close> answers \<open>False\<close>, the answer for a role that does not exist.
\<close>

theorem C6_counterexample:
  "iamGetRole failing_sdk (calls demo_world) (profile (Client ''prod'')) ''prod_app''
     = Inl ''AccessDenied'' \<and>
   RoleExists failing_sdk (Client ''prod'') ''prod_app'' demo_world
     = (False, demo_world\<lparr>calls := [(GetRoleInput ''prod'' ''prod_app'', Some ''AccessDenied'')]\<rparr>)"
  by (simp add: RoleExists_def failing_sdk_def call_def demo_world_def)

text \<open>
  Claim C6, amended: every gateway operation but the existence check returns a failure of
  the service as an error that names the operation and ends with the error text of the
  service. The errors of create role, attach policy, put inline policy and tag role, and
  of the \<open>GetRole\<close> request of get role, carry the role identifier (and the policy
  identifier where there is one); the error of list roles and those of the listing
  requests inside get role carry no identifier: they are \<open>failed to list roles: \<close>,
  \<open>failed to get managed policies: \<close>, \<open>failed to get inline policies: \<close> (for the
  listing of the inline policies and for the fetch of each of them) and
  \<open>failed to get tags: \<close>, followed by the error text of the service and nothing else.
  A request that fails inside get role is one of \<open>GetRole\<close>, \<open>ListAttachedRolePolicies\<close>,
  \<open>ListRolePolicies\<close>, \<open>GetRolePolicy\<close> and \<open>ListRoleTags\<close> for that role, so every
  failure inside it is covered. The existence check maps every failure of \<open>GetRole\<close> to
  \<open>False\<close>.
\<close>

theorem C6_failures_are_surfaced:
  "(iamCreateRole lib (calls w) (profile c) roleName trustPolicy
       (if description \<noteq> [] then Some description else None) = Some e \<longrightarrow>
      fst (CreateRole lib c roleName trustPolicy description w)
        = Some (''failed to create role '' @ roleName @ '': '' @ e)) \<and>
   (iamAttachRolePolicy lib (calls w) (profile c) roleName policyArn = Some e \<longrightarrow>
      fst (AttachManagedPolicy lib c roleName policyArn w)
        = Some (''failed to attach policy '' @ policyArn @ '' to role '' @ roleName @ '': '' @ e)) \<and>
   (iamPutRolePolicy lib (calls w) (profile c) roleName policyName policyDocument = Some e \<longrightarrow>
      fst (CreateInlinePolicy lib c roleName policyName policyDocument w)
        = Some (''failed to create inline policy '' @ policyName @ '' for role '' @ roleName
                @ '': '' @ e)) \<and>
   (tags \<noteq> [] \<and> iamTagRole lib (calls w) (profile c) roleName tags = Some e \<longrightarrow>
      fst (TagRole lib c roleName tags w) = Some (''failed to tag role '' @ roleName @ '': '' @ e)) \<and>
   (iamGetRole lib (calls w) (profile c) roleName = Inl e \<longrightarrow>
      fst (GetRoleInfo lib c roleName w) = Inl (''failed to get role '' @ roleName @ '': '' @ e) \<and>
      fst (RoleExists lib c roleName w) = False) \<and>
   ((GetRoleInput p r, Some e) \<in> set (sent w (snd (GetRoleInfo lib c roleName w))) \<longrightarrow>
      fst (GetRoleInfo lib c roleName w) = Inl (''failed to get role '' @ r @ '': '' @ e)) \<and>
   ((ListAttachedRolePoliciesInput p r, Some e)
        \<in> set (sent w (snd (GetRoleInfo lib c roleName w))) \<longrightarrow>
      fst (GetRoleInfo lib c roleName w) = Inl (''failed to get managed policies: '' @ e)) \<and>
   ((ListRolePoliciesInput p r, Some e) \<in> set (sent w (snd (GetRoleInfo lib c roleName w))) \<longrightarrow>
      fst (GetRoleInfo lib c roleName w) = Inl (''failed to get inline policies: '' @ e)) \<and>
   ((GetRolePolicyInput p r n, Some e) \<in> set (sent w (snd (GetRoleInfo lib c roleName w))) \<longrightarrow>
      fst (GetRoleInfo lib c roleName w) = Inl (''failed to get inline policies: '' @ e)) \<and>
   ((ListRoleTagsInput p r, Some e) \<in> set (sent w (snd (GetRoleInfo lib c roleName w))) \<longrightarrow>
      fst (GetRoleInfo lib c roleName w) = Inl (''failed to get tags: '' @ e)) \<and>
   ((req, Some e) \<in> set (sent w (snd (GetRoleInfo lib c roleName w))) \<longrightarrow>
      req = GetRoleInput (profile c) roleName \<or>
      req = ListAttachedRolePoliciesInput (profile c) roleName \<or>
      req = ListRolePoliciesInput (profile c) roleName \<or>
      (\<exists>n. req = GetRolePolicyInput (profile c) roleName n) \<or>
      req = ListRoleTagsInput (profile c) roleName) \<and>
   ((req', Some e) \<in> set (sent w (snd (ListRoles lib c prefix w))) \<longrightarrow>
      fst (ListRoles lib c prefix w) = Inl (''failed to list roles: '' @ e))"
proof (intro conjI impI)
  assume "iamCreateRole lib (calls w) (profile c) roleName trustPolicy
       (if description \<noteq> [] then Some description else None) = Some e"
  then show "fst (CreateRole lib c roleName trustPolicy description w)
        = Some (''failed to create role '' @ roleName @ '': '' @ e)"
    by (simp add: CreateRole_def Let_def)
next
  assume "iamAttachRolePolicy lib (calls w) (profile c) roleName policyArn = Some e"
  then show "fst (AttachManagedPolicy lib c roleName policyArn w)
        = Some (''failed to attach policy '' @ policyArn @ '' to role '' @ roleName @ '': '' @ e)"
    by (simp add: AttachManagedPolicy_def)
next
  assume "iamPutRolePolicy lib (calls w) (profile c) roleName policyName policyDocument = Some e"
  then show "fst (CreateInlinePolicy lib c roleName policyName policyDocument w)
        = Some (''failed to create inline policy '' @ policyName @ '' for role '' @ roleName
                @ '': '' @ e)"
    by (simp add: CreateInlinePolicy_def)
next
  assume "tags \<noteq> [] \<and> iamTagRole lib (calls w) (profile c) roleName tags = Some e"
  then show "fst (TagRole lib c roleName tags w)
      = Some (''failed to tag role '' @ roleName @ '': '' @ e)"
    by (simp add: TagRole_def)
next
  assume a: "iamGetRole lib (calls w) (profile c) roleName = Inl e"
  then show "fst (GetRoleInfo lib c roleName w)
      = Inl (''failed to get role '' @ roleName @ '': '' @ e)"
    by (simp add: GetRoleInfo_def)
  show "fst (RoleExists lib c roleName w) = False"
    using a by (simp add: RoleExists_def)
next
  assume "(GetRoleInput p r, Some e) \<in> set (sent w (snd (GetRoleInfo lib c roleName w)))"
  then show "fst (GetRoleInfo lib c roleName w) = Inl (''failed to get role '' @ r @ '': '' @ e)"
    using reportedD [OF reported_GetRoleInfo] by fastforce
next
  assume "(ListAttachedRolePoliciesInput p r, Some e)
    \<in> set (sent w (snd (GetRoleInfo lib c roleName w)))"
  then show "fst (GetRoleInfo lib c roleName w) = Inl (''failed to get managed policies: '' @ e)"
    using reportedD [OF reported_GetRoleInfo] by fastforce
next
  assume "(ListRolePoliciesInput p r, Some e)
    \<in> set (sent w (snd (GetRoleInfo lib c roleName w)))"
  then show "fst (GetRoleInfo lib c roleName w) = Inl (''failed to get inline policies: '' @ e)"
    using reportedD [OF reported_GetRoleInfo] by fastforce
next
  assume "(GetRolePolicyInput p r n, Some e)
    \<in> set (sent w (snd (GetRoleInfo lib c roleName w)))"
  then show "fst (GetRoleInfo lib c roleName w) = Inl (''failed to get inline policies: '' @ e)"
    using reportedD [OF reported_GetRoleInfo] by fastforce
next
  assume "(ListRoleTagsInput p r, Some e)
    \<in> set (sent w (snd (GetRoleInfo lib c roleName w)))"
  then show "fst (GetRoleInfo lib c roleName w) = Inl (''failed to get tags: '' @ e)"
    using reportedD [OF reported_GetRoleInfo] by fastforce
next
  assume "(req, Some e) \<in> set (sent w (snd (GetRoleInfo lib c roleName w)))"
  then have "req \<in> fetches (profile c) roleName"
    using reportedD [OF reported_GetRoleInfo] by blast
  then show "req = GetRoleInput (profile c) roleName \<or>
      req = ListAttachedRolePoliciesInput (profile c) roleName \<or>
      req = ListRolePoliciesInput (profile c) roleName \<or>
      (\<exists>n. req = GetRolePolicyInput (profile c) roleName n) \<or>
      req = ListRoleTagsInput (profile c) roleName"
    by (auto simp: fetches_def)
next
  assume a: "(req', Some e) \<in> set (sent w (snd (ListRoles lib c prefix w)))"
  obtain evs where "calls (snd (ListRoles lib c prefix w)) = calls w @ evs"
    "\<forall>req e. (req, Some e) \<in> set evs \<longrightarrow>
        fst (ListRoles lib c prefix w) = Inl (''failed to list roles: '' @ e)"
    unfolding ListRoles_def using ListRoles_pages_failed by blast
  then show "fst (ListRoles lib c prefix w) = Inl (''failed to list roles: '' @ e)"
    using a by (simp add: sent_def)
qed

text \<open>
  The theorem at the service that denies every request, and at the services that deny the
  second, third, fourth and fifth request of a fetch: each of the listing requests inside
  get role fails in one of the runs.
\<close>

lemma denying_GetRoleInfo:
  "GetRoleInfo (denying_sdk 1) (Client ''dev'') ''dev_app'' demo_world
     = (Inl ''failed to get managed policies: AccessDenied'',
        demo_world\<lparr>calls := [(GetRoleInput ''dev'' ''dev_app'', None),
          (ListAttachedRolePoliciesInput ''dev'' ''dev_app'', Some ''AccessDenied'')]\<rparr>)"
  "GetRoleInfo (denying_sdk 2) (Client ''dev'') ''dev_app'' demo_world
     = (Inl ''failed to get inline policies: AccessDenied'',
        demo_world\<lparr>calls := [(GetRoleInput ''dev'' ''dev_app'', None),
          (ListAttachedRolePoliciesInput ''dev'' ''dev_app'', None),
          (ListRolePoliciesInput ''dev'' ''dev_app'', Some ''AccessDenied'')]\<rparr>)"
  "GetRoleInfo (denying_sdk 3) (Client ''dev'') ''dev_app'' demo_world
     = (Inl ''failed to get inline policies: AccessDenied'',
        demo_world\<lparr>calls := [(GetRoleInput ''dev'' ''dev_app'', None),
          (ListAttachedRolePoliciesInput ''dev'' ''dev_app'', None),
          (ListRolePoliciesInput ''dev'' ''dev_app'', None),
          (GetRolePolicyInput ''dev'' ''dev_app'' ''dev_inline'', Some ''AccessDenied'')]\<rparr>)"
  "GetRoleInfo (denying_sdk 4) (Client ''dev'') ''dev_app'' demo_world
     = (Inl ''failed to get tags: AccessDenied'',
        demo_world\<lparr>calls := [(GetRoleInput ''dev'' ''dev_app'', None),
          (ListAttachedRolePoliciesInput ''dev'' ''dev_app'', None),
          (ListRolePoliciesInput ''dev'' ''dev_app'', None),
          (GetRolePolicyInput ''dev'' ''dev_app'' ''dev_inline'', None),
          (ListRoleTagsInput ''dev'' ''dev_app'', Some ''AccessDenied'')]\<rparr>)"
  by (simp_all add: GetRoleInfo_def denying_sdk_def demo_world_def demo_role_def call_def
      processPolicyDocument_def processStringPolicy_def getManagedPolicies_def
      getInlinePolicies_def getRoleTags_def Let_def)

theorem C6_failures_are_surfaced_witness:
  "iamCreateRole failing_sdk (calls demo_world) (profile (Client ''prod'')) ''prod_app'' ''{}''
       (if ''cloned'' \<noteq> [] then Some ''cloned'' else None) = Some ''AccessDenied'' \<and>
   fst (CreateRole failing_sdk (Client ''prod'') ''prod_app'' ''{}'' ''cloned'' demo_world)
     = Some ''failed to create role prod_app: AccessDenied'' \<and>
   iamAttachRolePolicy failing_sdk (calls demo_world) (profile (Client ''prod'')) ''prod_app''
       ''arn:aws:iam::aws:policy/ReadOnlyAccess'' = Some ''AccessDenied'' \<and>
   fst (AttachManagedPolicy failing_sdk (Client ''prod'') ''prod_app''
          ''arn:aws:iam::aws:policy/ReadOnlyAccess'' demo_world)
     = Some ''failed to attach policy arn:aws:iam::aws:policy/ReadOnlyAccess to role prod_app: AccessDenied'' \<and>
   iamPutRolePolicy failing_sdk (calls demo_world) (profile (Client ''prod'')) ''prod_app''
       ''prod_inline'' ''{}'' = Some ''AccessDenied'' \<and>
   fst (CreateInlinePolicy failing_sdk (Client ''prod'') ''prod_app'' ''prod_inline'' ''{}''
          demo_world)
     = Some ''failed to create inline policy prod_inline for role prod_app: AccessDenied'' \<and>
   [(''Team'', ''core'')] \<noteq> [] \<and>
   iamTagRole failing_sdk (calls demo_world) (profile (Client ''prod'')) ''prod_app''
       [(''Team'', ''core'')] = Some ''AccessDenied'' \<and>
   fst (TagRole failing_sdk (Client ''prod'') ''prod_app'' [(''Team'', ''core'')] demo_world)
     = Some ''failed to tag role prod_app: AccessDenied'' \<and>
   iamGetRole failing_sdk (calls demo_world) (profile (Client ''prod'')) ''prod_app''
     = Inl ''AccessDenied'' \<and>
   fst (GetRoleInfo failing_sdk (Client ''prod'') ''prod_app'' demo_world)
     = Inl ''failed to get role prod_app: AccessDenied'' \<and>
   fst (RoleExists failing_sdk (Client ''prod'') ''prod_app'' demo_world) = False \<and>
   (GetRoleInput ''prod'' ''prod_app'', Some ''AccessDenied'')
     \<in> set (sent demo_world (snd (GetRoleInfo failing_sdk (Client ''prod'') ''prod_app''
                                     demo_world))) \<and>
   (ListRolesInput ''prod'', Some ''AccessDenied'')
     \<in> set (sent demo_world (snd (ListRoles failing_sdk (Client ''prod'') ''prod_'' demo_world))) \<and>
   fst (ListRoles failing_sdk (Client ''prod'') ''prod_'' demo_world)
     = Inl ''failed to list roles: AccessDenied'' \<and>
   (ListAttachedRolePoliciesInput ''dev'' ''dev_app'', Some ''AccessDenied'')
     \<in> set (sent demo_world (snd (GetRoleInfo (denying_sdk 1) (Client ''dev'') ''dev_app''
                                     demo_world))) \<and>
   fst (GetRoleInfo (denying_sdk 1) (Client ''dev'') ''dev_app'' demo_world)
     = Inl ''failed to get managed policies: AccessDenied'' \<and>
   (ListRolePoliciesInput ''dev'' ''dev_app'', Some ''AccessDenied'')
     \<in> set (sent demo_world (snd (GetRoleInfo (denying_sdk 2) (Client ''dev'') ''dev_app''
                                     demo_world))) \<and>
   fst (GetRoleInfo (denying_sdk 2) (Client ''dev'') ''dev_app'' demo_world)
     = Inl ''failed to get inline policies: AccessDenied'' \<and>
   (GetRolePolicyInput ''dev'' ''dev_app'' ''dev_inline'', Some ''AccessDenied'')
     \<in> set (sent demo_world (snd (GetRoleInfo (denying_sdk 3) (Client ''dev'') ''dev_app''
                                     demo_world))) \<and>
   fst (GetRoleInfo (denying_sdk 3) (Client ''dev'') ''dev_app'' demo_world)
     = Inl ''failed to get inline policies: AccessDenied'' \<and>
   (ListRoleTagsInput ''dev'' ''dev_app'', Some ''AccessDenied'')
     \<in> set (sent demo_world (snd (GetRoleInfo (denying_sdk 4) (Client ''dev'') ''dev_app''
                                     demo_world))) \<and>
   fst (GetRoleInfo (denying_sdk 4) (Client ''dev'') ''dev_app'' demo_world)
     = Inl ''failed to get tags: AccessDenied''"
proof -
  have g: "(GetRoleInput ''prod'' ''prod_app'', Some ''AccessDenied'')
     \<in> set (sent demo_world (snd (GetRoleInfo failing_sdk (Client ''prod'') ''prod_app''
                                     demo_world)))"
    by (simp add: GetRoleInfo_def failing_sdk_def sent_def demo_world_def)
  have l: "(ListRolesInput ''prod'', Some ''AccessDenied'')
     \<in> set (sent demo_world (snd (ListRoles failing_sdk (Client ''prod'') ''prod_'' demo_world)))"
    by (simp add: ListRoles_def failing_sdk_def sent_def demo_world_def)
  have s: "iamCreateRole failing_sdk h p r t d = Some ''AccessDenied''"
    "iamAttachRolePolicy failing_sdk h p r a = Some ''AccessDenied''"
    "iamPutRolePolicy failing_sdk h p r n t = Some ''AccessDenied''"
    "iamTagRole failing_sdk h p r ts = Some ''AccessDenied''"
    "iamGetRole failing_sdk h p r = Inl ''AccessDenied''"
    for h p r t d a n ts
    by (simp_all add: failing_sdk_def)
  have h1: "(ListAttachedRolePoliciesInput ''dev'' ''dev_app'', Some ''AccessDenied'')
     \<in> set (sent demo_world (snd (GetRoleInfo (denying_sdk 1) (Client ''dev'') ''dev_app''
                                     demo_world)))"
    unfolding denying_GetRoleInfo by (simp add: sent_def demo_world_def)
  have h2: "(ListRolePoliciesInput ''dev'' ''dev_app'', Some ''AccessDenied'')
     \<in> set (sent demo_world (snd (GetRoleInfo (denying_sdk 2) (Client ''dev'') ''dev_app''
                                     demo_world)))"
    unfolding denying_GetRoleInfo by (simp add: sent_def demo_world_def)
  have h3: "(GetRolePolicyInput ''dev'' ''dev_app'' ''dev_inline'', Some ''AccessDenied'')
     \<in> set (sent demo_world (snd (GetRoleInfo (denying_sdk 3) (Client ''dev'') ''dev_app''
                                     demo_world)))"
    unfolding denying_GetRoleInfo by (simp add: sent_def demo_world_def)
  have h4: "(ListRoleTagsInput ''dev'' ''dev_app'', Some ''AccessDenied'')
     \<in> set (sent demo_world (snd (GetRoleInfo (denying_sdk 4) (Client ''dev'') ''dev_app''
                                     demo_world)))"
    unfolding denying_GetRoleInfo by (simp add: sent_def demo_world_def)
  note t = C6_failures_are_surfaced [where w = demo_world and e = "''AccessDenied''"]
  note t0 = t [where lib = failing_sdk
        and c = "Client ''prod''" and roleName = "''prod_app''" and trustPolicy = "''{}''"
        and description = "''cloned''"
        and policyArn = "''arn:aws:iam::aws:policy/ReadOnlyAccess''"
        and policyName = "''prod_inline''" and policyDocument = "''{}''"
        and tags = "[(''Team'', ''core'')]" and p = "''prod''" and r = "''prod_app''"
        and req = "GetRoleInput ''prod'' ''prod_app''" and req' = "ListRolesInput ''prod''" and prefix = "''prod_''"]
  note t' = t [where c = "Client ''dev''" and roleName = "''dev_app''" and p = "''dev''"
        and r = "''dev_app''" and n = "''dev_inline''"]
  have c0: "fst (CreateRole failing_sdk (Client ''prod'') ''prod_app'' ''{}'' ''cloned'' demo_world)
      = Some ''failed to create role prod_app: AccessDenied'' \<and>
    fst (AttachManagedPolicy failing_sdk (Client ''prod'') ''prod_app''
          ''arn:aws:iam::aws:policy/ReadOnlyAccess'' demo_world)
     = Some ''failed to attach policy arn:aws:iam::aws:policy/ReadOnlyAccess to role prod_app: AccessDenied'' \<and>
    fst (CreateInlinePolicy failing_sdk (Client ''prod'') ''prod_app'' ''prod_inline'' ''{}''
          demo_world)
     = Some ''failed to create inline policy prod_inline for role prod_app: AccessDenied'' \<and>
    fst (TagRole failing_sdk (Client ''prod'') ''prod_app'' [(''Team'', ''core'')] demo_world)
     = Some ''failed to tag role prod_app: AccessDenied'' \<and>
    fst (GetRoleInfo failing_sdk (Client ''prod'') ''prod_app'' demo_world)
     = Inl ''failed to get role prod_app: AccessDenied'' \<and>
    fst (RoleExists failing_sdk (Client ''prod'') ''prod_app'' demo_world) = False \<and>
    fst (ListRoles failing_sdk (Client ''prod'') ''prod_'' demo_world)
     = Inl ''failed to list roles: AccessDenied''"
    using t0 g l s by simp
  have c1: "fst (GetRoleInfo (denying_sdk 1) (Client ''dev'') ''dev_app'' demo_world)
     = Inl ''failed to get managed policies: AccessDenied''"
    using t' [where lib = "denying_sdk 1"] h1 by simp
  have c2: "fst (GetRoleInfo (denying_sdk 2) (Client ''dev'') ''dev_app'' demo_world)
     = Inl ''failed to get inline policies: AccessDenied''"
    using t' [where lib = "denying_sdk 2"] h2 by simp
  have c3: "fst (GetRoleInfo (denying_sdk 3) (Client ''dev'') ''dev_app'' demo_world)
     = Inl ''failed to get inline policies: AccessDenied''"
    using t' [where lib = "denying_sdk 3"] h3 by simp
  have c4: "fst (GetRoleInfo (denying_sdk 4) (Client ''dev'') ''dev_app'' demo_world)
     = Inl ''failed to get tags: AccessDenied''"
    using t' [where lib = "denying_sdk 4"] h4 by simp
  show ?thesis
    using c0 c1 c2 c3 c4 g l s h1 h2 h3 h4 by simp
qed

subsection \<open>C7: failures after the creation of the role\<close>

text \<open>
  Claim C7: in a run that is no dry run, once \<open>CreateRole\<close> has succeeded for a role
  (the record of \<open>cloneSingleRole\<close> holds a successful \<open>CreateRole\<close> request),
  \<open>cloneSingleRole\<close> returns success whatever the later requests answer. After the
  existence check and \<open>CreateRole\<close> it sends one \<open>AttachRolePolicy\<close> for every managed
  policy, one \<open>PutRolePolicy\<close> for every inline policy, with the name and the body
  rewritten, and one \<open>TagRole\<close> when the role has tags, in that order; every one of them
  that fails has its warning on the console; and the loop counts the role as a success and
  goes on with the next role.
\<close>

theorem C7_failures_after_create_are_warnings:
  "\<not> DryRun config \<Longrightarrow>
   GetRoleInfo lib sourceClient sourceRole
      (Debug log (''  Getting role information for: '' @ sourceRole) w) = (Inr roleInfo, w2) \<Longrightarrow>
   (CreateRoleInput p r t d, None)
     \<in> set (sent w2 (snd (cloneSingleRole lib sourceClient (Some dc) sourceRole destRole
                             config log w))) \<Longrightarrow>
   fst (cloneSingleRole lib sourceClient (Some dc) sourceRole destRole config log w)
     = Return None \<and>
   p = profile dc \<and> r = destRole \<and>
   t = ReplacePatternInJSON (TrustPolicy roleInfo) (SourcePattern config) (DestPattern config) \<and>
   map fst (sent w2 (snd (cloneSingleRole lib sourceClient (Some dc) sourceRole destRole
                            config log w)))
     = [GetRoleInput (profile dc) destRole, CreateRoleInput p r t d]
       @ map (AttachRolePolicyInput (profile dc) destRole) (ManagedPolicies roleInfo)
       @ map (\<lambda>(policyName, policyDocument).
                PutRolePolicyInput (profile dc) destRole
                  (GenerateNewRoleName policyName (SourcePattern config) (DestPattern config))
                  (ReplacePatternInJSON policyDocument (SourcePattern config)
                     (DestPattern config)))
           (InlinePolicies roleInfo)
       @ (if Tags roleInfo = [] then []
          else [TagRoleInput (profile dc) destRole
                  (cloneSingleRole_processedTags config (Tags roleInfo))]) \<and>
   (\<forall>req e. (req, Some e)
        \<in> set (drop 2 (sent w2 (snd (cloneSingleRole lib sourceClient (Some dc) sourceRole
                                       destRole config log w))))
      \<longrightarrow> (WARNING, warning req e)
            \<in> set (console (snd (cloneSingleRole lib sourceClient (Some dc) sourceRole destRole
                                    config log w)))) \<and>
   (destRole = GenerateNewRoleName sourceRole (SourcePattern config) (DestPattern config) \<and>
    w = Progress log (i + 1) (length (Roles config))
          (''Cloning: '' @ sourceRole @ '' '' @ rarrow @ '' '' @ destRole) w0 \<longrightarrow>
      performCloning_roles lib sourceClient (Some dc) config log i (sourceRole # roles) n w0
        = performCloning_roles lib sourceClient (Some dc) config log (i + 1) roles (n + 1)
            (Success log (''Successfully cloned: '' @ sourceRole @ '' '' @ rarrow @ '' '' @ destRole)
               (snd (cloneSingleRole lib sourceClient (Some dc) sourceRole destRole
                       config log w))))"
proof -
  assume nd: "\<not> DryRun config"
  let ?c = "cloneSingleRole lib sourceClient (Some dc) sourceRole destRole config log w"
  assume f: "GetRoleInfo lib sourceClient sourceRole
      (Debug log (''  Getting role information for: '' @ sourceRole) w) = (Inr roleInfo, w2)"
  assume created: "(CreateRoleInput p r t d, None) \<in> set (sent w2 (snd ?c))"
  let ?w3 = "Debug log (''  Retrieved role info: ''
                      @ natStr (length (ManagedPolicies roleInfo)) @ '' managed policies, ''
                      @ natStr (length (InlinePolicies roleInfo)) @ '' inline policies, ''
                      @ natStr (length (Tags roleInfo)) @ '' tags'') w2"
  let ?real = "cloneSingleRole_real lib dc sourceRole destRole config log roleInfo ?w3"
  let ?tp = "ReplacePatternInJSON (TrustPolicy roleInfo) (SourcePattern config) (DestPattern config)"
  let ?reqs = "map (AttachRolePolicyInput (profile dc) destRole) (ManagedPolicies roleInfo)
       @ map (\<lambda>(policyName, policyDocument).
                PutRolePolicyInput (profile dc) destRole
                  (GenerateNewRoleName policyName (SourcePattern config) (DestPattern config))
                  (ReplacePatternInJSON policyDocument (SourcePattern config)
                     (DestPattern config)))
           (InlinePolicies roleInfo)
       @ (if Tags roleInfo = [] then []
          else [TagRoleInput (profile dc) destRole
                  (cloneSingleRole_processedTags config (Tags roleInfo))])"
  have c: "?c = (Return (fst ?real), snd ?real)"
    by (rule cloneSingleRole_fetched [OF nd f])
  have c3: "calls ?w3 = calls w2" by simp
  show ?thesis
  proof (cases "iamGetRole lib (calls ?w3) (profile dc) destRole")
    case (Inr role)
    have "sent w2 (snd ?c) = [(GetRoleInput (profile dc) destRole, None)]"
      unfolding sent_def c snd_conv cloneSingleRole_real_exists [OF Inr] by simp
    then show ?thesis using created by simp
  next
    case (Inl e0)
    let ?desc = "''Cloned from '' @ sourceRole @ '' on ''
                   @ Now lib (calls ?w3 @ [(GetRoleInput (profile dc) destRole, Some e0)])"
    show ?thesis
    proof (cases "iamCreateRole lib (calls ?w3 @ [(GetRoleInput (profile dc) destRole, Some e0)])
              (profile dc) destRole ?tp (Some ?desc)")
      case (Some err)
      have k2: "calls (snd ?real) = calls ?w3 @ [(GetRoleInput (profile dc) destRole, Some e0),
                (CreateRoleInput (profile dc) destRole ?tp (Some ?desc), Some err)]"
        by (rule cloneSingleRole_real_create_failed(2) [OF Inl Some])
      have "sent w2 (snd ?c) = [(GetRoleInput (profile dc) destRole, Some e0),
                (CreateRoleInput (profile dc) destRole ?tp (Some ?desc), Some err)]"
        unfolding sent_def c snd_conv k2 by simp
      then show ?thesis using created by simp
    next
      case None
      note k = cloneSingleRole_real_created [OF Inl None]
      obtain evs out where e:
        "calls (snd ?real) = calls ?w3 @ [(GetRoleInput (profile dc) destRole, Some e0),
            (CreateRoleInput (profile dc) destRole ?tp (Some ?desc), None)] @ evs"
        "console (snd ?real) = console ?w3 @ out"
        "map fst evs = ?reqs"
        "\<forall>req e. (req, Some e) \<in> set evs \<longrightarrow> (WARNING, warning req e) \<in> set out"
        using k(2) [of log] by blast
      have s: "sent w2 (snd ?c) = [(GetRoleInput (profile dc) destRole, Some e0),
            (CreateRoleInput (profile dc) destRole ?tp (Some ?desc), None)] @ evs"
        unfolding sent_def c snd_conv e(1) by simp
      have "CreateRoleInput p r t d \<notin> set ?reqs" by auto
      then have "(CreateRoleInput p r t d, None) \<notin> set evs"
        using e(3) by (metis fst_conv image_eqI set_map)
      then have eq: "p = profile dc" "r = destRole" "t = ?tp" "d = Some ?desc"
        using created s by auto
      have r1: "fst ?c = Return None" by (simp only: c fst_conv k(1))
      have r2: "map fst (sent w2 (snd ?c))
          = [GetRoleInput (profile dc) destRole, CreateRoleInput p r t d] @ ?reqs"
        using s e(3) eq by simp
      have r3: "\<forall>req e. (req, Some e) \<in> set (drop 2 (sent w2 (snd ?c)))
          \<longrightarrow> (WARNING, warning req e) \<in> set (console (snd ?c))"
      proof -
        have d: "drop 2 (sent w2 (snd ?c)) = evs" by (simp only: s) simp
        have o: "console (snd ?c) = console ?w3 @ out" by (simp only: c snd_conv e(2))
        show ?thesis using e(4) unfolding d o by auto
      qed
      have r4: "performCloning_roles lib sourceClient (Some dc) config log i (sourceRole # roles) n w0
        = performCloning_roles lib sourceClient (Some dc) config log (i + 1) roles (n + 1)
            (Success log (''Successfully cloned: '' @ sourceRole @ '' '' @ rarrow @ '' '' @ destRole)
               (snd ?c))"
        if "destRole = GenerateNewRoleName sourceRole (SourcePattern config) (DestPattern config) \<and>
            w = Progress log (i + 1) (length (Roles config))
                  (''Cloning: '' @ sourceRole @ '' '' @ rarrow @ '' '' @ destRole) w0"
        using performCloning_roles_counted [of lib sourceClient "Some dc" sourceRole config log i w0
            roles n] r1 that
        by simp
      show ?thesis using r1 eq(1,2,3) r2 r3 r4 by blast
    qed
  qed
qed

text \<open>
  The theorem at the concrete run in which the attachment, the inline policy and the tags
  are all denied: the role still counts as cloned.
\<close>

theorem C7_failures_after_create_are_warnings_witness:
  "\<not> DryRun (demo_config False False) \<and>
   GetRoleInfo (demo_sdk True False False) (Client ''dev'') ''dev_app''
       (Debug \<lparr>verbose = False\<rparr> (''  Getting role information for: '' @ ''dev_app'')
          demo_progress)
     = (Inr demo_info, demo_progress\<lparr>calls := demo_reads\<rparr>) \<and>
   (CreateRoleInput ''prod'' ''prod_app'' ''{prod_}''
      (Some ''Cloned from dev_app on 2025-01-01 00:00:00''), None)
     \<in> set (sent (demo_progress\<lparr>calls := demo_reads\<rparr>)
          (snd (cloneSingleRole (demo_sdk True False False) (Client ''dev'')
                  (Some (Client ''prod'')) ''dev_app'' ''prod_app'' (demo_config False False)
                  \<lparr>verbose = False\<rparr> demo_progress))) \<and>
   fst (cloneSingleRole (demo_sdk True False False) (Client ''dev'') (Some (Client ''prod''))
          ''dev_app'' ''prod_app'' (demo_config False False) \<lparr>verbose = False\<rparr> demo_progress)
     = Return None \<and>
   sent (demo_progress\<lparr>calls := demo_reads\<rparr>)
        (snd (cloneSingleRole (demo_sdk True False False) (Client ''dev'')
                (Some (Client ''prod'')) ''dev_app'' ''prod_app'' (demo_config False False)
                \<lparr>verbose = False\<rparr> demo_progress))
     = demo_writes \<and>
   console (snd (cloneSingleRole (demo_sdk True False False) (Client ''dev'')
                (Some (Client ''prod'')) ''dev_app'' ''prod_app'' (demo_config False False)
                \<lparr>verbose = False\<rparr> demo_progress))
     = console demo_progress @ demo_warnings \<and>
   fst (performCloning_roles (demo_sdk True False False) (Client ''dev'') (Some (Client ''prod''))
          (demo_config False False) \<lparr>verbose = False\<rparr> 0 [''dev_app''] 0 demo_world)
     = Return 1"
proof -
  let ?log = "\<lparr>verbose = False\<rparr>"
  let ?cfg = "demo_config False False"
  let ?lib = "demo_sdk True False False"
  let ?w2 = "demo_progress\<lparr>calls := demo_reads\<rparr>"
  let ?c = "cloneSingleRole ?lib (Client ''dev'') (Some (Client ''prod'')) ''dev_app'' ''prod_app''
              ?cfg ?log demo_progress"
  have nd: "\<not> DryRun ?cfg" by simp
  have g: "GetRoleInfo ?lib (Client ''dev'') ''dev_app''
       (Debug ?log (''  Getting role information for: '' @ ''dev_app'') demo_progress)
     = (Inr demo_info, ?w2)"
    by (simp add: demo_GetRoleInfo Debug_def)
  have c: "?c = (Return None, ?w2\<lparr>calls := calls ?w2 @ demo_writes,
                                    console := console ?w2 @ demo_warnings\<rparr>)"
    unfolding cloneSingleRole_fetched [OF nd g] demo_real by (simp add: Debug_def)
  have s: "sent ?w2 (snd ?c) = demo_writes"
    by (simp add: c sent_def)
  have k: "console (snd ?c) = console demo_progress @ demo_warnings"
    by (simp add: c)
  have cr: "(CreateRoleInput ''prod'' ''prod_app'' ''{prod_}''
      (Some ''Cloned from dev_app on 2025-01-01 00:00:00''), None) \<in> set (sent ?w2 (snd ?c))"
    by (simp add: s demo_writes_def)
  have d: "''prod_app'' = GenerateNewRoleName ''dev_app'' (SourcePattern ?cfg) (DestPattern ?cfg) \<and>
      demo_progress = Progress ?log (0 + 1) (length (Roles ?cfg))
        (''Cloning: '' @ ''dev_app'' @ '' '' @ rarrow @ '' '' @ ''prod_app'') demo_world"
    by (simp add: demo_newRole demo_progress_def)
  note t = C7_failures_after_create_are_warnings [OF nd g cr, where i = 0 and ?w0.0 = demo_world
      and roles = "[]" and n = 0]
  from t d have r1: "fst ?c = Return None"
    and r4: "performCloning_roles ?lib (Client ''dev'') (Some (Client ''prod'')) ?cfg ?log 0
               [''dev_app''] 0 demo_world
             = performCloning_roles ?lib (Client ''dev'') (Some (Client ''prod'')) ?cfg ?log
                 (0 + 1) [] (0 + 1)
                 (Success ?log (''Successfully cloned: '' @ ''dev_app'' @ '' '' @ rarrow @ '' ''
                                @ ''prod_app'') (snd ?c))"
    by blast+
  have r5: "fst (performCloning_roles ?lib (Client ''dev'') (Some (Client ''prod'')) ?cfg ?log 0
               [''dev_app''] 0 demo_world) = Return 1"
    by (simp only: r4 performCloning_roles.simps(1) fst_conv) simp
  show ?thesis using nd g cr r1 s k r5 by simp
qed

subsection \<open>C8: the flag of the version command\<close>

lemma ParseFlags_names: "ParseFlags fs args = Inr fs' \<Longrightarrow> map Name fs' = map Name fs"
proof (induction fs args arbitrary: fs' rule: ParseFlags.induct)
  case (1 fs)
  then show ?case by simp
next
  case (2 fs name rest)
  then obtain f where "find (\<lambda>f. Name f = name) fs = Some f"
    by (cases "find (\<lambda>f. Name f = name) fs") auto
  then have "map Name fs' = map Name (map (\<lambda>f. if Name f = name then f\<lparr>Value := True\<rparr> else f) fs)"
    using 2 by simp
  also have "\<dots> = map Name fs" by (induction fs) auto
  finally show ?case .
next
  case (3 fs c rest)
  then obtain f where "find (\<lambda>f. Shorthand f = [c]) fs = Some f"
    by (cases "find (\<lambda>f. Shorthand f = [c]) fs") auto
  then have "map Name fs'
      = map Name (map (\<lambda>f. if Shorthand f = [c] then f\<lparr>Value := True\<rparr> else f) fs)"
    using 3 by simp
  also have "\<dots> = map Name fs" by (induction fs) auto
  finally show ?case .
qed

lemma GetBool_undefined: "name \<notin> set (map Name fs) \<Longrightarrow> fst (GetBool fs name) = False"
proof -
  assume "name \<notin> set (map Name fs)"
  then have "find (\<lambda>f. Name f = name) fs = None"
    by (induction fs) auto
  then show ?thesis by (simp add: GetBool_def)
qed

lemma versionCmd_Flags_names:
  "map Name versionCmd_Flags = [''verbose'', ''dry-run'', ''help'', ''explain'']"
  by (simp add: versionCmd_Flags_def BoolP_def)

text \<open>
  Claim C8 says that the version command accepts \<open>--detailed\<close> (shorthand \<open>-e\<close>) and then
  prints the detailed build information. The code registers the flag under the name
  \<open>explain\<close> and reads the name \<open>detailed\<close>: the command line \<open>--detailed\<close> is
  rejected as an unknown flag, \<open>-e\<close> and \<open>--explain\<close> print the one-line version, and
  no command line prints the detailed one.
\<close>

theorem C8_version_never_detailed:
  "versionCmd_Execute b [Long ''detailed''] = Failed ''unknown flag: --detailed'' \<and>
   versionCmd_Execute b [Short CHR ''e''] = Printed (showSimpleVersion b) \<and>
   versionCmd_Execute b [Long ''explain''] = Printed (showSimpleVersion b) \<and>
   versionCmd_Execute b [] = Printed (showSimpleVersion b) \<and>
   versionCmd_Execute b args \<noteq> Printed (showDetailedVersion b)"
proof (intro conjI)
  show "versionCmd_Execute b [Long ''detailed''] = Failed ''unknown flag: --detailed''"
    by (simp add: versionCmd_Execute_def versionCmd_Flags_def BoolP_def)
  show "versionCmd_Execute b [Short CHR ''e''] = Printed (showSimpleVersion b)"
    by (simp add: versionCmd_Execute_def versionCmd_Flags_def BoolP_def GetBool_def
        versionCmd_Run_def)
  show "versionCmd_Execute b [Long ''explain''] = Printed (showSimpleVersion b)"
    by (simp add: versionCmd_Execute_def versionCmd_Flags_def BoolP_def GetBool_def
        versionCmd_Run_def)
  show "versionCmd_Execute b [] = Printed (showSimpleVersion b)"
    by (simp add: versionCmd_Execute_def versionCmd_Flags_def BoolP_def GetBool_def
        versionCmd_Run_def)
  show "versionCmd_Execute b args \<noteq> Printed (showDetailedVersion b)"
  proof (cases "ParseFlags versionCmd_Flags args")
    case (Inl err)
    then show ?thesis by (simp add: versionCmd_Execute_def)
  next
    case (Inr flags)
    then have "map Name flags = [''verbose'', ''dry-run'', ''help'', ''explain'']"
      using ParseFlags_names versionCmd_Flags_names by metis
    then have "''detailed'' \<notin> set (map Name flags)" by simp
    then have "fst (GetBool flags ''detailed'') = False" by (rule GetBool_undefined)
    then have "versionCmd_Run b flags = showSimpleVersion b"
      by (simp add: versionCmd_Run_def split_beta)
    moreover have "showSimpleVersion b \<noteq> showDetailedVersion b"
      by (simp add: showSimpleVersion_def showDetailedVersion_def)
    ultimately show ?thesis using Inr by (simp add: versionCmd_Execute_def)
  qed
qed

subsection \<open>C9: the cloning step returns no error\<close>

text \<open>
  Claim C9: once the clients are constructed (the source client, and the destination
  client when the run is no dry run), \<open>performCloning\<close> returns nil, whatever the
  service answers for the roles. Its last success line is the summary, with a count between
  0 and the number of selected roles; the wizard then finishes without \<open>os.Exit\<close> and
  writes the line that the cloning completed successfully, followed by the line that names
  the log file.
\<close>

theorem C9_performCloning_returns_nil:
  "LoadDefaultConfig lib (calls w) (SourceProfile config) = None \<Longrightarrow>
   (\<not> DryRun config \<longrightarrow>
      LoadDefaultConfig lib (calls w @ [(LoadDefaultConfigInput (SourceProfile config), None)])
        (DestProfile config) = None) \<Longrightarrow>
   fst (performCloning lib config log w) = Return None \<and>
   (\<exists>k \<le> length (Roles config).
      last (filter (\<lambda>l. fst l = SUCCESS) (console (snd (performCloning lib config log w))))
        = (SUCCESS, ''Cloning completed: '' @ natStr k @ ''/'' @ natStr (length (Roles config))
                    @ '' roles successful'')) \<and>
   fst (runEnhancedClone_step5 lib config log w) = Return Done \<and>
   console (snd (runEnhancedClone_step5 lib config log w))
     = console (snd (performCloning lib config log w))
       @ [(SUCCESS, [CHR 0xF0, CHR 0x9F, CHR 0x8E, CHR 0x89]
                    @ '' Role cloning completed successfully!''),
          (INFO, ''Log file saved: '' @ LogFile config)]"
proof -
  assume src: "LoadDefaultConfig lib (calls w) (SourceProfile config) = None"
  assume dst: "\<not> DryRun config \<longrightarrow>
      LoadDefaultConfig lib (calls w @ [(LoadDefaultConfigInput (SourceProfile config), None)])
        (DestProfile config) = None"
  let ?w1 = "Separator log (Info log ''Step 5: Role Cloning Process'' w)"
  let ?w2 = "call (LoadDefaultConfigInput (SourceProfile config)) None ?w1"
  let ?sc = "Client (SourceProfile config)"
  have n1: "NewClient lib (SourceProfile config) ?w1 = (Inr ?sc, ?w2)"
    using src by (simp add: NewClient_def)
  let ?w3 = "if DryRun config then ?w2
             else call (LoadDefaultConfigInput (DestProfile config)) None ?w2"
  let ?dc = "if DryRun config then None else Some (Client (DestProfile config))"
  have n2: "(if \<not> DryRun config then
               (case NewClient lib (DestProfile config) ?w2 of
                  (Inl err, w3) \<Rightarrow> (Inl err, w3)
                | (Inr c, w3) \<Rightarrow> (Inr (Some c), w3))
             else (Inr None, ?w2)) = (Inr ?dc, ?w3)"
    using dst by (simp add: NewClient_def)
  let ?l = "performCloning_roles lib ?sc ?dc config log 0 (Roles config) 0 ?w3"
  obtain k where k: "fst ?l = Return k" "k \<le> length (Roles config)"
    using performCloning_roles_returns [of config ?dc lib ?sc log 0 "Roles config" 0 ?w3]
    by (cases "DryRun config") auto
  obtain w4 where l: "?l = (Return k, w4)" using k(1) by (metis prod.collapse)
  let ?w6 = "Success log (''Cloning completed: '' @ natStr k @ ''/''
                @ natStr (length (Roles config)) @ '' roles successful'') (Separator log w4)"
  let ?w7 = "if DryRun config then
               Info log ''This was a dry run. Use without --dry-run to perform actual cloning.'' ?w6
             else ?w6"
  have p: "performCloning lib config log w = (Return None, ?w7)"
    unfolding performCloning_def Let_def n1 n2 prod.case sum.case l go.case by simp
  have "last (filter (\<lambda>l. fst l = SUCCESS) (console ?w7))
      = (SUCCESS, ''Cloning completed: '' @ natStr k @ ''/'' @ natStr (length (Roles config))
                    @ '' roles successful'')"
    by simp
  then have s: "\<exists>k \<le> length (Roles config).
      last (filter (\<lambda>l. fst l = SUCCESS) (console (snd (performCloning lib config log w))))
        = (SUCCESS, ''Cloning completed: '' @ natStr k @ ''/'' @ natStr (length (Roles config))
                    @ '' roles successful'')"
    unfolding p snd_conv using k(2) by blast
  have r: "fst (performCloning lib config log w) = Return None" by (simp add: p)
  have e: "runEnhancedClone_step5 lib config log w
      = (Return Done,
         Info log (''Log file saved: '' @ LogFile config)
           (Success log ([CHR 0xF0, CHR 0x9F, CHR 0x8E, CHR 0x89]
                         @ '' Role cloning completed successfully!'') ?w7))"
    unfolding runEnhancedClone_step5_def p by simp
  have c: "console (snd (runEnhancedClone_step5 lib config log w))
     = console (snd (performCloning lib config log w))
       @ [(SUCCESS, [CHR 0xF0, CHR 0x9F, CHR 0x8E, CHR 0x89]
                    @ '' Role cloning completed successfully!''),
          (INFO, ''Log file saved: '' @ LogFile config)]"
    unfolding e p by simp
  show ?thesis using r s e c by simp
qed

text \<open>
  The theorem at the concrete run in which the one selected role cannot be fetched: no role
  is cloned, the summary says 0/1, and the wizard still reports success.
\<close>

theorem C9_performCloning_returns_nil_witness:
  "LoadDefaultConfig (demo_sdk False False True) (calls demo_world)
       (SourceProfile (demo_config False False)) = None \<and>
   \<not> DryRun (demo_config False False) \<and>
   LoadDefaultConfig (demo_sdk False False True)
       (calls demo_world @ [(LoadDefaultConfigInput (SourceProfile (demo_config False False)), None)])
       (DestProfile (demo_config False False)) = None \<and>
   fst (performCloning (demo_sdk False False True) (demo_config False False)
          \<lparr>verbose = False\<rparr> demo_world) = Return None \<and>
   last (filter (\<lambda>l. fst l = SUCCESS)
      (console (snd (performCloning (demo_sdk False False True) (demo_config False False)
          \<lparr>verbose = False\<rparr> demo_world))))
     = (SUCCESS, ''Cloning completed: 0/1 roles successful'') \<and>
   fst (runEnhancedClone_step5 (demo_sdk False False True) (demo_config False False)
          \<lparr>verbose = False\<rparr> demo_world) = Return Done \<and>
   console (snd (runEnhancedClone_step5 (demo_sdk False False True) (demo_config False False)
          \<lparr>verbose = False\<rparr> demo_world))
     = console (snd (performCloning (demo_sdk False False True) (demo_config False False)
          \<lparr>verbose = False\<rparr> demo_world))
       @ [(SUCCESS, [CHR 0xF0, CHR 0x9F, CHR 0x8E, CHR 0x89]
                    @ '' Role cloning completed successfully!''),
          (INFO, ''Log file saved: clone.log'')]"
  using C9_performCloning_returns_nil [of "demo_sdk False False True" demo_world
      "demo_config False False" "\<lparr>verbose = False\<rparr>"]
    demo_performCloning_none_cloned(2) [of False True]
  by simp

subsection \<open>C10: the empty source pattern\<close>

text \<open>
  Claim C10: the wizard accepts the empty source pattern (a prompt only trims the line it
  reads, and the step returns no error). With the empty source pattern and a non-empty
  destination pattern, \<open>GenerateNewRoleName\<close> and \<open>ReplacePatternInJSON\<close> do not return
  their input: the destination pattern is written before every UTF-8 sequence of the input
  (every byte of an ASCII input) and at its end. \<open>ListRoles\<close> with the empty prefix
  returns every role of every page.
\<close>

theorem C10_empty_source_pattern:
  "(SourcePattern config = [] \<longrightarrow>
      fst (fst (getPatternConfiguration config log w)) = None \<and>
      SourcePattern (snd (fst (getPatternConfiguration config log w)))
        = TrimSpace (fst (ReadString w))) \<and>
   (dst \<noteq> [] \<longrightarrow>
      GenerateNewRoleName name [] dst = dst @ concat (map (\<lambda>r. r @ dst) (runes name)) \<and>
      ReplacePatternInJSON name [] dst = dst @ concat (map (\<lambda>r. r @ dst) (runes name)) \<and>
      GenerateNewRoleName name [] dst \<noteq> name \<and>
      ReplacePatternInJSON name [] dst \<noteq> name) \<and>
   concat (runes name) = name \<and>
   ((\<forall>c \<in> set name. (of_char c :: nat) < 0x80) \<longrightarrow> runes name = map (\<lambda>c. [c]) name) \<and>
   (iamListRoles lib (calls w) (profile c) = map Inr pages \<longrightarrow>
      fst (ListRoles lib c [] w) = Inr (concat pages))"
proof (intro conjI impI)
  assume "SourcePattern config = []"
  then show "SourcePattern (snd (fst (getPatternConfiguration config log w)))
        = TrimSpace (fst (ReadString w))"
    by (rule getPatternConfiguration_SourcePattern)
next
  show "fst (fst (getPatternConfiguration config log w)) = None"
    by (rule getPatternConfiguration_accepts)
next
  assume d: "dst \<noteq> []"
  then show "GenerateNewRoleName name [] dst = dst @ concat (map (\<lambda>r. r @ dst) (runes name))"
    by (simp add: GenerateNewRoleName_def ReplaceAll_empty_old)
  show "ReplacePatternInJSON name [] dst = dst @ concat (map (\<lambda>r. r @ dst) (runes name))"
    using d by (simp add: ReplacePatternInJSON_def ReplaceAll_empty_old)
  have "ReplaceAll name [] dst \<noteq> name"
    using d by (auto simp: ReplaceAll_fixed_iff)
  then show "GenerateNewRoleName name [] dst \<noteq> name" "ReplacePatternInJSON name [] dst \<noteq> name"
    by (simp_all add: GenerateNewRoleName_def ReplacePatternInJSON_def)
next
  show "concat (runes name) = name" by (rule concat_runes)
next
  assume "\<forall>c \<in> set name. (of_char c :: nat) < 0x80"
  then show "runes name = map (\<lambda>c. [c]) name" by (rule runes_ascii)
next
  assume "iamListRoles lib (calls w) (profile c) = map Inr pages"
  then show "fst (ListRoles lib c [] w) = Inr (concat pages)"
    by (simp add: ListRoles_def ListRoles_pages_ok)
qed

text \<open>
  The theorem at a blank answer to the prompt, at the role name \<open>app\<close> with the
  destination pattern \<open>prod_\<close>, and at a listing of one page with two roles.
\<close>

theorem C10_empty_source_pattern_witness:
  "SourcePattern ((demo_config False False)\<lparr>SourcePattern := []\<rparr>) = [] \<and>
   fst (fst (getPatternConfiguration ((demo_config False False)\<lparr>SourcePattern := []\<rparr>)
          \<lparr>verbose = False\<rparr> (demo_world\<lparr>stdin := [CHR 0x0A]\<rparr>))) = None \<and>
   SourcePattern (snd (fst (getPatternConfiguration
          ((demo_config False False)\<lparr>SourcePattern := []\<rparr>)
          \<lparr>verbose = False\<rparr> (demo_world\<lparr>stdin := [CHR 0x0A]\<rparr>)))) = [] \<and>
   GenerateNewRoleName ''app'' [] ''prod_'' = ''prod_aprod_pprod_pprod_'' \<and>
   ReplacePatternInJSON ''app'' [] ''prod_'' = ''prod_aprod_pprod_pprod_'' \<and>
   runes ''app'' = [''a'', ''p'', ''p''] \<and>
   iamListRoles (demo_sdk True False True) (calls (demo_world\<lparr>stdin := [CHR 0x0A]\<rparr>))
       (profile (Client ''dev''))
     = map Inr [[''dev_app'', ''ops'']] \<and>
   fst (ListRoles (demo_sdk True False True) (Client ''dev'') []
          (demo_world\<lparr>stdin := [CHR 0x0A]\<rparr>)) = Inr [''dev_app'', ''ops'']"
  using C10_empty_source_pattern [of "(demo_config False False)\<lparr>SourcePattern := []\<rparr>"
      "\<lparr>verbose = False\<rparr>" "demo_world\<lparr>stdin := [CHR 0x0A]\<rparr>" "''prod_''" "''app''"
      "demo_sdk True False True" "Client ''dev''" "[[''dev_app'', ''ops'']]"]
  by (simp add: demo_config_def demo_world_def demo_sdk_def ReadString_def TrimSpace_def
      trimLeft.simps trimRight.simps leadingSpace_def trailingSpace_def spaceSeqs_def
      HasPrefix_def HasSuffix_def)

end
